theory Spec2Isabelle
  imports Complex_Main
begin

section \<open>Data model (src/types/game.ts, src/types/card.ts)\<close>

text \<open>
  The records follow the TypeScript interfaces. A JavaScript \<open>number\<close> that holds an amount
  of money is an \<open>int\<close>, a counter that starts at 0 and is only incremented is a \<open>nat\<close>.
  An optional or nullable field is an \<open>option\<close>. The fields \<open>name\<close>, \<open>type\<close>,
  \<open>difficulty\<close>, \<open>color\<close> and \<open>pawIndex\<close> of a player, \<open>name\<close> and \<open>theme\<close> of a
  property and the \<open>message\<close> of a result are presentation data that no operation below
  reads, and are left out. The field \<open>id\<close> is suffixed, since \<open>id\<close> is the identity of HOL.
\<close>

datatype BombeeType = none | mini | normal | king

datatype GamePhase =
  card_use | dice_roll | moving | junction | square_action | bombee_action | year_end | game_over

record Position =
  cityId_pos :: string
  routeId :: "string option"
  squareIndex :: int
  previousCityId :: "string option"

record Player =
  id_player :: string
  money :: int
  totalAssets :: int
  position :: Position
  hand :: "string list"
  bombeeType :: BombeeType
  bombeeElapsedTurns :: nat
  incomeMultiplier :: "int option"
  diceMultiplier :: "int option"
  bombeeImmuneYears :: "int option"

text \<open>
  The interface \<open>Property\<close> is declared in a file that is not part of the sources at hand;
  its fields are the ones that PropertyManager.ts reads and that the tests construct.
\<close>

record Property =
  id_prop :: string
  cityId :: string
  price :: int
  income :: int
  upgradePrices :: "int list"
  upgradeIncomes :: "int list"
  upgradeLevel :: nat
  ownerId :: "string option"

record GameState =
  id_game :: string
  currentYear :: int
  currentMonth :: int
  totalYears :: int
  currentPlayerIndex :: nat
  phase :: GamePhase
  players :: "Player list"
  properties :: "Property list"
  destinationCityId :: string
  turnCount :: nat

text \<open>JavaScript truthiness of an optional string: \<open>undefined\<close>, \<open>null\<close> and \<open>""\<close> are falsy.\<close>

definition truthy :: "string option \<Rightarrow> bool" where
  "truthy s = (case s of None \<Rightarrow> False | Some v \<Rightarrow> v \<noteq> [])"

text \<open>\<open>xs.reduce((sum, p) => sum + f(p), 0)\<close>\<close>

definition reduce_sum :: "('a \<Rightarrow> int) \<Rightarrow> 'a list \<Rightarrow> int" where
  "reduce_sum f xs = foldl (\<lambda>sum p. sum + f p) 0 xs"

section \<open>PropertyManager (src/game/PropertyManager.ts)\<close>

datatype PurchaseReason = not_enough_money | already_owned

record PurchaseResult =
  success :: bool
  reason :: "PurchaseReason option"
  newState :: "GameState option"

record IncomeResult =
  playerId_income :: string
  propertyIncome :: int
  monopolyBonus :: int
  totalIncome :: int

definition getPropertiesByCity :: "Property list \<Rightarrow> string \<Rightarrow> Property list" where
  "getPropertiesByCity props c = filter (\<lambda>p. cityId p = c) props"

definition getOwnedProperties :: "Property list \<Rightarrow> string \<Rightarrow> Property list" where
  "getOwnedProperties props playerId = filter (\<lambda>p. ownerId p = Some playerId) props"

definition hasMonopoly :: "Property list \<Rightarrow> string \<Rightarrow> string \<Rightarrow> bool" where
  "hasMonopoly props c playerId =
     (let cityProps = filter (\<lambda>p. cityId p = c) props
      in length cityProps > 0 \<and> list_all (\<lambda>p. ownerId p = Some playerId) cityProps)"

definition getCurrentPrice :: "Property \<Rightarrow> int" where
  "getCurrentPrice property = price property"

text \<open>
  \<open>upgradeIncomes[upgradeLevel - 1] ?? income\<close>: a read past the end of the array is
  \<open>undefined\<close>, and the base income is returned.
\<close>

definition getCurrentIncome :: "Property \<Rightarrow> int" where
  "getCurrentIncome property =
     (if upgradeLevel property = 0 then income property
      else if upgradeLevel property - 1 < length (upgradeIncomes property)
           then upgradeIncomes property ! (upgradeLevel property - 1)
           else income property)"

text \<open>\<open>Math.floor(x * 0.5)\<close> of an integer \<open>x\<close> is \<open>x div 2\<close> (rounding towards minus infinity).\<close>

definition getLandFee :: "Property \<Rightarrow> int" where
  "getLandFee property = getCurrentIncome property div 2"

definition recalcTotalAssets :: "GameState \<Rightarrow> GameState" where
  "recalcTotalAssets state =
     state\<lparr>players :=
       map (\<lambda>player.
              let propertyValue =
                    reduce_sum price
                      (filter (\<lambda>p. ownerId p = Some (id_player player)) (properties state))
              in player\<lparr>totalAssets := money player + propertyValue\<rparr>)
           (players state)\<rparr>"

definition buyProperty :: "GameState \<Rightarrow> string \<Rightarrow> string \<Rightarrow> PurchaseResult" where
  "buyProperty state playerId propertyId =
     (case (find (\<lambda>p. id_player p = playerId) (players state),
            find (\<lambda>p. id_prop p = propertyId) (properties state)) of
        (Some player, Some property) \<Rightarrow>
          if ownerId property \<noteq> None
          then \<lparr>success = False, reason = Some already_owned, newState = None\<rparr>
          else
            let currentPrice = getCurrentPrice property in
            if money player < currentPrice
            then \<lparr>success = False, reason = Some not_enough_money, newState = None\<rparr>
            else
              let newPlayers =
                    map (\<lambda>p. if id_player p = playerId
                               then p\<lparr>money := money p - currentPrice\<rparr> else p)
                        (players state);
                  newProperties =
                    map (\<lambda>p. if id_prop p = propertyId
                               then p\<lparr>ownerId := Some playerId\<rparr> else p)
                        (properties state)
              in \<lparr>success = True, reason = None,
                  newState = Some (recalcTotalAssets
                                     (state\<lparr>players := newPlayers,
                                            properties := newProperties\<rparr>))\<rparr>
      | _ \<Rightarrow> \<lparr>success = False, reason = Some not_enough_money, newState = None\<rparr>)"

definition upgradeProperty :: "GameState \<Rightarrow> string \<Rightarrow> string \<Rightarrow> PurchaseResult" where
  "upgradeProperty state playerId propertyId =
     (case (find (\<lambda>p. id_player p = playerId) (players state),
            find (\<lambda>p. id_prop p = propertyId) (properties state)) of
        (Some player, Some property) \<Rightarrow>
          if ownerId property \<noteq> Some playerId
          then \<lparr>success = False, reason = None, newState = None\<rparr>
          else if upgradeLevel property \<ge> length (upgradePrices property)
          then \<lparr>success = False, reason = None, newState = None\<rparr>
          else
            let upgradeCost = upgradePrices property ! upgradeLevel property in
            if money player < upgradeCost
            then \<lparr>success = False, reason = Some not_enough_money, newState = None\<rparr>
            else
              let newPlayers =
                    map (\<lambda>p. if id_player p = playerId
                               then p\<lparr>money := money p - upgradeCost\<rparr> else p)
                        (players state);
                  newProperties =
                    map (\<lambda>p. if id_prop p = propertyId
                               then p\<lparr>upgradeLevel := upgradeLevel p + 1\<rparr> else p)
                        (properties state)
              in \<lparr>success = True, reason = None,
                  newState = Some (recalcTotalAssets
                                     (state\<lparr>players := newPlayers,
                                            properties := newProperties\<rparr>))\<rparr>
      | _ \<Rightarrow> \<lparr>success = False, reason = None, newState = None\<rparr>)"

text \<open>
  \<open>!property.ownerId\<close> holds for \<open>null\<close> and for the empty string. After that test the
  owner id is a string, named \<open>owner\<close> below.
\<close>

definition payLandFee :: "GameState \<Rightarrow> string \<Rightarrow> string \<Rightarrow> GameState" where
  "payLandFee state payerId propertyId =
     (case (find (\<lambda>p. id_player p = payerId) (players state),
            find (\<lambda>p. id_prop p = propertyId) (properties state)) of
        (Some payer, Some property) \<Rightarrow>
          (case ownerId property of
             None \<Rightarrow> state
           | Some owner \<Rightarrow>
               if owner = [] \<or> owner = payerId then state
               else
                 let fee = getLandFee property;
                     actualFee = min fee (money payer);
                     newPlayers =
                       map (\<lambda>p. if id_player p = payerId
                                  then p\<lparr>money := money p - actualFee\<rparr>
                                  else if id_player p = owner
                                  then p\<lparr>money := money p + actualFee\<rparr>
                                  else p)
                           (players state)
                 in recalcTotalAssets (state\<lparr>players := newPlayers\<rparr>))
      | _ \<Rightarrow> state)"

definition sellPropertyForcibly :: "GameState \<Rightarrow> string \<Rightarrow> string \<Rightarrow> GameState" where
  "sellPropertyForcibly state playerId propertyId =
     (case (find (\<lambda>p. id_player p = playerId) (players state),
            find (\<lambda>p. id_prop p = propertyId) (properties state)) of
        (Some player, Some property) \<Rightarrow>
          if ownerId property \<noteq> Some playerId then state
          else
            let sellValue = price property div 2;
                newPlayers =
                  map (\<lambda>p. if id_player p = playerId
                             then p\<lparr>money := money p + sellValue\<rparr> else p)
                      (players state);
                newProperties =
                  map (\<lambda>p. if id_prop p = propertyId
                             then p\<lparr>ownerId := None, upgradeLevel := 0\<rparr> else p)
                      (properties state)
            in recalcTotalAssets (state\<lparr>players := newPlayers, properties := newProperties\<rparr>)
      | _ \<Rightarrow> state)"

text \<open>
  \<open>calcPlayerAnnualIncome\<close> groups the owned properties in a \<open>Map\<close> keyed by city. A
  JavaScript \<open>Map\<close> iterates in insertion order and \<open>set\<close> on a present key keeps the key's
  place: an association list, updated in place or extended at the end.
\<close>

fun map_set :: "string \<Rightarrow> 'v \<Rightarrow> (string \<times> 'v) list \<Rightarrow> (string \<times> 'v) list" where
  "map_set k v [] = [(k, v)]"
| "map_set k v ((k', v') # m) = (if k' = k then (k, v) # m else (k', v') # map_set k v m)"

definition map_get_or :: "(string \<times> 'v) list \<Rightarrow> string \<Rightarrow> 'v \<Rightarrow> 'v" where
  "map_get_or m k d = (case map_of m k of None \<Rightarrow> d | Some v \<Rightarrow> v)"

fun groupByCity :: "Property list \<Rightarrow> (string \<times> Property list) list
                      \<Rightarrow> (string \<times> Property list) list" where
  "groupByCity [] byCityId = byCityId"
| "groupByCity (p # owned) byCityId =
     groupByCity owned (map_set (cityId p) (map_get_or byCityId (cityId p) [] @ [p]) byCityId)"

text \<open>The loop over the entries of the map, carrying \<open>(propertyIncome, monopolyBonus)\<close>.\<close>

fun incomeLoop :: "Property list \<Rightarrow> string \<Rightarrow> (string \<times> Property list) list
                     \<Rightarrow> int \<times> int \<Rightarrow> int \<times> int" where
  "incomeLoop props playerId [] acc = acc"
| "incomeLoop props playerId ((c, cityProps) # rest) (pIncome, mBonus) =
     (let cityIncome = reduce_sum getCurrentIncome cityProps;
          allCityProps = filter (\<lambda>p. cityId p = c) props;
          isMonopoly = (length allCityProps > 0
                        \<and> list_all (\<lambda>p. ownerId p = Some playerId) allCityProps)
      in incomeLoop props playerId rest
           (pIncome + cityIncome, if isMonopoly then mBonus + cityIncome else mBonus))"

definition calcPlayerAnnualIncome :: "Property list \<Rightarrow> string \<Rightarrow> IncomeResult" where
  "calcPlayerAnnualIncome props playerId =
     (let owned = getOwnedProperties props playerId in
      if length owned = 0
      then \<lparr>playerId_income = playerId, propertyIncome = 0, monopolyBonus = 0, totalIncome = 0\<rparr>
      else
        let byCityId = groupByCity owned [];
            (pIncome, mBonus) = incomeLoop props playerId byCityId (0, 0)
        in \<lparr>playerId_income = playerId, propertyIncome = pIncome, monopolyBonus = mBonus,
            totalIncome = pIncome + mBonus\<rparr>)"

section \<open>Randomness (src/utils/random.ts)\<close>

text \<open>
  \<open>Math.random()\<close> returns a number \<open>r\<close> with \<open>0 \<le> r < 1\<close>. Every call of it in the
  source is an argument of the model, of the type of such numbers. Products with a random
  number or with a decimal constant (\<open>x * 0.7\<close>) are taken exactly, where the source
  computes them in double precision and rounds: \<open>Math.floor(700 * 0.7)\<close> is 489 in the
  source and 490 here, \<open>Math.floor(1000 * (1 - 0.8))\<close> is 199 in the source and 200 here.
  The difference is one unit of an amount of money (a sale value, a refund, a stolen sum, a
  discounted price), and with it the outcome of a comparison of such an amount with a
  player's money at that boundary. The theorems below that quantify over all states do not
  state such amounts; the examples that state one use products that are exact in double
  precision (\<open>1000 * 0.3\<close>, \<open>1000 * 0.7\<close>, \<open>1000 * 0.8\<close>, \<open>1000 * 1\<close>).
\<close>

typedef random = "{r :: rat. 0 \<le> r \<and> r < 1}"
  morphisms draw Random
  by (rule exI [of _ 0]) simp

setup_lifting type_definition_random

lift_definition random_zero :: random is "0 :: rat"
  by simp

lift_definition random_half :: random is "1 / 2 :: rat"
  by simp

lift_definition random_high :: random is "9 / 10 :: rat"
  by simp

text \<open>\<open>Math.floor(x * c)\<close>\<close>

definition floor_times :: "int \<Rightarrow> rat \<Rightarrow> int" where
  "floor_times x c = \<lfloor>of_int x * c\<rfloor>"

definition randomInt :: "int \<Rightarrow> int \<Rightarrow> random \<Rightarrow> int" where
  "randomInt lo hi r = \<lfloor>draw r * of_int (hi - lo + 1)\<rfloor> + lo"

text \<open>
  \<open>arr[randomInt(0, arr.length - 1)]\<close>; the index is within the array whenever the array is
  not empty (lemma \<open>randomPick_in_set\<close>), and every call below is on a non-empty array.
\<close>

definition randomPick :: "'a list \<Rightarrow> random \<Rightarrow> 'a" where
  "randomPick arr r = arr ! nat (randomInt 0 (int (length arr) - 1) r)"

section \<open>BombeeManager (src/game/BombeeManager.ts) and its constants (src/config.ts)\<close>

definition MINI_TO_NORMAL_TURNS :: nat where
  "MINI_TO_NORMAL_TURNS = 5"

definition NORMAL_TO_KING_TURNS :: nat where
  "NORMAL_TO_KING_TURNS = 10"

text \<open>\<open>p.bombeeImmuneYears && p.bombeeImmuneYears > 0\<close>: false for \<open>undefined\<close> and for 0.\<close>

definition immune :: "Player \<Rightarrow> bool" where
  "immune p = (case bombeeImmuneYears p of None \<Rightarrow> False | Some y \<Rightarrow> y \<noteq> 0 \<and> y > 0)"

text \<open>\<open>reduce\<close> without an initial value starts from the first element.\<close>

definition getLastPlacePlayer :: "Player list \<Rightarrow> Player option" where
  "getLastPlacePlayer ps =
     (case ps of
        [] \<Rightarrow> None
      | first # rest \<Rightarrow>
          Some (foldl (\<lambda>worst p. if totalAssets p < totalAssets worst then p else worst)
                      first rest))"

definition attachBombeeToLastPlace :: "GameState \<Rightarrow> GameState" where
  "attachBombeeToLastPlace state =
     (let hasBombee = list_ex (\<lambda>p. bombeeType p \<noteq> none) (players state) in
      if hasBombee then state
      else if length (players state) < 2 then state
      else
        case getLastPlacePlayer (players state) of
          None \<Rightarrow> state
        | Some lastPlayer \<Rightarrow>
            let eligible = getLastPlacePlayer (filter (\<lambda>p. \<not> immune p) (players state));
                target = (case eligible of None \<Rightarrow> lastPlayer | Some e \<Rightarrow> e)
            in state\<lparr>players :=
                 map (\<lambda>p. if id_player p = id_player target
                            then p\<lparr>bombeeType := mini, bombeeElapsedTurns := 0\<rparr> else p)
                     (players state)\<rparr>)"

definition decrementBombeeImmunity :: "GameState \<Rightarrow> GameState" where
  "decrementBombeeImmunity state =
     state\<lparr>players :=
       map (\<lambda>p. case bombeeImmuneYears p of
                   None \<Rightarrow> p
                 | Some y \<Rightarrow> if y > 0 then p\<lparr>bombeeImmuneYears := Some (y - 1)\<rparr> else p)
           (players state)\<rparr>"

definition checkEvolution :: "BombeeType \<Rightarrow> nat \<Rightarrow> BombeeType" where
  "checkEvolution current elapsed =
     (if current = mini \<and> elapsed \<ge> MINI_TO_NORMAL_TURNS then normal
      else if current = normal \<and> elapsed \<ge> NORMAL_TO_KING_TURNS then king
      else current)"

text \<open>
  The actions return \<open>{ newState, message }\<close>; the model returns the new state. The three
  money thefts differ in the rate and in the minimum only.
\<close>

definition miniAction :: "GameState \<Rightarrow> Player \<Rightarrow> random \<Rightarrow> GameState" where
  "miniAction state target r =
     (let rate = draw r * (1 / 10) + 1 / 20;
          stolen = max 100 (floor_times (money target) rate);
          actualStolen = min stolen (money target)
      in if actualStolen \<le> 0 then state
         else state\<lparr>players :=
                map (\<lambda>p. if id_player p = id_player target
                           then p\<lparr>money := money p - actualStolen,
                                  totalAssets := totalAssets p - actualStolen\<rparr>
                           else p)
                    (players state)\<rparr>)"

definition normalAction :: "GameState \<Rightarrow> Player \<Rightarrow> random \<Rightarrow> random \<Rightarrow> random \<Rightarrow> GameState" where
  "normalAction state target rSell rPick rRate =
     (let ownedProperties = filter (\<lambda>p. ownerId p = Some (id_player target)) (properties state) in
      if length ownedProperties > 0 \<and> draw rSell < 1 / 2
      then
        let prop = randomPick ownedProperties rPick;
            sellValue = floor_times (price prop) (7 / 10)
        in state\<lparr>players :=
               map (\<lambda>p. if id_player p \<noteq> id_player target then p
                          else p\<lparr>money := money p + sellValue,
                                 totalAssets := totalAssets p - (price prop - sellValue)\<rparr>)
                   (players state),
             properties :=
               map (\<lambda>p. if id_prop p = id_prop prop then p\<lparr>ownerId := None\<rparr> else p)
                   (properties state)\<rparr>
      else
        let rate = draw rRate * (1 / 5) + 1 / 5;
            stolen = max 500 (floor_times (money target) rate);
            actualStolen = min stolen (money target)
        in if actualStolen \<le> 0 then state
           else state\<lparr>players :=
                  map (\<lambda>p. if id_player p \<noteq> id_player target then p
                             else p\<lparr>money := money p - actualStolen,
                                    totalAssets := totalAssets p - actualStolen\<rparr>)
                      (players state)\<rparr>)"

definition kingStealBig :: "GameState \<Rightarrow> Player \<Rightarrow> random \<Rightarrow> GameState" where
  "kingStealBig state target rRate =
     (let rate = draw rRate * (1 / 5) + 2 / 5;
          stolen = max 2000 (floor_times (money target) rate);
          actualStolen = min stolen (money target)
      in if actualStolen \<le> 0 then state
         else state\<lparr>players :=
                map (\<lambda>p. if id_player p \<noteq> id_player target then p
                           else p\<lparr>money := money p - actualStolen,
                                  totalAssets := totalAssets p - actualStolen\<rparr>)
                    (players state)\<rparr>)"

datatype KingActionKind = sell_all | steal_big | affect_all

text \<open>
  The loop of \<open>sell_all\<close> over the properties to sell, carrying \<open>totalLoss\<close> and the
  properties of \<open>newState\<close>.
\<close>

fun sellAllLoop :: "Property list \<Rightarrow> int \<times> Property list \<Rightarrow> int \<times> Property list" where
  "sellAllLoop [] acc = acc"
| "sellAllLoop (prop # rest) (totalLoss, props) =
     sellAllLoop rest
       (totalLoss + floor_times (price prop) (3 / 10),
        map (\<lambda>p. if id_prop p = id_prop prop then p\<lparr>ownerId := None\<rparr> else p) props)"

definition kingAction :: "GameState \<Rightarrow> Player \<Rightarrow> random \<Rightarrow> random \<Rightarrow> GameState" where
  "kingAction state target rAction rRate =
     (let action = randomPick [sell_all, steal_big, affect_all] rAction in
      if action = sell_all
      then
        let ownedProperties =
              take 3 (filter (\<lambda>p. ownerId p = Some (id_player target)) (properties state))
        in if length ownedProperties = 0 then kingStealBig state target rRate
           else
             let (totalLoss, newProperties) = sellAllLoop ownedProperties (0, properties state)
             in state\<lparr>properties := newProperties,
                      players :=
                        map (\<lambda>p. if id_player p \<noteq> id_player target then p
                                   else p\<lparr>money := max 0 (money p - totalLoss),
                                          totalAssets := max 0 (totalAssets p - totalLoss * 2)\<rparr>)
                            (players state)\<rparr>
      else if action = affect_all
      then state\<lparr>players :=
             map (\<lambda>p. let damage = max 100 (floor_times (money p) (1 / 10));
                           actual = min damage (money p)
                       in p\<lparr>money := money p - actual, totalAssets := totalAssets p - actual\<rparr>)
                 (players state)\<rparr>
      else kingStealBig state target rRate)"

text \<open>
  \<open>executeBombeeEffect\<close> passes on the random numbers that the action of the kind draws:
  the rate for \<open>mini\<close>; the sale coin, the pick and the rate for \<open>normal\<close>; the action pick
  and the rate for \<open>king\<close>.
\<close>

definition executeBombeeEffect ::
    "GameState \<Rightarrow> string \<Rightarrow> BombeeType \<Rightarrow> random \<Rightarrow> random \<Rightarrow> random \<Rightarrow> GameState" where
  "executeBombeeEffect state targetId kind r1 r2 r3 =
     (case find (\<lambda>p. id_player p = targetId) (players state) of
        None \<Rightarrow> state
      | Some target \<Rightarrow>
          (case kind of
             mini \<Rightarrow> miniAction state target r1
           | normal \<Rightarrow> normalAction state target r1 r2 r3
           | king \<Rightarrow> kingAction state target r1 r2
           | none \<Rightarrow> state))"

definition maybeMoveToLastPlace :: "GameState \<Rightarrow> string \<Rightarrow> random \<Rightarrow> GameState" where
  "maybeMoveToLastPlace state currentBombeeId rMove =
     (let eligible = filter (\<lambda>p. id_player p \<noteq> currentBombeeId \<and> \<not> immune p) (players state) in
      case getLastPlacePlayer eligible of
        None \<Rightarrow> state
      | Some lastPlayer \<Rightarrow>
          (case find (\<lambda>p. id_player p = currentBombeeId) (players state) of
             None \<Rightarrow> state
           | Some currentBombeePlayer \<Rightarrow>
               if totalAssets currentBombeePlayer \<le> totalAssets lastPlayer then state
               else if draw rMove < 3 / 4
               then state\<lparr>players :=
                      map (\<lambda>p. if id_player p = currentBombeeId
                                 then p\<lparr>bombeeType := none, bombeeElapsedTurns := 0\<rparr>
                                 else if id_player p = id_player lastPlayer
                                 then p\<lparr>bombeeType := bombeeType currentBombeePlayer,
                                        bombeeElapsedTurns := 0\<rparr>
                                 else p)
                          (players state)\<rparr>
               else state))"

definition processBombeeAction ::
    "GameState \<Rightarrow> random \<Rightarrow> random \<Rightarrow> random \<Rightarrow> random \<Rightarrow> GameState" where
  "processBombeeAction state r1 r2 r3 rMove =
     (case find (\<lambda>p. bombeeType p \<noteq> none) (players state) of
        None \<Rightarrow> state
      | Some bombeePlayer \<Rightarrow>
          let newElapsed = bombeeElapsedTurns bombeePlayer + 1;
              evolvedType = checkEvolution (bombeeType bombeePlayer) newElapsed;
              newState = state\<lparr>players :=
                           map (\<lambda>p. if id_player p = id_player bombeePlayer
                                      then p\<lparr>bombeeType := evolvedType,
                                             bombeeElapsedTurns := newElapsed\<rparr>
                                      else p)
                               (players state)\<rparr>;
              result = executeBombeeEffect newState (id_player bombeePlayer) evolvedType r1 r2 r3
          in maybeMoveToLastPlace result (id_player bombeePlayer) rMove)"

definition removeBombee :: "GameState \<Rightarrow> string \<Rightarrow> GameState" where
  "removeBombee state targetId =
     state\<lparr>players :=
       map (\<lambda>p. if id_player p = targetId
                  then p\<lparr>bombeeType := none, bombeeElapsedTurns := 0\<rparr> else p)
           (players state)\<rparr>"

definition getBombeePlayer :: "GameState \<Rightarrow> Player option" where
  "getBombeePlayer state = find (\<lambda>p. bombeeType p \<noteq> none) (players state)"

section \<open>CardManager (src/game/CardManager.ts)\<close>

datatype CardType =
  move_to_destination | move_steps | move_to_city | buy_property | steal_property
  | sell_property | get_money | pay_money | bombee_away | bombee_transfer | monopoly_break
  | card_steal | plus_dice | double_income

datatype CardRarity = common | uncommon | rare

record CardEffect =
  type_effect :: string
  value_effect :: "int option"
  targetType :: "string option"

record Card =
  id_card :: string
  type_card :: CardType
  effect :: CardEffect
  rarity :: CardRarity

datatype UseCardReason = not_found | not_owner | no_target | hand_full

record UseCardResult =
  success_use :: bool
  reason_use :: "UseCardReason option"
  newState_use :: "GameState option"

record UseCardOptions =
  targetPlayerId :: "string option"
  targetPropertyId :: "string option"
  targetCityId :: "string option"
  targetCardId :: "string option"

text \<open>
  A read of a field of \<open>undefined\<close> raises a \<open>TypeError\<close>. The source asserts with \<open>!\<close>
  that the player of \<open>usePayMoney\<close> is found; the model makes the failure a value, so that
  the absence of the exception is a statement about \<open>useCard\<close>.
\<close>

datatype JsError = TypeError

definition MAX_CARD_COUNT :: nat where
  "MAX_CARD_COUNT = 8"

definition fail_use :: "UseCardReason \<Rightarrow> UseCardResult" where
  "fail_use r = \<lparr>success_use = False, reason_use = Some r, newState_use = None\<rparr>"

definition ok_use :: "GameState \<Rightarrow> UseCardResult" where
  "ok_use s = \<lparr>success_use = True, reason_use = None, newState_use = Some s\<rparr>"

definition getCardById :: "Card list \<Rightarrow> string \<Rightarrow> Card option" where
  "getCardById allCards i = find (\<lambda>c. id_card c = i) allCards"

definition canDrawCard :: "GameState \<Rightarrow> string \<Rightarrow> bool" where
  "canDrawCard state playerId =
     (case find (\<lambda>p. id_player p = playerId) (players state) of
        None \<Rightarrow> False
      | Some player \<Rightarrow> length (hand player) < MAX_CARD_COUNT)"

definition getCardShopPrice :: "Card \<Rightarrow> int" where
  "getCardShopPrice crd =
     (case rarity crd of common \<Rightarrow> 500 | uncommon \<Rightarrow> 1500 | rare \<Rightarrow> 5000)"

record BuyCardResult =
  newState_buy :: GameState
  success_buy :: bool
  reason_buy :: "string option"

definition buyCard :: "Card list \<Rightarrow> GameState \<Rightarrow> string \<Rightarrow> string \<Rightarrow> BuyCardResult" where
  "buyCard allCards state playerId cardId =
     (case (find (\<lambda>p. id_player p = playerId) (players state), getCardById allCards cardId) of
        (Some player, Some crd) \<Rightarrow>
          if \<not> canDrawCard state playerId
          then \<lparr>newState_buy = state, success_buy = False, reason_buy = Some ''hand_full''\<rparr>
          else
            let shopPrice = getCardShopPrice crd in
            if money player < shopPrice
            then \<lparr>newState_buy = state, success_buy = False,
                  reason_buy = Some ''not_enough_money''\<rparr>
            else
              \<lparr>newState_buy =
                 state\<lparr>players :=
                   map (\<lambda>p. if id_player p = playerId
                              then p\<lparr>money := money p - shopPrice, hand := hand p @ [id_card crd]\<rparr>
                              else p)
                       (players state)\<rparr>,
               success_buy = True, reason_buy = None\<rparr>
      | _ \<Rightarrow> \<lparr>newState_buy = state, success_buy = False, reason_buy = Some ''not_found''\<rparr>)"

definition recalcTotalAssetsLocal :: "GameState \<Rightarrow> GameState" where
  "recalcTotalAssetsLocal state =
     state\<lparr>players :=
       map (\<lambda>player.
              let propertyValue =
                    reduce_sum price
                      (filter (\<lambda>p. ownerId p = Some (id_player player)) (properties state))
              in player\<lparr>totalAssets := money player + propertyValue\<rparr>)
           (players state)\<rparr>"

text \<open>The closure \<open>removeFromHand\<close> of \<open>useCard\<close>.\<close>

definition removeFromHand :: "string \<Rightarrow> string \<Rightarrow> GameState \<Rightarrow> GameState" where
  "removeFromHand playerId cardId s =
     s\<lparr>players :=
       map (\<lambda>p. if id_player p = playerId
                  then p\<lparr>hand := filter (\<lambda>i. i \<noteq> cardId) (hand p)\<rparr> else p)
           (players s)\<rparr>"

definition useMoveToDest :: "GameState \<Rightarrow> string \<Rightarrow> Card \<Rightarrow> UseCardResult" where
  "useMoveToDest state playerId crd =
     (if targetType (effect crd) = Some ''double_move_next_turn''
      then
        let multiplier = (case value_effect (effect crd) of None \<Rightarrow> 2 | Some v \<Rightarrow> v)
        in ok_use (state\<lparr>players :=
                     map (\<lambda>p. if id_player p = playerId
                                then p\<lparr>diceMultiplier := Some multiplier\<rparr> else p)
                         (players state)\<rparr>)
      else
        ok_use (state\<lparr>players :=
                  map (\<lambda>p. if id_player p = playerId
                             then p\<lparr>position :=
                                      (position p)\<lparr>cityId_pos := destinationCityId state\<rparr>\<rparr>
                             else p)
                      (players state)\<rparr>))"

text \<open>
  \<open>Math.floor((a * v) / 100)\<close> of integers is \<open>(a * v) div 100\<close>. The loop of
  \<open>all_players_each\<close> over the opponents carries \<open>totalReceived\<close> and \<open>newPlayers\<close>.
\<close>

fun receiveLoop :: "int \<Rightarrow> Player list \<Rightarrow> int \<times> Player list \<Rightarrow> int \<times> Player list" where
  "receiveLoop v [] acc = acc"
| "receiveLoop v (opp # rest) (totalReceived, newPlayers) =
     (let actual = min v (money opp)
      in receiveLoop v rest
           (totalReceived + actual,
            map (\<lambda>p. if id_player p = id_player opp
                       then p\<lparr>money := money p - actual, totalAssets := totalAssets p - actual\<rparr>
                       else p)
                newPlayers))"

definition useGetMoney :: "GameState \<Rightarrow> string \<Rightarrow> Card \<Rightarrow> UseCardResult" where
  "useGetMoney state playerId crd =
     (let v = (case value_effect (effect crd) of None \<Rightarrow> 1000 | Some v \<Rightarrow> v);
          tt = targetType (effect crd)
      in if tt = Some ''property_value_percent''
         then
           let propTotal = reduce_sum price
                             (filter (\<lambda>p. ownerId p = Some playerId) (properties state));
               gain = (propTotal * v) div 100
           in ok_use (state\<lparr>players :=
                        map (\<lambda>p. if id_player p = playerId
                                   then p\<lparr>money := money p + gain,
                                          totalAssets := totalAssets p + gain\<rparr>
                                   else p)
                            (players state)\<rparr>)
         else if tt = Some ''all_players_each''
         then
           let (totalReceived, newPlayers) =
                 receiveLoop v (filter (\<lambda>p. id_player p \<noteq> playerId) (players state))
                   (0, players state)
           in ok_use (state\<lparr>players :=
                        map (\<lambda>p. if id_player p = playerId
                                   then p\<lparr>money := money p + totalReceived,
                                          totalAssets := totalAssets p + totalReceived\<rparr>
                                   else p)
                            newPlayers\<rparr>)
         else
           ok_use (state\<lparr>players :=
                     map (\<lambda>p. if id_player p = playerId
                                then p\<lparr>money := money p + v, totalAssets := totalAssets p + v\<rparr>
                                else p)
                         (players state)\<rparr>))"

text \<open>
  The loop of the per-opponent payment carries \<open>totalPaid\<close>, \<open>remaining\<close> and
  \<open>newPlayers\<close>, and stops (\<open>break\<close>) when nothing remains.
\<close>

fun payLoop :: "int \<Rightarrow> Player list \<Rightarrow> int \<times> int \<times> Player list \<Rightarrow> int \<times> int \<times> Player list" where
  "payLoop v [] acc = acc"
| "payLoop v (opp # rest) (totalPaid, remaining, newPlayers) =
     (if remaining \<le> 0 then (totalPaid, remaining, newPlayers)
      else
        let actual = min v remaining
        in payLoop v rest
             (totalPaid + actual, remaining - actual,
              map (\<lambda>p. if id_player p = id_player opp
                         then p\<lparr>money := money p + actual, totalAssets := totalAssets p + actual\<rparr>
                         else p)
                  newPlayers))"

definition usePayMoney :: "GameState \<Rightarrow> string \<Rightarrow> Card \<Rightarrow> JsError + UseCardResult" where
  "usePayMoney state playerId crd =
     (let v = (case value_effect (effect crd) of None \<Rightarrow> 1000 | Some v \<Rightarrow> v);
          tt = targetType (effect crd)
      in case find (\<lambda>p. id_player p = playerId) (players state) of
           None \<Rightarrow> Inl TypeError
         | Some player \<Rightarrow>
             if tt = Some ''property_value_percent''
             then
               let propTotal = reduce_sum price
                                 (filter (\<lambda>p. ownerId p = Some playerId) (properties state));
                   actual = min ((propTotal * v) div 100) (money player)
               in Inr (ok_use (state\<lparr>players :=
                            map (\<lambda>p. if id_player p = playerId
                                       then p\<lparr>money := money p - actual,
                                              totalAssets := totalAssets p - actual\<rparr>
                                       else p)
                                (players state)\<rparr>))
             else if tt = Some ''total_assets_percent''
             then
               let actual = min ((totalAssets player * v) div 100) (money player)
               in Inr (ok_use (state\<lparr>players :=
                            map (\<lambda>p. if id_player p = playerId
                                       then p\<lparr>money := money p - actual,
                                              totalAssets := totalAssets p - actual\<rparr>
                                       else p)
                                (players state)\<rparr>))
             else if tt = Some ''all_players_each''
             then
               let opponents = filter (\<lambda>p. id_player p \<noteq> playerId) (players state);
                   (totalPaid, remaining, newPlayers) =
                     payLoop v opponents (0, money player, players state)
               in Inr (ok_use (state\<lparr>players :=
                            map (\<lambda>p. if id_player p = playerId
                                       then p\<lparr>money := money p - totalPaid,
                                              totalAssets := totalAssets p - totalPaid\<rparr>
                                       else p)
                                newPlayers\<rparr>))
             else
               let actual = min v (money player)
               in Inr (ok_use (state\<lparr>players :=
                            map (\<lambda>p. if id_player p = playerId
                                       then p\<lparr>money := money p - actual,
                                              totalAssets := totalAssets p - actual\<rparr>
                                       else p)
                                (players state)\<rparr>)))"

definition useBombeeTransfer :: "GameState \<Rightarrow> string \<Rightarrow> string \<Rightarrow> UseCardResult" where
  "useBombeeTransfer state fromId toId =
     (case (find (\<lambda>p. id_player p = fromId) (players state),
            find (\<lambda>p. id_player p = toId) (players state)) of
        (Some fromP, Some toP) \<Rightarrow>
          if bombeeType fromP = none then fail_use no_target
          else ok_use (state\<lparr>players :=
                         map (\<lambda>p. if id_player p = fromId
                                    then p\<lparr>bombeeType := none, bombeeElapsedTurns := 0\<rparr>
                                    else if id_player p = toId
                                    then p\<lparr>bombeeType := bombeeType fromP,
                                           bombeeElapsedTurns := 0\<rparr>
                                    else p)
                             (players state)\<rparr>)
      | _ \<Rightarrow> fail_use no_target)"

definition useCardSteal ::
    "GameState \<Rightarrow> string \<Rightarrow> string \<Rightarrow> string option \<Rightarrow> random \<Rightarrow> UseCardResult" where
  "useCardSteal state stealerId targetId targetCardIdOpt r =
     (let stealer = find (\<lambda>p. id_player p = stealerId) (players state) in
      case find (\<lambda>p. id_player p = targetId) (players state) of
        None \<Rightarrow> fail_use no_target
      | Some target \<Rightarrow>
          if length (hand target) = 0 then fail_use no_target
          else if (case stealer of None \<Rightarrow> False
                   | Some s \<Rightarrow> length (hand s) \<ge> MAX_CARD_COUNT)
          then fail_use hand_full
          else
            let stolen =
                  (case targetCardIdOpt of
                     None \<Rightarrow> randomPick (hand target) r
                   | Some c \<Rightarrow> if c \<noteq> [] \<and> c \<in> set (hand target) then c
                               else randomPick (hand target) r)
            in ok_use (state\<lparr>players :=
                         map (\<lambda>p. if id_player p = stealerId then p\<lparr>hand := hand p @ [stolen]\<rparr>
                                    else if id_player p = targetId
                                    then p\<lparr>hand := filter (\<lambda>i. i \<noteq> stolen) (hand p)\<rparr>
                                    else p)
                             (players state)\<rparr>))"

definition useMoveToCity :: "GameState \<Rightarrow> string \<Rightarrow> Card \<Rightarrow> UseCardResult" where
  "useMoveToCity state playerId crd =
     (let targetCity = (case targetType (effect crd) of None \<Rightarrow> ''tokyo'' | Some c \<Rightarrow> c)
      in ok_use (state\<lparr>players :=
                   map (\<lambda>p. if id_player p = playerId
                              then p\<lparr>position := (position p)\<lparr>cityId_pos := targetCity\<rparr>\<rparr>
                              else p)
                       (players state)\<rparr>))"

definition useBombeeAway :: "GameState \<Rightarrow> string \<Rightarrow> Card \<Rightarrow> UseCardResult" where
  "useBombeeAway state playerId crd =
     (case find (\<lambda>p. id_player p = playerId) (players state) of
        None \<Rightarrow> ok_use state
      | Some player \<Rightarrow>
          if bombeeType player = none then ok_use state
          else
            let isPermanent = (targetType (effect crd) = Some ''self_permanent'');
                immuneYears =
                  (if isPermanent
                   then (case value_effect (effect crd) of None \<Rightarrow> 1 | Some v \<Rightarrow> v)
                   else 0)
            in ok_use (state\<lparr>players :=
                         map (\<lambda>p. if id_player p = playerId
                                    then p\<lparr>bombeeType := none, bombeeElapsedTurns := 0,
                                           bombeeImmuneYears := Some immuneYears\<rparr>
                                    else p)
                             (players state)\<rparr>))"

text \<open>
  \<open>[...players].sort((a, b) => a.totalAssets - b.totalAssets)\<close> is a stable sort by total
  assets, as \<open>sort_key\<close> is.
\<close>

definition useBombeeTransferLastToSecond :: "GameState \<Rightarrow> UseCardResult" where
  "useBombeeTransferLastToSecond state =
     (case sort_key totalAssets (players state) of
        lastP # secondP # _ \<Rightarrow>
          if bombeeType lastP = none then fail_use no_target
          else ok_use (state\<lparr>players :=
                         map (\<lambda>p. if id_player p = id_player lastP
                                    then p\<lparr>bombeeType := none, bombeeElapsedTurns := 0\<rparr>
                                    else if id_player p = id_player secondP
                                    then p\<lparr>bombeeType := bombeeType lastP,
                                           bombeeElapsedTurns := 0\<rparr>
                                    else p)
                             (players state)\<rparr>)
      | _ \<Rightarrow> fail_use no_target)"

text \<open>
  The string of an optional argument that has been tested for truthiness.
\<close>

definition string_of :: "string option \<Rightarrow> string" where
  "string_of s = (case s of None \<Rightarrow> [] | Some v \<Rightarrow> v)"

text \<open>The update of the properties that returns a sold property to the market.\<close>

definition toMarket :: "string \<Rightarrow> Property list \<Rightarrow> Property list" where
  "toMarket propId props =
     map (\<lambda>p. if id_prop p = propId then p\<lparr>ownerId := None, upgradeLevel := 0\<rparr> else p) props"

text \<open>
  The loop of \<open>current_city_all\<close> over the properties to sell, carrying \<open>totalReceived\<close> and
  \<open>newProperties\<close>.
\<close>

fun sellCityLoop :: "rat \<Rightarrow> Property list \<Rightarrow> int \<times> Property list \<Rightarrow> int \<times> Property list" where
  "sellCityLoop sellRate [] acc = acc"
| "sellCityLoop sellRate (prop # rest) (totalReceived, newProperties) =
     sellCityLoop sellRate rest
       (totalReceived + floor_times (price prop) sellRate, toMarket (id_prop prop) newProperties)"

text \<open>\<open>props.reduce((min, p) => p.price < min.price ? p : min)\<close> from a first element.\<close>

definition cheapestFrom :: "Property \<Rightarrow> Property list \<Rightarrow> Property" where
  "cheapestFrom first rest = foldl (\<lambda>m p. if price p < price m then p else m) first rest"

definition useSellProperty ::
    "GameState \<Rightarrow> string \<Rightarrow> Card \<Rightarrow> string option \<Rightarrow> string option \<Rightarrow> string option
       \<Rightarrow> UseCardResult" where
  "useSellProperty state playerId crd targetPropertyIdOpt targetPlayerIdOpt currentCityId =
     (let sellRate = of_int (case value_effect (effect crd) of None \<Rightarrow> 100 | Some v \<Rightarrow> v) / 100
      in
      if targetType (effect crd) = Some ''current_city_all'' \<and> truthy currentCityId
      then
        let cityOwned = filter (\<lambda>p. cityId p = string_of currentCityId
                                    \<and> ownerId p = Some playerId) (properties state)
        in if length cityOwned = 0 then fail_use no_target
           else
             let (totalReceived, newProperties) =
                   sellCityLoop sellRate cityOwned (0, properties state);
                 newPlayers =
                   map (\<lambda>p. if id_player p = playerId
                              then p\<lparr>money := money p + totalReceived\<rparr> else p)
                       (players state)
             in ok_use (recalcTotalAssetsLocal
                          (state\<lparr>players := newPlayers, properties := newProperties\<rparr>))
      else if targetType (effect crd) = Some ''opponent_forced'' \<and> truthy targetPlayerIdOpt
      then
        (case filter (\<lambda>p. ownerId p = Some (string_of targetPlayerIdOpt)) (properties state) of
           [] \<Rightarrow> fail_use no_target
         | first # rest \<Rightarrow>
             let cheapest = cheapestFrom first rest;
                 sellPrice = floor_times (price cheapest) sellRate;
                 newPlayers =
                   map (\<lambda>p. if id_player p = string_of targetPlayerIdOpt
                              then p\<lparr>money := money p + sellPrice\<rparr> else p)
                       (players state);
                 newProperties = toMarket (id_prop cheapest) (properties state)
             in ok_use (recalcTotalAssetsLocal
                          (state\<lparr>players := newPlayers, properties := newProperties\<rparr>)))
      else
        (case filter (\<lambda>p. ownerId p = Some playerId) (properties state) of
           [] \<Rightarrow> fail_use no_target
         | first # rest \<Rightarrow>
             let chosen = (if truthy targetPropertyIdOpt
                           then find (\<lambda>p. id_prop p = string_of targetPropertyIdOpt) (first # rest)
                           else None);
                 target = (case chosen of None \<Rightarrow> first | Some t \<Rightarrow> t);
                 sellPrice = floor_times (price target) sellRate;
                 newPlayers =
                   map (\<lambda>p. if id_player p = playerId
                              then p\<lparr>money := money p + sellPrice\<rparr> else p)
                       (players state);
                 newProperties = toMarket (id_prop target) (properties state)
             in ok_use (recalcTotalAssetsLocal
                          (state\<lparr>players := newPlayers, properties := newProperties\<rparr>))))"

definition useStealProperty ::
    "GameState \<Rightarrow> string \<Rightarrow> Card \<Rightarrow> string option \<Rightarrow> UseCardResult" where
  "useStealProperty state playerId crd currentCityId =
     (if targetType (effect crd) = Some ''current_city_all'' \<and> truthy currentCityId
      then
        let cityOppProps =
              filter (\<lambda>p. cityId p = string_of currentCityId \<and> ownerId p \<noteq> None
                          \<and> ownerId p \<noteq> Some playerId) (properties state)
        in if length cityOppProps = 0 then fail_use no_target
           else
             let newProperties =
                   map (\<lambda>p. if find (\<lambda>op. id_prop op = id_prop p) cityOppProps \<noteq> None
                              then p\<lparr>ownerId := Some playerId\<rparr> else p)
                       (properties state)
             in ok_use (recalcTotalAssetsLocal (state\<lparr>properties := newProperties\<rparr>))
      else
        (case filter (\<lambda>p. id_player p \<noteq> playerId) (players state) of
           [] \<Rightarrow> fail_use no_target
         | firstOpp # restOpp \<Rightarrow>
             let richest = foldl (\<lambda>best p. if totalAssets p > totalAssets best then p else best)
                                 firstOpp restOpp
             in (case filter (\<lambda>p. ownerId p = Some (id_player richest)) (properties state) of
                   [] \<Rightarrow> fail_use no_target
                 | first # rest \<Rightarrow>
                     let cheapest = cheapestFrom first rest;
                         newProperties =
                           map (\<lambda>p. if id_prop p = id_prop cheapest
                                      then p\<lparr>ownerId := Some playerId\<rparr> else p)
                               (properties state)
                     in ok_use (recalcTotalAssetsLocal
                                  (state\<lparr>properties := newProperties\<rparr>)))))"

text \<open>
  \<open>[...new Set(ids)]\<close>: the distinct elements in the order of their first occurrence.
\<close>

definition setOf :: "string list \<Rightarrow> string list" where
  "setOf xs = foldl (\<lambda>acc x. if x \<in> set acc then acc else acc @ [x]) [] xs"

text \<open>
  The first search of \<open>useMonopolyBreak\<close>: the inner loop over the opponents and the outer
  loop over the cities return at the first city that an opponent owns completely.
\<close>

fun monopolyOpp :: "Property list \<Rightarrow> string list \<Rightarrow> string option" where
  "monopolyOpp cityProps [] = None"
| "monopolyOpp cityProps (oppId # rest) =
     (if list_all (\<lambda>p. ownerId p = Some oppId) cityProps then Some oppId
      else monopolyOpp cityProps rest)"

fun monopolyCity :: "Property list \<Rightarrow> string list \<Rightarrow> string list
                       \<Rightarrow> (Property list \<times> string) option" where
  "monopolyCity props opponentIds [] = None"
| "monopolyCity props opponentIds (c # rest) =
     (let cityProps = filter (\<lambda>p. cityId p = c) props
      in if length cityProps = 0 then monopolyCity props opponentIds rest
         else case monopolyOpp cityProps opponentIds of
                Some oppId \<Rightarrow> Some (cityProps, oppId)
              | None \<Rightarrow> monopolyCity props opponentIds rest)"

text \<open>
  The second search keeps in \<open>bestTarget\<close> the opponent, one of its properties and its share
  of the city with the highest share below 1. The property is found whenever the share is
  positive; the source asserts it with \<open>!\<close>.
\<close>

record BestTarget =
  oppId_best :: string
  prop_best :: Property
  ratio_best :: rat

fun bestInCity :: "Property list \<Rightarrow> string list \<Rightarrow> BestTarget option \<Rightarrow> BestTarget option" where
  "bestInCity cityProps [] bestTarget = bestTarget"
| "bestInCity cityProps (oppId # rest) bestTarget =
     (let count = length (filter (\<lambda>p. ownerId p = Some oppId) cityProps);
          ratio = of_nat count / of_nat (length cityProps)
      in if ratio > 0 \<and> ratio < 1
            \<and> (case bestTarget of None \<Rightarrow> True | Some b \<Rightarrow> ratio > ratio_best b)
         then (case find (\<lambda>p. ownerId p = Some oppId) cityProps of
                 Some prop \<Rightarrow>
                   bestInCity cityProps rest
                     (Some \<lparr>oppId_best = oppId, prop_best = prop, ratio_best = ratio\<rparr>)
               | None \<Rightarrow> bestInCity cityProps rest bestTarget)
         else bestInCity cityProps rest bestTarget)"

fun bestOverCities :: "Property list \<Rightarrow> string list \<Rightarrow> string list \<Rightarrow> BestTarget option
                         \<Rightarrow> BestTarget option" where
  "bestOverCities props opponentIds [] bestTarget = bestTarget"
| "bestOverCities props opponentIds (c # rest) bestTarget =
     (let cityProps = filter (\<lambda>p. cityId p = c) props
      in if length cityProps \<le> 1 then bestOverCities props opponentIds rest bestTarget
         else bestOverCities props opponentIds rest (bestInCity cityProps opponentIds bestTarget))"

definition useMonopolyBreak :: "GameState \<Rightarrow> string \<Rightarrow> Card \<Rightarrow> UseCardResult" where
  "useMonopolyBreak state playerId crd =
     (let opponentIds = map id_player (filter (\<lambda>p. id_player p \<noteq> playerId) (players state));
          cityIds = setOf (map cityId (properties state))
      in case monopolyCity (properties state) opponentIds cityIds of
           Some (cityProps, oppId) \<Rightarrow>
             (case cityProps of
                [] \<Rightarrow> fail_use no_target
              | first # rest \<Rightarrow>
                  let cheapest = cheapestFrom first rest;
                      refund = floor_times (price cheapest) (8 / 10);
                      newPlayers =
                        map (\<lambda>p. if id_player p = oppId
                                   then p\<lparr>money := money p + refund\<rparr> else p)
                            (players state);
                      newProperties = toMarket (id_prop cheapest) (properties state)
                  in ok_use (recalcTotalAssetsLocal
                               (state\<lparr>players := newPlayers, properties := newProperties\<rparr>)))
         | None \<Rightarrow>
             (case bestOverCities (properties state) opponentIds cityIds None of
                Some bestTarget \<Rightarrow>
                  let refund = floor_times (price (prop_best bestTarget)) (8 / 10);
                      newPlayers =
                        map (\<lambda>p. if id_player p = oppId_best bestTarget
                                   then p\<lparr>money := money p + refund\<rparr> else p)
                            (players state);
                      newProperties =
                        toMarket (id_prop (prop_best bestTarget)) (properties state)
                  in ok_use (recalcTotalAssetsLocal
                               (state\<lparr>players := newPlayers, properties := newProperties\<rparr>))
              | None \<Rightarrow> fail_use no_target))"

definition useBuyProperty ::
    "GameState \<Rightarrow> string \<Rightarrow> Card \<Rightarrow> string option \<Rightarrow> UseCardResult" where
  "useBuyProperty state playerId crd currentCityId =
     (case find (\<lambda>p. id_player p = playerId) (players state) of
        None \<Rightarrow> fail_use not_found
      | Some player \<Rightarrow>
          let tt = targetType (effect crd) in
          if tt = Some ''current_city_free_one'' \<and> truthy currentCityId
          then
            (case find (\<lambda>p. cityId p = string_of currentCityId \<and> ownerId p = None)
                       (properties state) of
               None \<Rightarrow> fail_use no_target
             | Some unowned \<Rightarrow>
                 let newProperties =
                       map (\<lambda>p. if id_prop p = id_prop unowned
                                  then p\<lparr>ownerId := Some playerId\<rparr> else p)
                           (properties state)
                 in ok_use (recalcTotalAssetsLocal (state\<lparr>properties := newProperties\<rparr>)))
          else if tt = Some ''any_location''
          then
            (case sort_key price
                    (filter (\<lambda>p. ownerId p = None \<and> money player \<ge> price p)
                            (properties state)) of
               [] \<Rightarrow> fail_use no_target
             | unowned # _ \<Rightarrow>
                 let newPlayers =
                       map (\<lambda>p. if id_player p = playerId
                                  then p\<lparr>money := money p - price unowned\<rparr> else p)
                           (players state);
                     newProperties =
                       map (\<lambda>p. if id_prop p = id_prop unowned
                                  then p\<lparr>ownerId := Some playerId\<rparr> else p)
                           (properties state)
                 in ok_use (recalcTotalAssetsLocal
                              (state\<lparr>players := newPlayers, properties := newProperties\<rparr>)))
          else if truthy currentCityId
          then
            let discountPct = (case value_effect (effect crd) of None \<Rightarrow> 0 | Some v \<Rightarrow> v);
                discountRate = of_int discountPct / 100
            in (case sort_key price
                       (filter (\<lambda>p. cityId p = string_of currentCityId \<and> ownerId p = None)
                               (properties state)) of
                  [] \<Rightarrow> fail_use no_target
                | unowned # _ \<Rightarrow>
                    let discountedPrice = floor_times (price unowned) (1 - discountRate) in
                    if money player < discountedPrice then fail_use no_target
                    else
                      let newPlayers =
                            map (\<lambda>p. if id_player p = playerId
                                       then p\<lparr>money := money p - discountedPrice\<rparr> else p)
                                (players state);
                          newProperties =
                            map (\<lambda>p. if id_prop p = id_prop unowned
                                       then p\<lparr>ownerId := Some playerId\<rparr> else p)
                                (properties state)
                      in ok_use (recalcTotalAssetsLocal
                                   (state\<lparr>players := newPlayers,
                                          properties := newProperties\<rparr>)))
          else fail_use no_target)"

definition useDoubleIncome :: "GameState \<Rightarrow> string \<Rightarrow> Card \<Rightarrow> UseCardResult" where
  "useDoubleIncome state playerId crd =
     (let multiplier = (case value_effect (effect crd) of None \<Rightarrow> 2 | Some v \<Rightarrow> v) in
      if targetType (effect crd) = Some ''one_month''
      then
        let owned = filter (\<lambda>p. ownerId p = Some playerId) (properties state);
            monthlyIncome =
              reduce_sum
                (\<lambda>p. (if upgradeLevel p = 0 then income p
                       else if upgradeLevel p - 1 < length (upgradeIncomes p)
                            then upgradeIncomes p ! (upgradeLevel p - 1)
                            else income p) div 12)
                owned;
            gain = monthlyIncome * multiplier
        in ok_use (state\<lparr>players :=
                     map (\<lambda>p. if id_player p = playerId
                                then p\<lparr>money := money p + gain,
                                       totalAssets := totalAssets p + gain\<rparr>
                                else p)
                         (players state)\<rparr>)
      else
        ok_use (state\<lparr>players :=
                  map (\<lambda>p. if id_player p = playerId
                             then p\<lparr>incomeMultiplier := Some multiplier\<rparr> else p)
                      (players state)\<rparr>))"

text \<open>
  \<open>useCard\<close>. The catalogue \<open>allCards\<close> of the manager and the random number that
  \<open>useCardSteal\<close> may draw are arguments.
\<close>

definition useCard ::
    "Card list \<Rightarrow> GameState \<Rightarrow> string \<Rightarrow> string \<Rightarrow> UseCardOptions \<Rightarrow> random
       \<Rightarrow> JsError + UseCardResult" where
  "useCard allCards state playerId cardId options r =
     (case (find (\<lambda>p. id_player p = playerId) (players state), getCardById allCards cardId) of
        (Some player, Some crd) \<Rightarrow>
          if cardId \<notin> set (hand player) then Inr (fail_use not_owner)
          else
            let removed = removeFromHand playerId cardId state in
            (case type_card crd of
               move_to_destination \<Rightarrow> Inr (useMoveToDest removed playerId crd)
             | get_money \<Rightarrow> Inr (useGetMoney removed playerId crd)
             | pay_money \<Rightarrow> usePayMoney removed playerId crd
             | bombee_transfer \<Rightarrow>
                 if targetType (effect crd) = Some ''last_to_second''
                 then Inr (useBombeeTransferLastToSecond removed)
                 else if \<not> truthy (targetPlayerId options) then Inr (fail_use no_target)
                 else Inr (useBombeeTransfer removed playerId (string_of (targetPlayerId options)))
             | card_steal \<Rightarrow>
                 if \<not> truthy (targetPlayerId options) then Inr (fail_use no_target)
                 else Inr (useCardSteal removed playerId (string_of (targetPlayerId options))
                             (targetCardId options) r)
             | move_to_city \<Rightarrow> Inr (useMoveToCity removed playerId crd)
             | bombee_away \<Rightarrow> Inr (useBombeeAway removed playerId crd)
             | sell_property \<Rightarrow>
                 Inr (useSellProperty removed playerId crd (targetPropertyId options)
                        (targetPlayerId options) (targetCityId options))
             | steal_property \<Rightarrow> Inr (useStealProperty removed playerId crd (targetCityId options))
             | monopoly_break \<Rightarrow> Inr (useMonopolyBreak removed playerId crd)
             | buy_property \<Rightarrow> Inr (useBuyProperty removed playerId crd (targetCityId options))
             | double_income \<Rightarrow> Inr (useDoubleIncome removed playerId crd)
             | move_steps \<Rightarrow> Inr (ok_use removed)
             | plus_dice \<Rightarrow> Inr (ok_use removed))
      | _ \<Rightarrow> Inr (fail_use not_found))"

section \<open>Test fixtures (tests/game/PropertyManager.test.ts)\<close>

definition makePlayer :: "string \<Rightarrow> int \<Rightarrow> Player" where
  "makePlayer i m =
     \<lparr>id_player = i, money = m, totalAssets = m,
      position = \<lparr>cityId_pos = ''tokyo'', routeId = None, squareIndex = 0,
                  previousCityId = None\<rparr>,
      hand = [], bombeeType = none, bombeeElapsedTurns = 0,
      incomeMultiplier = None, diceMultiplier = None, bombeeImmuneYears = None\<rparr>"

definition makeProperty :: "string \<Rightarrow> string \<Rightarrow> int \<Rightarrow> int \<Rightarrow> Property" where
  "makeProperty i c pr inc =
     \<lparr>id_prop = i, cityId = c, price = pr, income = inc,
      upgradePrices = [pr * 2, pr * 3], upgradeIncomes = [inc * 2, inc * 3],
      upgradeLevel = 0, ownerId = None\<rparr>"

definition makeState :: "Player list \<Rightarrow> Property list \<Rightarrow> GameState" where
  "makeState ps qs =
     \<lparr>id_game = ''test_game'', currentYear = 1, currentMonth = 4, totalYears = 10,
      currentPlayerIndex = 0, phase = dice_roll, players = ps, properties = qs,
      destinationCityId = ''osaka'', turnCount = 0\<rparr>"

text \<open>The state of the test suite's \<open>beforeEach\<close>.\<close>

definition test_state :: GameState where
  "test_state =
     makeState [makePlayer ''p1'' 10000, makePlayer ''p2'' 10000]
               [makeProperty ''prop1'' ''tokyo'' 1000 200, makeProperty ''prop2'' ''tokyo'' 2000 400]"

text \<open>Both properties of the city bought by \<open>p1\<close> (the monopoly test).\<close>

definition monopoly_props :: "Property list" where
  "monopoly_props =
     [(makeProperty ''prop1'' ''tokyo'' 1000 200)\<lparr>ownerId := Some ''p1''\<rparr>,
      (makeProperty ''prop2'' ''tokyo'' 2000 400)\<lparr>ownerId := Some ''p1''\<rparr>]"

text \<open>A payer with 30 in cash on a property of \<open>p2\<close> whose fee is 100.\<close>

definition fee_state :: GameState where
  "fee_state =
     makeState [makePlayer ''p1'' 30, makePlayer ''p2'' 10000]
               [(makeProperty ''prop1'' ''tokyo'' 1000 200)\<lparr>ownerId := Some ''p2''\<rparr>]"

text \<open>The states of tests/game/BombeeManager.test.ts, which have no properties.\<close>

definition rich_poor_state :: GameState where
  "rich_poor_state = makeState [makePlayer ''rich'' 50000, makePlayer ''poor'' 1000] []"

definition immune_state :: GameState where
  "immune_state =
     makeState [(makePlayer ''poor'' 1000)\<lparr>bombeeImmuneYears := Some 2\<rparr>,
                makePlayer ''second'' 2000, makePlayer ''rich'' 50000] []"

definition alone_state :: GameState where
  "alone_state = makeState [makePlayer ''alone'' 5000] []"

text \<open>
  The state of the test suite after \<open>p1\<close> has bought and upgraded \<open>prop1\<close> (1000 for the
  purchase, 2000 for the upgrade), with the \<open>normal\<close> debuff on \<open>p1\<close>.
\<close>

definition upgraded_p1 :: Player where
  "upgraded_p1 = (makePlayer ''p1'' 7000)\<lparr>totalAssets := 8000, bombeeType := normal\<rparr>"

definition upgraded_state :: GameState where
  "upgraded_state =
     makeState [upgraded_p1, makePlayer ''p2'' 10000]
               [(makeProperty ''prop1'' ''tokyo'' 1000 200)
                   \<lparr>upgradeLevel := 1, ownerId := Some ''p1''\<rparr>,
                makeProperty ''prop2'' ''tokyo'' 2000 400]"

text \<open>
  A sale card of the \<open>self_choice\<close> kind at the full price, and a monopoly-break card.
\<close>

definition card_sell :: Card where
  "card_sell =
     \<lparr>id_card = ''card_sell'', type_card = sell_property,
      effect = \<lparr>type_effect = ''sell_property'', value_effect = Some 100,
                targetType = Some ''self_choice''\<rparr>,
      rarity = common\<rparr>"

definition card_break :: Card where
  "card_break =
     \<lparr>id_card = ''card_break'', type_card = monopoly_break,
      effect = \<lparr>type_effect = ''monopoly_break'', value_effect = None, targetType = None\<rparr>,
      rarity = rare\<rparr>"

text \<open>
  The pay card of tests/game/CardManager.test.ts, a per-opponent pay card, and the states
  they are used in.
\<close>

definition card_pay :: Card where
  "card_pay =
     \<lparr>id_card = ''card_pay'', type_card = pay_money,
      effect = \<lparr>type_effect = ''pay_money'', value_effect = Some 500, targetType = Some ''self''\<rparr>,
      rarity = common\<rparr>"

definition card_pay_each :: Card where
  "card_pay_each =
     \<lparr>id_card = ''card_pay_each'', type_card = pay_money,
      effect = \<lparr>type_effect = ''pay_money'', value_effect = Some 200,
                targetType = Some ''all_players_each''\<rparr>,
      rarity = common\<rparr>"

definition poor_state :: GameState where
  "poor_state = makeState [makePlayer ''poor'' 200, makePlayer ''p2'' 10000] []"

definition three_state :: GameState where
  "three_state =
     makeState [makePlayer ''p1'' 300, makePlayer ''p2'' 10000, makePlayer ''p3'' 10000] []"


text \<open>
  The catalogue \<open>sampleCards\<close> of tests/game/CardManager.test.ts and the state of its
  \<open>get_money\<close> test; a theft card held by two players, and the options that name the
  other player's copy of it.
\<close>

definition card_dest :: Card where
  "card_dest =
     \<lparr>id_card = ''card_dest'', type_card = move_to_destination,
      effect = \<lparr>type_effect = ''move_to_destination'', value_effect = None,
                targetType = Some ''self''\<rparr>,
      rarity = rare\<rparr>"

definition card_money :: Card where
  "card_money =
     \<lparr>id_card = ''card_money'', type_card = get_money,
      effect = \<lparr>type_effect = ''get_money'', value_effect = Some 1000,
                targetType = Some ''self''\<rparr>,
      rarity = common\<rparr>"

definition sampleCards :: "Card list" where
  "sampleCards = [card_dest, card_money, card_pay]"

definition card_state :: GameState where
  "card_state =
     makeState [(makePlayer ''p1'' 5000)\<lparr>hand := [''card_money'']\<rparr>, makePlayer ''p2'' 10000] []"

definition no_options :: UseCardOptions where
  "no_options =
     \<lparr>targetPlayerId = None, targetPropertyId = None, targetCityId = None,
      targetCardId = None\<rparr>"

definition card_theft :: Card where
  "card_theft =
     \<lparr>id_card = ''card_theft'', type_card = card_steal,
      effect = \<lparr>type_effect = ''card_steal'', value_effect = None,
                targetType = Some ''selected_card''\<rparr>,
      rarity = rare\<rparr>"

definition theft_state :: GameState where
  "theft_state =
     makeState [(makePlayer ''p1'' 10000)\<lparr>hand := [''card_theft'']\<rparr>,
                (makePlayer ''p2'' 10000)\<lparr>hand := [''card_theft'']\<rparr>] []"

definition theft_options :: UseCardOptions where
  "theft_options =
     \<lparr>targetPlayerId = Some ''p2'', targetPropertyId = None, targetCityId = None,
      targetCardId = Some ''card_theft''\<rparr>"

text \<open>
  The state after \<open>p1\<close> has bought and upgraded \<open>prop1\<close>, with the \<open>king\<close> debuff on
  \<open>p1\<close> for 12 turns. The total assets of both players are their money plus the prices of
  their properties.
\<close>

definition king_state :: GameState where
  "king_state =
     makeState [(makePlayer ''p1'' 7000)
                   \<lparr>totalAssets := 8000, bombeeType := king, bombeeElapsedTurns := 12\<rparr>,
                makePlayer ''p2'' 10000]
               [(makeProperty ''prop1'' ''tokyo'' 1000 200)
                   \<lparr>upgradeLevel := 1, ownerId := Some ''p1''\<rparr>,
                makeProperty ''prop2'' ''tokyo'' 2000 400]"

definition king_state_after :: GameState where
  "king_state_after =
     makeState [(makePlayer ''p1'' 6700)
                   \<lparr>totalAssets := 7400, bombeeType := king, bombeeElapsedTurns := 13\<rparr>,
                makePlayer ''p2'' 10000]
               [(makeProperty ''prop1'' ''tokyo'' 1000 200)
                   \<lparr>upgradeLevel := 1, ownerId := None\<rparr>,
                makeProperty ''prop2'' ''tokyo'' 2000 400]"

section \<open>Auxiliary notions of the proofs\<close>

text \<open>The sum over the entries of a city map of a weight of each grouped property.\<close>

definition weighted :: "(string \<Rightarrow> Property \<Rightarrow> int) \<Rightarrow> (string \<times> Property list) list \<Rightarrow> int" where
  "weighted w m = sum_list (map (\<lambda>(c, l). sum_list (map (w c) l)) m)"

text \<open>The update of one player that \<open>payLandFee\<close> maps over the players.\<close>

definition payFee :: "string \<Rightarrow> string \<Rightarrow> int \<Rightarrow> Player \<Rightarrow> Player" where
  "payFee payerId owner actualFee p =
     (if id_player p = payerId then p\<lparr>money := money p - actualFee\<rparr>
      else if id_player p = owner then p\<lparr>money := money p + actualFee\<rparr> else p)"

text \<open>The update of one player that \<open>attachBombeeToLastPlace\<close> maps over the players.\<close>

definition attachTo :: "Player \<Rightarrow> Player \<Rightarrow> Player" where
  "attachTo target p =
     (if id_player p = id_player target then p\<lparr>bombeeType := mini, bombeeElapsedTurns := 0\<rparr> else p)"

text \<open>
  What an operation that only moves money or property leaves of a player: the id, the hand
  and the debuff kind.
\<close>

definition playerKey :: "Player \<Rightarrow> string \<times> string list \<times> BombeeType" where
  "playerKey p = (id_player p, hand p, bombeeType p)"

definition sameKeys :: "GameState \<Rightarrow> GameState \<Rightarrow> bool" where
  "sameKeys s s' \<longleftrightarrow> map playerKey (players s') = map playerKey (players s)"

definition handKey :: "Player \<Rightarrow> string \<times> string list" where
  "handKey p = (id_player p, hand p)"

definition debuffKey :: "Player \<Rightarrow> string \<times> BombeeType" where
  "debuffKey p = (id_player p, bombeeType p)"

text \<open>
  The debuff invariant: at most one player has a debuff kind other than \<open>none\<close>. The ids
  of the players of a game are distinct (GameScene creates them as \<open>player_0\<close>,
  \<open>player_1\<close>, ...), and every operation finds and updates players by id. The debuff
  operations are the attachment, the action of a turn with its migration, the removal, and
  the use of any card, which covers the removal card and both transfer cards.
\<close>

definition atMostOneDebuff :: "GameState \<Rightarrow> bool" where
  "atMostOneDebuff s \<longleftrightarrow> length (filter (\<lambda>p. bombeeType p \<noteq> none) (players s)) \<le> 1"

definition distinctIds :: "GameState \<Rightarrow> bool" where
  "distinctIds s \<longleftrightarrow> distinct (map id_player (players s))"

definition onlyDebuffed :: "string \<Rightarrow> GameState \<Rightarrow> bool" where
  "onlyDebuffed i s \<longleftrightarrow> (\<forall>p\<in>set (players s). bombeeType p \<noteq> none \<longrightarrow> id_player p = i)"

inductive debuffOp :: "Card list \<Rightarrow> GameState \<Rightarrow> GameState \<Rightarrow> bool" for allCards where
  attach: "debuffOp allCards s (attachBombeeToLastPlace s)"
| action: "debuffOp allCards s (processBombeeAction s r1 r2 r3 rMove)"
| remove: "debuffOp allCards s (removeBombee s targetId)"
| card: "useCard allCards s playerId cardId options r = Inr res \<Longrightarrow> newState_use res = Some s'
          \<Longrightarrow> debuffOp allCards s s'"

text \<open>
  The forced sale of the debuff actions leaves everything of a property but the owner;
  \<open>marketReset\<close> relates the properties before and after an operation that changes a
  property only by returning it to the market with the upgrade level reset.
\<close>

definition marketReset :: "Property list \<Rightarrow> Property list \<Rightarrow> bool" where
  "marketReset ps ps' \<longleftrightarrow>
     length ps' = length ps
     \<and> (\<forall>i < length ps. ps' ! i = ps ! i
                         \<or> (ownerId (ps' ! i) = None \<and> upgradeLevel (ps' ! i) = 0))"

definition unown :: "Property \<Rightarrow> Property list \<Rightarrow> Property list" where
  "unown prop props = map (\<lambda>p. if id_prop p = id_prop prop then p\<lparr>ownerId := None\<rparr> else p) props"


text \<open>
  The amount that a pay card requests, in the words of the specification: the flat amount,
  the percentage of the value of the owned properties, the percentage of the total assets,
  or the amount for each opponent times the number of opponents. \<open>deduct\<close> is the update
  of one player that \<open>usePayMoney\<close> maps over the players.
\<close>

definition cardValue :: "Card \<Rightarrow> int" where
  "cardValue crd = (case value_effect (effect crd) of None \<Rightarrow> 1000 | Some v \<Rightarrow> v)"

definition requestedPayment :: "GameState \<Rightarrow> string \<Rightarrow> Player \<Rightarrow> Card \<Rightarrow> int" where
  "requestedPayment state playerId player crd =
     (if targetType (effect crd) = Some ''property_value_percent''
      then (sum_list (map price (filter (\<lambda>p. ownerId p = Some playerId) (properties state)))
              * cardValue crd) div 100
      else if targetType (effect crd) = Some ''total_assets_percent''
      then (totalAssets player * cardValue crd) div 100
      else if targetType (effect crd) = Some ''all_players_each''
      then cardValue crd
             * int (length (filter (\<lambda>p. id_player p \<noteq> playerId) (players state)))
      else cardValue crd)"


definition deduct :: "string \<Rightarrow> int \<Rightarrow> Player \<Rightarrow> Player" where
  "deduct playerId a p =
     (if id_player p = playerId
      then p\<lparr>money := money p - a, totalAssets := totalAssets p - a\<rparr> else p)"


text \<open>The string literals of the reason codes.\<close>

definition purchaseReasonName :: "PurchaseReason \<Rightarrow> string" where
  "purchaseReasonName x =
     (case x of not_enough_money \<Rightarrow> ''not_enough_money'' | already_owned \<Rightarrow> ''already_owned'')"

definition useCardReasonName :: "UseCardReason \<Rightarrow> string" where
  "useCardReasonName x =
     (case x of not_found \<Rightarrow> ''not_found'' | not_owner \<Rightarrow> ''not_owner''
      | no_target \<Rightarrow> ''no_target'' | hand_full \<Rightarrow> ''hand_full'')"

text \<open>
  The invariant of the total assets: for every player, \<open>totalAssets\<close> is the money plus the
  sum of the prices of the properties the player owns.
\<close>

definition assetsInvariant :: "GameState \<Rightarrow> bool" where
  "assetsInvariant s =
     list_all (\<lambda>p. totalAssets p
                      = money p + sum_list (map price (filter (\<lambda>q. ownerId q = Some (id_player p))
                                                              (properties s))))
              (players s)"


section \<open>Basic facts\<close>

lemma foldl_sum_acc: "foldl (\<lambda>sum p. sum + f p) a xs = (a::int) + sum_list (map f xs)"
  by (induction xs arbitrary: a) auto

lemma reduce_sum_eq: "reduce_sum f xs = sum_list (map f xs)"
  by (simp add: reduce_sum_def foldl_sum_acc)

lemma find_map_pres:
  "(\<And>x. P (f x) = P x) \<Longrightarrow> find P (map f xs) = map_option f (find P xs)"
  by (induction xs) auto

lemma find_Some_holds: "find P xs = Some x \<Longrightarrow> P x"
  by (induction xs) (auto split: if_splits)

lemma players_recalc:
  "players (recalcTotalAssets s) =
     map (\<lambda>p. p\<lparr>totalAssets := money p
            + sum_list (map price (filter (\<lambda>q. ownerId q = Some (id_player p)) (properties s)))\<rparr>)
         (players s)"
  by (simp add: recalcTotalAssets_def Let_def reduce_sum_eq)

lemma properties_recalc: "properties (recalcTotalAssets s) = properties s"
  by (simp add: recalcTotalAssets_def)

lemma recalc_invariant:
  "p \<in> set (players (recalcTotalAssets s)) \<Longrightarrow>
     totalAssets p = money p
       + sum_list (map price (filter (\<lambda>q. ownerId q = Some (id_player p))
                                     (properties (recalcTotalAssets s))))"
  by (auto simp: players_recalc properties_recalc)

section \<open>Monopoly and annual income\<close>

lemma hasMonopoly_iff:
  "hasMonopoly props c pl \<longleftrightarrow>
     (\<exists>p\<in>set props. cityId p = c) \<and> (\<forall>p\<in>set props. cityId p = c \<longrightarrow> ownerId p = Some pl)"
  by (auto simp: hasMonopoly_def Let_def list_all_iff filter_empty_conv)

lemma weighted_map_set:
  "weighted w (map_set k (map_get_or m k [] @ [p]) m) = weighted w m + w k p"
  by (induction m) (auto simp: weighted_def map_get_or_def)

lemma weighted_groupByCity:
  "weighted w (groupByCity xs m) = weighted w m + sum_list (map (\<lambda>p. w (cityId p) p) xs)"
  by (induction xs arbitrary: m) (auto simp: weighted_map_set)

lemma incomeLoop_eq:
  "incomeLoop props pl m (a, b) =
     (a + weighted (\<lambda>c. getCurrentIncome) m,
      b + weighted (\<lambda>c p. if hasMonopoly props c pl then getCurrentIncome p else 0) m)"
proof (induction m arbitrary: a b)
  case Nil
  show ?case by (simp add: weighted_def)
next
  case (Cons e m)
  obtain c l where e: "e = (c, l)" by (cases e)
  show ?case
    by (simp add: e Cons.IH Let_def reduce_sum_eq weighted_def hasMonopoly_def)
qed

lemma sum_split_city:
  "c \<notin> set cs \<Longrightarrow>
   sum_list (map (\<lambda>p. h (cityId p) p) (filter (\<lambda>p. cityId p = c \<or> cityId p \<in> set cs) xs))
      = sum_list (map (h c) (filter (\<lambda>p. cityId p = c) xs))
        + (sum_list (map (\<lambda>p. h (cityId p) p) (filter (\<lambda>p. cityId p \<in> set cs) xs)) :: int)"
  by (induction xs) auto

lemma weighted_Nil: "weighted w [] = 0"
  by (simp add: weighted_def)

lemma sum_filter_cities:
  "sum_list (map (\<lambda>c. sum_list (map (\<lambda>p. if M c then g p else 0) (F c))) cs)
     = (sum_list (map (\<lambda>c. sum_list (map g (F c))) (filter M cs)) :: int)"
  by (induction cs) auto

lemma sum_by_city:
  "distinct cs \<Longrightarrow>
   sum_list (map (\<lambda>c. sum_list (map (h c) (filter (\<lambda>p. cityId p = c) xs))) cs)
     = (sum_list (map (\<lambda>p. h (cityId p) p) (filter (\<lambda>p. cityId p \<in> set cs) xs)) :: int)"
proof (induction cs)
  case Nil
  show ?case by simp
next
  case (Cons c cs)
  from Cons show ?case by (simp add: sum_split_city)
qed

lemma calc_fields:
  "propertyIncome (calcPlayerAnnualIncome props pl)
     = sum_list (map getCurrentIncome (getOwnedProperties props pl))"
  "monopolyBonus (calcPlayerAnnualIncome props pl)
     = sum_list (map (\<lambda>p. if hasMonopoly props (cityId p) pl then getCurrentIncome p else 0)
                     (getOwnedProperties props pl))"
  "totalIncome (calcPlayerAnnualIncome props pl)
     = propertyIncome (calcPlayerAnnualIncome props pl)
       + monopolyBonus (calcPlayerAnnualIncome props pl)"
  by (simp_all add: calcPlayerAnnualIncome_def Let_def incomeLoop_eq weighted_groupByCity
        weighted_Nil)

lemma owned_mono_sum:
  "sum_list (map (\<lambda>p. if hasMonopoly props (cityId p) pl then g p else 0)
                 (filter (\<lambda>p. ownerId p = Some pl) xs))
   = (sum_list (map (\<lambda>p. if hasMonopoly props (cityId p) pl then g p else 0) xs) :: int)"
  if "set xs \<subseteq> set props"
  using that by (induction xs) (auto simp: hasMonopoly_iff)

lemma bonus_by_city:
  "monopolyBonus (calcPlayerAnnualIncome props pl)
     = sum_list (map (\<lambda>c. sum_list (map getCurrentIncome (getPropertiesByCity props c)))
                     (filter (\<lambda>c. hasMonopoly props c pl) (remdups (map cityId props))))"
proof -
  let ?h = "\<lambda>c p. if hasMonopoly props c pl then getCurrentIncome p else 0"
  have "monopolyBonus (calcPlayerAnnualIncome props pl)
          = sum_list (map (\<lambda>p. ?h (cityId p) p) props)"
    by (simp add: calc_fields(2) getOwnedProperties_def owned_mono_sum)
  also have "\<dots> = sum_list (map (\<lambda>p. ?h (cityId p) p)
                      (filter (\<lambda>p. cityId p \<in> set (remdups (map cityId props))) props))"
    by simp
  also have "\<dots> = sum_list (map (\<lambda>c. sum_list (map (?h c) (filter (\<lambda>p. cityId p = c) props)))
                        (remdups (map cityId props)))"
    by (rule sum_by_city [symmetric]) simp
  also have "\<dots> = sum_list (map (\<lambda>c. sum_list (map getCurrentIncome (getPropertiesByCity props c)))
                     (filter (\<lambda>c. hasMonopoly props c pl) (remdups (map cityId props))))"
    by (simp add: sum_filter_cities getPropertiesByCity_def)
  finally show ?thesis .
qed

text \<open>
  Claim C7. \<open>hasMonopoly\<close> holds exactly when the city has at least one property and every
  property of the city is owned by the player, so a city without properties is never a
  monopoly. \<open>calcPlayerAnnualIncome\<close> reports as \<open>propertyIncome\<close> the sum of the current
  incomes of the player's properties, as \<open>monopolyBonus\<close> the sum, over the cities that the
  player monopolizes, of the income subtotal of the city, and as \<open>totalIncome\<close> the sum of
  both.
\<close>

theorem hasMonopoly_annual_income:
  "(hasMonopoly props c pl \<longleftrightarrow>
      (\<exists>p\<in>set props. cityId p = c) \<and> (\<forall>p\<in>set props. cityId p = c \<longrightarrow> ownerId p = Some pl))
   \<and> (getPropertiesByCity props c = [] \<longrightarrow> \<not> hasMonopoly props c pl)
   \<and> propertyIncome (calcPlayerAnnualIncome props pl)
       = sum_list (map getCurrentIncome (getOwnedProperties props pl))
   \<and> monopolyBonus (calcPlayerAnnualIncome props pl)
       = sum_list (map (\<lambda>c. sum_list (map getCurrentIncome (getPropertiesByCity props c)))
                       (filter (\<lambda>c. hasMonopoly props c pl) (remdups (map cityId props))))
   \<and> totalIncome (calcPlayerAnnualIncome props pl)
       = propertyIncome (calcPlayerAnnualIncome props pl)
         + monopolyBonus (calcPlayerAnnualIncome props pl)"
proof (intro conjI)
  show "hasMonopoly props c pl \<longleftrightarrow>
      (\<exists>p\<in>set props. cityId p = c) \<and> (\<forall>p\<in>set props. cityId p = c \<longrightarrow> ownerId p = Some pl)"
    by (rule hasMonopoly_iff)
  show "getPropertiesByCity props c = [] \<longrightarrow> \<not> hasMonopoly props c pl"
    by (simp add: getPropertiesByCity_def hasMonopoly_def)
  show "propertyIncome (calcPlayerAnnualIncome props pl)
       = sum_list (map getCurrentIncome (getOwnedProperties props pl))"
    by (rule calc_fields(1))
  show "monopolyBonus (calcPlayerAnnualIncome props pl)
       = sum_list (map (\<lambda>c. sum_list (map getCurrentIncome (getPropertiesByCity props c)))
                       (filter (\<lambda>c. hasMonopoly props c pl) (remdups (map cityId props))))"
    by (rule bonus_by_city)
  show "totalIncome (calcPlayerAnnualIncome props pl)
       = propertyIncome (calcPlayerAnnualIncome props pl)
         + monopolyBonus (calcPlayerAnnualIncome props pl)"
    by (rule calc_fields(3))
qed

theorem hasMonopoly_annual_income_witness:
  "hasMonopoly monopoly_props ''tokyo'' ''p1''
   \<and> \<not> hasMonopoly monopoly_props ''osaka'' ''p1''
   \<and> propertyIncome (calcPlayerAnnualIncome monopoly_props ''p1'') = 600
   \<and> monopolyBonus (calcPlayerAnnualIncome monopoly_props ''p1'') = 600
   \<and> totalIncome (calcPlayerAnnualIncome monopoly_props ''p1'') = 1200"
  using hasMonopoly_annual_income [of monopoly_props "''tokyo''" "''p1''"]
        hasMonopoly_annual_income [of monopoly_props "''osaka''" "''p1''"]
  by (simp add: monopoly_props_def makeProperty_def getOwnedProperties_def
        getPropertiesByCity_def getCurrentIncome_def)
section \<open>Buying a property\<close>

text \<open>
  Claim C2. For a known player and a known property: when the property is unowned and the
  player's money is at least the price, \<open>buyProperty\<close> succeeds, the player's money is
  reduced by exactly the price, the property's owner is the player, and the total assets of
  every player are recomputed from the new state; when the property is unowned and the
  money is less than the price, the result is \<open>not_enough_money\<close> and carries no new state;
  when the property has an owner, the result is \<open>already_owned\<close> and carries no new state.
\<close>

theorem buyProperty_outcomes:
  assumes pl: "find (\<lambda>p. id_player p = playerId) (players state) = Some player"
      and pr: "find (\<lambda>p. id_prop p = propertyId) (properties state) = Some property"
  shows "(ownerId property = None \<and> price property \<le> money player \<longrightarrow>
            (\<exists>s' player' property'.
               buyProperty state playerId propertyId
                 = \<lparr>success = True, reason = None, newState = Some s'\<rparr>
             \<and> find (\<lambda>p. id_player p = playerId) (players s') = Some player'
             \<and> money player' = money player - price property
             \<and> find (\<lambda>p. id_prop p = propertyId) (properties s') = Some property'
             \<and> ownerId property' = Some playerId
             \<and> (\<forall>p \<in> set (players s').
                   totalAssets p = money p
                     + sum_list (map price (filter (\<lambda>q. ownerId q = Some (id_player p))
                                                   (properties s'))))))
       \<and> (ownerId property = None \<and> money player < price property \<longrightarrow>
            buyProperty state playerId propertyId
              = \<lparr>success = False, reason = Some not_enough_money, newState = None\<rparr>)
       \<and> (ownerId property \<noteq> None \<longrightarrow>
            buyProperty state playerId propertyId
              = \<lparr>success = False, reason = Some already_owned, newState = None\<rparr>)"
proof (intro conjI impI)
  assume a: "ownerId property = None \<and> price property \<le> money player"
  let ?np = "map (\<lambda>p. if id_player p = playerId
                       then p\<lparr>money := money p - price property\<rparr> else p) (players state)"
  let ?nq = "map (\<lambda>p. if id_prop p = propertyId
                       then p\<lparr>ownerId := Some playerId\<rparr> else p) (properties state)"
  let ?s = "recalcTotalAssets (state\<lparr>players := ?np, properties := ?nq\<rparr>)"
  have res: "buyProperty state playerId propertyId
               = \<lparr>success = True, reason = None, newState = Some ?s\<rparr>"
    using a by (simp add: buyProperty_def pl pr getCurrentPrice_def Let_def)
  have idp: "id_player player = playerId" using find_Some_holds [OF pl] .
  have idq: "id_prop property = propertyId" using find_Some_holds [OF pr] .
  have f1: "find (\<lambda>p. id_player p = playerId) ?np
              = Some (player\<lparr>money := money player - price property\<rparr>)"
    by (subst find_map_pres) (auto simp: pl idp)
  have f2: "\<exists>player'. find (\<lambda>p. id_player p = playerId) (players ?s) = Some player'
              \<and> money player' = money player - price property"
    unfolding players_recalc by (subst find_map_pres) (auto simp: f1)
  have f3: "find (\<lambda>p. id_prop p = propertyId) (properties ?s)
              = Some (property\<lparr>ownerId := Some playerId\<rparr>)"
    unfolding properties_recalc by simp (subst find_map_pres, auto simp: pr idq)
  have f4: "\<forall>p \<in> set (players ?s).
              totalAssets p = money p
                + sum_list (map price (filter (\<lambda>q. ownerId q = Some (id_player p))
                                              (properties ?s)))"
    using recalc_invariant by blast
  from f2 obtain player' where
    g2: "find (\<lambda>p. id_player p = playerId) (players ?s) = Some player'"
        "money player' = money player - price property" by blast
  have g3: "ownerId (property\<lparr>ownerId := Some playerId\<rparr>) = Some playerId" by simp
  show "\<exists>s' player' property'.
               buyProperty state playerId propertyId
                 = \<lparr>success = True, reason = None, newState = Some s'\<rparr>
             \<and> find (\<lambda>p. id_player p = playerId) (players s') = Some player'
             \<and> money player' = money player - price property
             \<and> find (\<lambda>p. id_prop p = propertyId) (properties s') = Some property'
             \<and> ownerId property' = Some playerId
             \<and> (\<forall>p \<in> set (players s').
                   totalAssets p = money p
                     + sum_list (map price (filter (\<lambda>q. ownerId q = Some (id_player p))
                                                   (properties s'))))"
    apply (rule exI [of _ ?s])
    apply (rule exI [of _ player'])
    apply (rule exI [of _ "property\<lparr>ownerId := Some playerId\<rparr>"])
    apply (intro conjI)
         apply (rule res)
        apply (rule g2(1))
       apply (rule g2(2))
      apply (rule f3)
     apply (rule g3)
    apply (rule f4)
    done
next
  assume "ownerId property = None \<and> money player < price property"
  then show "buyProperty state playerId propertyId
              = \<lparr>success = False, reason = Some not_enough_money, newState = None\<rparr>"
    by (simp add: buyProperty_def pl pr getCurrentPrice_def)
next
  assume "ownerId property \<noteq> None"
  then show "buyProperty state playerId propertyId
              = \<lparr>success = False, reason = Some already_owned, newState = None\<rparr>"
    by (simp add: buyProperty_def pl pr)
qed

theorem buyProperty_outcomes_witness:
  "find (\<lambda>p. id_player p = ''p1'') (players test_state) = Some (makePlayer ''p1'' 10000)
   \<and> find (\<lambda>p. id_prop p = ''prop1'') (properties test_state)
        = Some (makeProperty ''prop1'' ''tokyo'' 1000 200)
   \<and> (\<exists>s' player' property'.
         buyProperty test_state ''p1'' ''prop1''
           = \<lparr>success = True, reason = None, newState = Some s'\<rparr>
         \<and> find (\<lambda>p. id_player p = ''p1'') (players s') = Some player'
         \<and> money player' = 9000 \<and> totalAssets player' = 10000
         \<and> find (\<lambda>p. id_prop p = ''prop1'') (properties s') = Some property'
         \<and> ownerId property' = Some ''p1'')
   \<and> buyProperty test_state ''p1'' ''prop2'' \<noteq> buyProperty test_state ''p1'' ''prop1''"
proof -
  have h1: "find (\<lambda>p. id_player p = ''p1'') (players test_state) = Some (makePlayer ''p1'' 10000)"
    by (simp add: test_state_def makeState_def makePlayer_def)
  have h2: "find (\<lambda>p. id_prop p = ''prop1'') (properties test_state)
              = Some (makeProperty ''prop1'' ''tokyo'' 1000 200)"
    by (simp add: test_state_def makeState_def makeProperty_def)
  from buyProperty_outcomes [OF h1 h2] h1 h2 show ?thesis
    by (simp add: test_state_def makeState_def makeProperty_def makePlayer_def buyProperty_def
          getCurrentPrice_def recalcTotalAssets_def reduce_sum_def)
qed
section \<open>Paying the land fee\<close>

lemma payLandFee_paid:
  assumes pl: "find (\<lambda>p. id_player p = payerId) (players state) = Some payer"
      and pr: "find (\<lambda>p. id_prop p = propertyId) (properties state) = Some property"
      and ow: "ownerId property = Some owner" "owner \<noteq> []" "owner \<noteq> payerId"
  shows "payLandFee state payerId propertyId
           = recalcTotalAssets (state\<lparr>players :=
               map (payFee payerId owner (min (getCurrentIncome property div 2) (money payer)))
                   (players state)\<rparr>)"
  using ow by (simp add: payLandFee_def pl pr getLandFee_def Let_def payFee_def [abs_def])

lemma find_after_fee:
  "find (\<lambda>p. id_player p = k)
        (players (recalcTotalAssets (state\<lparr>players := map (payFee a b x) (players state)\<rparr>)))
     = map_option (\<lambda>p. (payFee a b x p)\<lparr>totalAssets := money (payFee a b x p)
            + sum_list (map price (filter (\<lambda>q. ownerId q = Some (id_player p)) (properties state)))\<rparr>)
         (find (\<lambda>p. id_player p = k) (players state))"
proof -
  have id: "\<And>p. id_player (payFee a b x p) = id_player p" by (simp add: payFee_def)
  show ?thesis
    unfolding players_recalc
    by (simp add: o_def id) (subst find_map_pres, simp_all add: id)
qed

text \<open>
  Claim C5. For a known payer and a known property, \<open>payLandFee\<close> returns the state
  unchanged when the property is unowned or owned by the payer. Otherwise, with
  \<open>fee = floor (currentIncome * 0.5)\<close> and \<open>paid = min fee (money payer)\<close>, the payer's
  money decreases by exactly \<open>paid\<close> and is not negative afterwards, the owner's money
  increases by exactly \<open>paid\<close>, and the money of every other player and the properties are
  unchanged.
\<close>

theorem payLandFee_spec:
  assumes pl: "find (\<lambda>p. id_player p = payerId) (players state) = Some payer"
      and pr: "find (\<lambda>p. id_prop p = propertyId) (properties state) = Some property"
  shows "(ownerId property = None \<or> ownerId property = Some [] \<or> ownerId property = Some payerId
            \<longrightarrow> payLandFee state payerId propertyId = state)
       \<and> (\<forall>owner. ownerId property = Some owner \<and> owner \<noteq> [] \<and> owner \<noteq> payerId \<longrightarrow>
            (let fee = getCurrentIncome property div 2;
                 paid = min fee (money payer);
                 s' = payLandFee state payerId propertyId
             in getLandFee property = fee
              \<and> (\<exists>payer'. find (\<lambda>p. id_player p = payerId) (players s') = Some payer'
                     \<and> money payer' = money payer - paid \<and> 0 \<le> money payer')
              \<and> (\<forall>ownerP. find (\<lambda>p. id_player p = owner) (players state) = Some ownerP \<longrightarrow>
                     (\<exists>ownerP'. find (\<lambda>p. id_player p = owner) (players s') = Some ownerP'
                        \<and> money ownerP' = money ownerP + paid))
              \<and> (\<forall>i < length (players state).
                     id_player (players state ! i) \<noteq> payerId \<and> id_player (players state ! i) \<noteq> owner
                       \<longrightarrow> money (players s' ! i) = money (players state ! i))
              \<and> length (players s') = length (players state)
              \<and> properties s' = properties state))"
proof (intro conjI allI impI)
  assume "ownerId property = None \<or> ownerId property = Some [] \<or> ownerId property = Some payerId"
  then show "payLandFee state payerId propertyId = state"
    by (auto simp: payLandFee_def pl pr)
next
  fix owner
  assume ow: "ownerId property = Some owner \<and> owner \<noteq> [] \<and> owner \<noteq> payerId"
  define paid where "paid = min (getCurrentIncome property div 2) (money payer)"
  have eq: "payLandFee state payerId propertyId
           = recalcTotalAssets (state\<lparr>players := map (payFee payerId owner paid) (players state)\<rparr>)"
    unfolding paid_def using payLandFee_paid [OF pl pr] ow by blast
  have idp: "id_player payer = payerId" using find_Some_holds [OF pl] .
  have a: "\<exists>payer'. find (\<lambda>p. id_player p = payerId) (players (payLandFee state payerId propertyId)) = Some payer'
                     \<and> money payer' = money payer - paid \<and> 0 \<le> money payer'"
    unfolding eq find_after_fee by (simp add: pl payFee_def idp paid_def)
  have b: "\<forall>ownerP. find (\<lambda>p. id_player p = owner) (players state) = Some ownerP \<longrightarrow>
                     (\<exists>ownerP'. find (\<lambda>p. id_player p = owner) (players (payLandFee state payerId propertyId)) = Some ownerP'
                        \<and> money ownerP' = money ownerP + paid)"
    unfolding eq find_after_fee using ow by (auto simp: payFee_def dest: find_Some_holds)
  have c: "\<forall>i < length (players state).
                     id_player (players state ! i) \<noteq> payerId \<and> id_player (players state ! i) \<noteq> owner
                       \<longrightarrow> money (players (payLandFee state payerId propertyId) ! i) = money (players state ! i)"
    unfolding eq players_recalc by (simp add: payFee_def)
  have d: "length (players (payLandFee state payerId propertyId)) = length (players state)"
          "properties (payLandFee state payerId propertyId) = properties state"
    unfolding eq by (simp_all add: players_recalc properties_recalc)
  show "let fee = getCurrentIncome property div 2;
                 paid = min fee (money payer);
                 s' = payLandFee state payerId propertyId
             in getLandFee property = fee
              \<and> (\<exists>payer'. find (\<lambda>p. id_player p = payerId) (players s') = Some payer'
                     \<and> money payer' = money payer - paid \<and> 0 \<le> money payer')
              \<and> (\<forall>ownerP. find (\<lambda>p. id_player p = owner) (players state) = Some ownerP \<longrightarrow>
                     (\<exists>ownerP'. find (\<lambda>p. id_player p = owner) (players s') = Some ownerP'
                        \<and> money ownerP' = money ownerP + paid))
              \<and> (\<forall>i < length (players state).
                     id_player (players state ! i) \<noteq> payerId \<and> id_player (players state ! i) \<noteq> owner
                       \<longrightarrow> money (players s' ! i) = money (players state ! i))
              \<and> length (players s') = length (players state)
              \<and> properties s' = properties state"
    unfolding Let_def paid_def [symmetric]
    using a b c d by (simp add: getLandFee_def)
qed

theorem payLandFee_spec_witness:
  "find (\<lambda>p. id_player p = ''p1'') (players fee_state) = Some (makePlayer ''p1'' 30)
   \<and> getLandFee ((makeProperty ''prop1'' ''tokyo'' 1000 200)\<lparr>ownerId := Some ''p2''\<rparr>) = 100
   \<and> map money (players (payLandFee fee_state ''p1'' ''prop1'')) = [0, 10030]
   \<and> payLandFee fee_state ''p2'' ''prop1'' = fee_state"
proof -
  have h1: "find (\<lambda>p. id_player p = ''p1'') (players fee_state) = Some (makePlayer ''p1'' 30)"
    by (simp add: fee_state_def makeState_def makePlayer_def)
  have h2: "find (\<lambda>p. id_prop p = ''prop1'') (properties fee_state)
              = Some ((makeProperty ''prop1'' ''tokyo'' 1000 200)\<lparr>ownerId := Some ''p2''\<rparr>)"
    by (simp add: fee_state_def makeState_def makeProperty_def)
  have h3: "find (\<lambda>p. id_player p = ''p2'') (players fee_state) = Some (makePlayer ''p2'' 10000)"
    by (simp add: fee_state_def makeState_def makePlayer_def)
  from payLandFee_spec [OF h1 h2] payLandFee_spec [OF h3 h2] h1 show ?thesis
    by (simp add: fee_state_def makeState_def makeProperty_def makePlayer_def payLandFee_def
          getLandFee_def getCurrentIncome_def recalcTotalAssets_def reduce_sum_def)
qed
section \<open>Operations that keep ids, hands and debuff kinds\<close>

lemma playerKey_simps:
  "playerKey (p\<lparr>money := a\<rparr>) = playerKey p"
  "playerKey (p\<lparr>totalAssets := a\<rparr>) = playerKey p"
  "playerKey (p\<lparr>position := b\<rparr>) = playerKey p"
  "playerKey (p\<lparr>bombeeElapsedTurns := c\<rparr>) = playerKey p"
  "playerKey (p\<lparr>incomeMultiplier := d\<rparr>) = playerKey p"
  "playerKey (p\<lparr>diceMultiplier := d\<rparr>) = playerKey p"
  "playerKey (p\<lparr>bombeeImmuneYears := d\<rparr>) = playerKey p"
  by (simp_all add: playerKey_def)

lemma sameKeys_refl: "sameKeys s s"
  by (simp add: sameKeys_def)

lemma sameKeys_trans: "sameKeys s t \<Longrightarrow> sameKeys t u \<Longrightarrow> sameKeys s u"
  by (simp add: sameKeys_def)

lemma sameKeys_recalcLocal: "sameKeys s (recalcTotalAssetsLocal t) \<longleftrightarrow> sameKeys s t"
  by (simp add: sameKeys_def recalcTotalAssetsLocal_def Let_def o_def playerKey_simps)

lemma sameKeys_recalc: "sameKeys s (recalcTotalAssets t) \<longleftrightarrow> sameKeys s t"
  by (simp add: sameKeys_def recalcTotalAssets_def Let_def o_def playerKey_simps)

lemma sameKeys_properties: "sameKeys s (t\<lparr>properties := ps\<rparr>) \<longleftrightarrow> sameKeys s t"
  by (simp add: sameKeys_def)

lemma sameKeys_miniAction: "sameKeys s (miniAction s target r)"
  by (simp add: sameKeys_def miniAction_def Let_def playerKey_simps)

lemma sameKeys_kingStealBig: "sameKeys s (kingStealBig s target r)"
  by (simp add: sameKeys_def kingStealBig_def Let_def playerKey_simps)

lemma sameKeys_normalAction: "sameKeys s (normalAction s target r1 r2 r3)"
  by (simp add: sameKeys_def normalAction_def Let_def playerKey_simps)

lemma sameKeys_kingAction: "sameKeys s (kingAction s target r1 r2)"
  using sameKeys_kingStealBig [of s target r2]
  by (simp add: sameKeys_def kingAction_def Let_def playerKey_simps split: prod.splits)

lemma sameKeys_executeBombeeEffect: "sameKeys s (executeBombeeEffect s i k r1 r2 r3)"
  by (simp add: executeBombeeEffect_def sameKeys_refl sameKeys_miniAction sameKeys_normalAction
        sameKeys_kingAction split: option.splits BombeeType.splits)

lemma receiveLoop_keys:
  "receiveLoop v opps (t, ps) = (t', ps') \<Longrightarrow> map playerKey ps = map playerKey ps'"
proof (induction opps arbitrary: t ps)
  case Nil
  then show ?case by simp
next
  case (Cons opp opps)
  from Cons.prems have "map playerKey (map (\<lambda>p. if id_player p = id_player opp
                       then p\<lparr>money := money p - min v (money opp),
                              totalAssets := totalAssets p - min v (money opp)\<rparr>
                       else p) ps) = map playerKey ps'"
    by (intro Cons.IH [symmetric, THEN sym]) (simp add: Let_def)
  then show ?case by (simp add: o_def playerKey_simps if_distrib [of playerKey] cong: if_cong)
qed

lemma payLoop_keys:
  "payLoop v opps (t, r, ps) = (t', r', ps') \<Longrightarrow> map playerKey ps = map playerKey ps'"
proof (induction opps arbitrary: t r ps)
  case Nil
  then show ?case by simp
next
  case (Cons opp opps)
  show ?case
  proof (cases "r \<le> 0")
    case True
    with Cons.prems show ?thesis by simp
  next
    case False
    with Cons.prems have "map playerKey (map (\<lambda>p. if id_player p = id_player opp
                       then p\<lparr>money := money p + min v r,
                              totalAssets := totalAssets p + min v r\<rparr>
                       else p) ps) = map playerKey ps'"
      by (intro Cons.IH [symmetric, THEN sym]) (simp add: Let_def)
    then show ?thesis by (simp add: o_def playerKey_simps if_distrib [of playerKey] cong: if_cong)
  qed
qed

lemma ok_use_state: "newState_use (ok_use s) = Some t \<longleftrightarrow> t = s"
  by (auto simp: ok_use_def)

lemma fail_use_state: "newState_use (fail_use r) \<noteq> Some t"
  by (simp add: fail_use_def)

lemma sameKeys_useMoveToDest:
  "newState_use (useMoveToDest s i c) = Some t \<Longrightarrow> sameKeys s t"
  by (auto simp: useMoveToDest_def Let_def ok_use_state sameKeys_def playerKey_simps
      split: if_splits)

lemma sameKeys_useMoveToCity:
  "newState_use (useMoveToCity s i c) = Some t \<Longrightarrow> sameKeys s t"
  by (auto simp: useMoveToCity_def Let_def ok_use_state sameKeys_def playerKey_simps)

lemma sameKeys_useDoubleIncome:
  "newState_use (useDoubleIncome s i c) = Some t \<Longrightarrow> sameKeys s t"
  by (auto simp: useDoubleIncome_def Let_def ok_use_state sameKeys_def playerKey_simps
      split: if_splits)

lemma sameKeys_useGetMoney:
  "newState_use (useGetMoney s i c) = Some t \<Longrightarrow> sameKeys s t"
  by (auto simp: useGetMoney_def Let_def ok_use_state sameKeys_def playerKey_simps o_def
      split: if_splits prod.splits dest: receiveLoop_keys)

lemma sameKeys_usePayMoney:
  "usePayMoney s i c = Inr res \<Longrightarrow> newState_use res = Some t \<Longrightarrow> sameKeys s t"
  by (auto simp: usePayMoney_def Let_def ok_use_state sameKeys_def playerKey_simps o_def
      split: if_splits prod.splits option.splits dest: payLoop_keys)

lemma keys_recalcLocal:
  "map playerKey (players (recalcTotalAssetsLocal t)) = map playerKey (players t)"
  by (simp add: recalcTotalAssetsLocal_def Let_def o_def playerKey_simps)

lemma sameKeys_useSellProperty:
  "newState_use (useSellProperty s i c a b d) = Some t \<Longrightarrow> sameKeys s t"
  by (auto simp: useSellProperty_def Let_def ok_use_state fail_use_state keys_recalcLocal
        sameKeys_def playerKey_simps o_def
      split: if_splits prod.splits list.splits)

lemma sameKeys_useStealProperty:
  "newState_use (useStealProperty s i c d) = Some t \<Longrightarrow> sameKeys s t"
  by (auto simp: useStealProperty_def Let_def ok_use_state fail_use_state keys_recalcLocal
        sameKeys_def playerKey_simps o_def
      split: if_splits prod.splits list.splits)

lemma sameKeys_useMonopolyBreak:
  "newState_use (useMonopolyBreak s i c) = Some t \<Longrightarrow> sameKeys s t"
  by (auto simp: useMonopolyBreak_def Let_def ok_use_state fail_use_state keys_recalcLocal
        sameKeys_def playerKey_simps o_def
      split: if_splits prod.splits list.splits option.splits)

lemma sameKeys_useBuyProperty:
  "newState_use (useBuyProperty s i c d) = Some t \<Longrightarrow> sameKeys s t"
  by (auto simp: useBuyProperty_def Let_def ok_use_state fail_use_state keys_recalcLocal
        sameKeys_def playerKey_simps o_def
      split: if_splits prod.splits list.splits option.splits)

lemma sameKeys_handKey: "sameKeys s t \<Longrightarrow> map handKey (players t) = map handKey (players s)"
proof -
  assume "sameKeys s t"
  then have "map (\<lambda>(i, h, b). (i, h)) (map playerKey (players t))
               = map (\<lambda>(i, h, b). (i, h)) (map playerKey (players s))"
    by (simp only: sameKeys_def)
  then show ?thesis by (simp add: o_def playerKey_def handKey_def [abs_def])
qed

lemma sameKeys_debuffKey: "sameKeys s t \<Longrightarrow> map debuffKey (players t) = map debuffKey (players s)"
proof -
  assume "sameKeys s t"
  then have "map (\<lambda>(i, h, b). (i, b)) (map playerKey (players t))
               = map (\<lambda>(i, h, b). (i, b)) (map playerKey (players s))"
    by (simp only: sameKeys_def)
  then show ?thesis by (simp add: o_def playerKey_def debuffKey_def [abs_def])
qed

lemma handKey_useBombeeTransfer:
  "newState_use (useBombeeTransfer s a b) = Some t \<Longrightarrow>
     map handKey (players t) = map handKey (players s)"
  by (auto simp: useBombeeTransfer_def ok_use_state fail_use_state handKey_def o_def
      split: option.splits if_splits)

lemma handKey_useBombeeTransferLastToSecond:
  "newState_use (useBombeeTransferLastToSecond s) = Some t \<Longrightarrow>
     map handKey (players t) = map handKey (players s)"
  by (auto simp: useBombeeTransferLastToSecond_def ok_use_state fail_use_state handKey_def o_def
      split: list.splits if_splits)

lemma handKey_useBombeeAway:
  "newState_use (useBombeeAway s a c) = Some t \<Longrightarrow>
     map handKey (players t) = map handKey (players s)"
  by (auto simp: useBombeeAway_def ok_use_state fail_use_state handKey_def o_def Let_def
      split: option.splits if_splits)

lemma debuffKey_useCardSteal:
  "newState_use (useCardSteal s a b c r) = Some t \<Longrightarrow>
     map debuffKey (players t) = map debuffKey (players s)"
  by (auto simp: useCardSteal_def ok_use_state fail_use_state debuffKey_def o_def Let_def
      split: option.splits if_splits)

lemma debuffKey_removeFromHand:
  "map debuffKey (players (removeFromHand i c s)) = map debuffKey (players s)"
  by (simp add: removeFromHand_def debuffKey_def o_def)


section \<open>Attaching the debuff\<close>

lemma foldl_worst:
  "foldl (\<lambda>worst p. if totalAssets p < totalAssets worst then p else worst) a xs \<in> set (a # xs)
   \<and> (\<forall>p \<in> set (a # xs).
          totalAssets (foldl (\<lambda>worst p. if totalAssets p < totalAssets worst then p else worst) a xs)
            \<le> totalAssets p)"
proof (induction xs arbitrary: a)
  case Nil
  show ?case by simp
next
  case (Cons x xs)
  let ?f = "\<lambda>worst p. if totalAssets p < totalAssets worst then p else worst"
  from Cons.IH [of "?f a x"] show ?case
    by (auto split: if_splits)
qed

lemma getLastPlacePlayer_None: "getLastPlacePlayer ps = None \<longleftrightarrow> ps = []"
  by (simp add: getLastPlacePlayer_def split: list.splits)

lemma getLastPlacePlayer_Some:
  "getLastPlacePlayer ps = Some t \<Longrightarrow> t \<in> set ps \<and> (\<forall>p \<in> set ps. totalAssets t \<le> totalAssets p)"
  using foldl_worst by (auto simp: getLastPlacePlayer_def split: list.splits)

lemma immune_iff: "immune p \<longleftrightarrow> (\<exists>y. bombeeImmuneYears p = Some y \<and> y > 0)"
  by (auto simp: immune_def split: option.splits)

lemma attach_unchanged:
  "length (players s) < 2 \<or> (\<exists>p\<in>set (players s). bombeeType p \<noteq> none)
     \<Longrightarrow> attachBombeeToLastPlace s = s"
  by (auto simp: attachBombeeToLastPlace_def Let_def list_ex_iff)

lemma attach_target:
  assumes n: "2 \<le> length (players s)"
      and b: "\<forall>p\<in>set (players s). bombeeType p = none"
  shows "\<exists>target\<in>set (players s).
           attachBombeeToLastPlace s = s\<lparr>players := map (attachTo target) (players s)\<rparr>
         \<and> ((\<exists>p\<in>set (players s). \<not> immune p) \<longrightarrow>
               \<not> immune target
               \<and> (\<forall>p\<in>set (players s). \<not> immune p \<longrightarrow> totalAssets target \<le> totalAssets p))
         \<and> ((\<forall>p\<in>set (players s). immune p) \<longrightarrow>
               (\<forall>p\<in>set (players s). totalAssets target \<le> totalAssets p))"
proof -
  have ne: "players s \<noteq> []" using n by auto
  then obtain lastPlayer where l: "getLastPlacePlayer (players s) = Some lastPlayer"
    using getLastPlacePlayer_None [of "players s"] by (cases "getLastPlacePlayer (players s)") auto
  have nb: "\<not> list_ex (\<lambda>p. bombeeType p \<noteq> none) (players s)"
    using b by (simp add: list_ex_iff)
  show ?thesis
  proof (cases "getLastPlacePlayer (filter (\<lambda>p. \<not> immune p) (players s))")
    case None
    then have all: "\<forall>p\<in>set (players s). immune p"
      by (simp add: getLastPlacePlayer_None filter_empty_conv)
    have eq: "attachBombeeToLastPlace s = s\<lparr>players := map (attachTo lastPlayer) (players s)\<rparr>"
      using n nb by (simp add: attachBombeeToLastPlace_def Let_def l None attachTo_def [abs_def])
    from getLastPlacePlayer_Some [OF l] eq all show ?thesis by blast
  next
    case (Some e)
    have eq: "attachBombeeToLastPlace s = s\<lparr>players := map (attachTo e) (players s)\<rparr>"
      using n nb by (simp add: attachBombeeToLastPlace_def Let_def l Some attachTo_def [abs_def])
    from getLastPlacePlayer_Some [OF Some]
    have "e \<in> set (players s)" "\<not> immune e"
         "\<forall>p\<in>set (players s). \<not> immune p \<longrightarrow> totalAssets e \<le> totalAssets p"
      by auto
    with eq show ?thesis by blast
  qed
qed


text \<open>
  Claim C9. With at least two players and no debuff on any of them,
  \<open>attachBombeeToLastPlace\<close> gives \<open>mini\<close> (with the elapsed turns at 0) to the players
  with the id of a target: a player that is not immune and has the lowest total assets of
  the players that are not immune or, when every player is immune, a player with the lowest
  total assets of all. With fewer than two players, or with a debuff on some player, the
  state is returned unchanged. A player is immune exactly when its immunity years are
  present and positive.
\<close>

theorem attachBombeeToLastPlace_spec:
  "(2 \<le> length (players s) \<and> (\<forall>p\<in>set (players s). bombeeType p = none) \<longrightarrow>
      (\<exists>target\<in>set (players s).
          attachBombeeToLastPlace s
            = s\<lparr>players :=
                  map (\<lambda>p. if id_player p = id_player target
                             then p\<lparr>bombeeType := mini, bombeeElapsedTurns := 0\<rparr> else p)
                      (players s)\<rparr>
        \<and> ((\<exists>p\<in>set (players s). \<not> immune p) \<longrightarrow>
              \<not> immune target
              \<and> (\<forall>p\<in>set (players s). \<not> immune p \<longrightarrow> totalAssets target \<le> totalAssets p))
        \<and> ((\<forall>p\<in>set (players s). immune p) \<longrightarrow>
              (\<forall>p\<in>set (players s). totalAssets target \<le> totalAssets p))))
   \<and> (length (players s) < 2 \<or> (\<exists>p\<in>set (players s). bombeeType p \<noteq> none)
          \<longrightarrow> attachBombeeToLastPlace s = s)
   \<and> (\<forall>p. immune p \<longleftrightarrow> (\<exists>y. bombeeImmuneYears p = Some y \<and> y > 0))"
proof (intro conjI impI allI)
  assume "2 \<le> length (players s) \<and> (\<forall>p\<in>set (players s). bombeeType p = none)"
  then have "\<exists>target\<in>set (players s).
           attachBombeeToLastPlace s = s\<lparr>players := map (attachTo target) (players s)\<rparr>
         \<and> ((\<exists>p\<in>set (players s). \<not> immune p) \<longrightarrow>
               \<not> immune target
               \<and> (\<forall>p\<in>set (players s). \<not> immune p \<longrightarrow> totalAssets target \<le> totalAssets p))
         \<and> ((\<forall>p\<in>set (players s). immune p) \<longrightarrow>
               (\<forall>p\<in>set (players s). totalAssets target \<le> totalAssets p))"
    using attach_target by blast
  then show "\<exists>target\<in>set (players s).
          attachBombeeToLastPlace s
            = s\<lparr>players :=
                  map (\<lambda>p. if id_player p = id_player target
                             then p\<lparr>bombeeType := mini, bombeeElapsedTurns := 0\<rparr> else p)
                      (players s)\<rparr>
        \<and> ((\<exists>p\<in>set (players s). \<not> immune p) \<longrightarrow>
              \<not> immune target
              \<and> (\<forall>p\<in>set (players s). \<not> immune p \<longrightarrow> totalAssets target \<le> totalAssets p))
        \<and> ((\<forall>p\<in>set (players s). immune p) \<longrightarrow>
              (\<forall>p\<in>set (players s). totalAssets target \<le> totalAssets p))"
    unfolding attachTo_def [abs_def] .
next
  assume "length (players s) < 2 \<or> (\<exists>p\<in>set (players s). bombeeType p \<noteq> none)"
  then show "attachBombeeToLastPlace s = s" by (rule attach_unchanged)
next
  fix p show "immune p \<longleftrightarrow> (\<exists>y. bombeeImmuneYears p = Some y \<and> y > 0)"
    by (rule immune_iff)
qed

theorem attachBombeeToLastPlace_spec_witness:
  "map bombeeType (players (attachBombeeToLastPlace rich_poor_state)) = [none, mini]
   \<and> map bombeeType (players (attachBombeeToLastPlace immune_state)) = [none, mini, none]
   \<and> attachBombeeToLastPlace alone_state = alone_state"
  using attachBombeeToLastPlace_spec [of rich_poor_state]
        attachBombeeToLastPlace_spec [of immune_state]
        attachBombeeToLastPlace_spec [of alone_state]
  by (simp add: rich_poor_state_def immune_state_def alone_state_def makeState_def
        makePlayer_def attachBombeeToLastPlace_def getLastPlacePlayer_def immune_def)

section \<open>The debuff invariant\<close>

lemma filter_le1:
  "distinct (map f xs) \<Longrightarrow> (\<forall>x\<in>set xs. P x \<longrightarrow> f x = i) \<Longrightarrow> length (filter P xs) \<le> 1"
proof (induction xs)
  case Nil
  show ?case by simp
next
  case (Cons x xs)
  show ?case
  proof (cases "P x")
    case True
    have "filter P xs = []"
    proof (rule ccontr)
      assume "filter P xs \<noteq> []"
      then obtain y where y: "y \<in> set xs" "P y"
        by (auto simp: filter_empty_conv)
      with Cons.prems True have "f y = f x" by simp
      with y(1) Cons.prems(1) show False by (auto simp: image_iff)
    qed
    with True show ?thesis by simp
  next
    case False
    with Cons show ?thesis by simp
  qed
qed

lemma le1_only:
  "length (filter P xs) \<le> 1 \<Longrightarrow> \<exists>i. \<forall>x\<in>set xs. P x \<longrightarrow> f x = i"
proof (cases "filter P xs")
  case Nil
  then show ?thesis by (auto simp: filter_empty_conv)
next
  case (Cons a as)
  assume "length (filter P xs) \<le> 1"
  with Cons have eq: "filter P xs = [a]" by simp
  have "\<forall>x\<in>set xs. P x \<longrightarrow> x = a"
  proof (intro ballI impI)
    fix x assume "x \<in> set xs" "P x"
    then have "x \<in> set (filter P xs)" by simp
    with eq show "x = a" by simp
  qed
  then show ?thesis by blast
qed

lemma goodI: "distinctIds s \<Longrightarrow> onlyDebuffed i s \<Longrightarrow> atMostOneDebuff s"
  unfolding distinctIds_def onlyDebuffed_def atMostOneDebuff_def by (rule filter_le1)

lemma goodD: "atMostOneDebuff s \<Longrightarrow> \<exists>i. onlyDebuffed i s"
  unfolding onlyDebuffed_def atMostOneDebuff_def by (rule le1_only)

lemma only_keys:
  "map debuffKey (players t) = map debuffKey (players s) \<Longrightarrow>
     distinctIds t = distinctIds s \<and> onlyDebuffed i t = onlyDebuffed i s
     \<and> atMostOneDebuff t = atMostOneDebuff s"
proof -
  assume k: "map debuffKey (players t) = map debuffKey (players s)"
  have a: "\<And>u. map id_player (players u) = map fst (map debuffKey (players u))"
    by (simp add: o_def debuffKey_def)
  have b: "\<And>u. onlyDebuffed i u
              = (\<forall>k\<in>set (map debuffKey (players u)). snd k \<noteq> none \<longrightarrow> fst k = i)"
    by (simp add: onlyDebuffed_def debuffKey_def)
  have c: "\<And>u. atMostOneDebuff u
              = (length (filter (\<lambda>k. snd k \<noteq> none) (map debuffKey (players u))) \<le> 1)"
    by (simp add: atMostOneDebuff_def debuffKey_def filter_map o_def)
  show ?thesis unfolding distinctIds_def a b c k by simp
qed

lemma distinct_map_ids:
  "players t = map f (players s) \<Longrightarrow> (\<And>p. id_player (f p) = id_player p)
     \<Longrightarrow> distinctIds t = distinctIds s"
  by (simp add: distinctIds_def o_def)

lemma attach_good:
  assumes d: "distinctIds s" and a: "atMostOneDebuff s"
  shows "distinctIds (attachBombeeToLastPlace s) \<and> atMostOneDebuff (attachBombeeToLastPlace s)"
proof (cases "2 \<le> length (players s) \<and> (\<forall>p\<in>set (players s). bombeeType p = none)")
  case False
  then have "attachBombeeToLastPlace s = s" using attach_unchanged [of s] by auto
  with d a show ?thesis by simp
next
  case True
  then obtain target where
    eq: "attachBombeeToLastPlace s = s\<lparr>players := map (attachTo target) (players s)\<rparr>"
    using attach_target [of s] by blast
  have d': "distinctIds (attachBombeeToLastPlace s)"
    using d unfolding eq
    by (simp add: distinctIds_def o_def attachTo_def if_distrib [of id_player] cong: if_cong)
  have "onlyDebuffed (id_player target) (attachBombeeToLastPlace s)"
    using True unfolding eq by (auto simp: onlyDebuffed_def attachTo_def)
  with d' show ?thesis by (blast intro: goodI)
qed

lemma remove_good:
  assumes d: "distinctIds s" and a: "atMostOneDebuff s"
  shows "distinctIds (removeBombee s i) \<and> atMostOneDebuff (removeBombee s i)"
proof -
  from goodD [OF a] obtain j where j: "onlyDebuffed j s" ..
  have d': "distinctIds (removeBombee s i)"
    using d
    by (simp add: distinctIds_def removeBombee_def o_def if_distrib [of id_player] cong: if_cong)
  have "onlyDebuffed j (removeBombee s i)"
    using j by (auto simp: onlyDebuffed_def removeBombee_def)
  with d' show ?thesis by (blast intro: goodI)
qed


lemma away_good:
  assumes d: "distinctIds s" and a: "atMostOneDebuff s"
      and r: "newState_use (useBombeeAway s i c) = Some t"
  shows "distinctIds t \<and> atMostOneDebuff t"
proof -
  from goodD [OF a] obtain j where j: "onlyDebuffed j s" ..
  have d': "distinctIds t"
    using d r
    by (auto simp: distinctIds_def useBombeeAway_def ok_use_state o_def Let_def
          if_distrib [of id_player] cong: if_cong split: option.splits if_splits)
  have "onlyDebuffed j t"
    using j r
    by (auto simp: onlyDebuffed_def useBombeeAway_def ok_use_state Let_def
          split: option.splits if_splits)
  with d' show ?thesis by (blast intro: goodI)
qed

lemma transfer_good:
  assumes d: "distinctIds s" and a: "atMostOneDebuff s"
      and r: "newState_use (useBombeeTransfer s fromId toId) = Some t"
  shows "distinctIds t \<and> atMostOneDebuff t"
proof -
  from goodD [OF a] obtain j where j: "onlyDebuffed j s" ..
  from r obtain fromP where
    f: "find (\<lambda>p. id_player p = fromId) (players s) = Some fromP" "bombeeType fromP \<noteq> none"
    and eq: "t = s\<lparr>players :=
                 map (\<lambda>p. if id_player p = fromId
                            then p\<lparr>bombeeType := none, bombeeElapsedTurns := 0\<rparr>
                            else if id_player p = toId
                            then p\<lparr>bombeeType := bombeeType fromP, bombeeElapsedTurns := 0\<rparr>
                            else p)
                     (players s)\<rparr>"
    by (auto simp: useBombeeTransfer_def ok_use_state fail_use_state
          split: option.splits if_splits)
  from f(1) have "fromP \<in> set (players s)" "id_player fromP = fromId"
    by (auto simp: find_Some_iff in_set_conv_nth)
  with j f(2) have jf: "j = fromId" by (auto simp: onlyDebuffed_def)
  have d': "distinctIds t"
    using d unfolding eq
    by (simp add: distinctIds_def o_def if_distrib [of id_player] cong: if_cong)
  have "onlyDebuffed toId t"
    using j unfolding eq jf by (auto simp: onlyDebuffed_def)
  with d' show ?thesis by (blast intro: goodI)
qed

lemma lastToSecond_good:
  assumes d: "distinctIds s" and a: "atMostOneDebuff s"
      and r: "newState_use (useBombeeTransferLastToSecond s) = Some t"
  shows "distinctIds t \<and> atMostOneDebuff t"
proof -
  from goodD [OF a] obtain j where j: "onlyDebuffed j s" ..
  from r obtain lastP secondP rest where
    srt: "sort_key totalAssets (players s) = lastP # secondP # rest" "bombeeType lastP \<noteq> none"
    and eq: "t = s\<lparr>players :=
                 map (\<lambda>p. if id_player p = id_player lastP
                            then p\<lparr>bombeeType := none, bombeeElapsedTurns := 0\<rparr>
                            else if id_player p = id_player secondP
                            then p\<lparr>bombeeType := bombeeType lastP, bombeeElapsedTurns := 0\<rparr>
                            else p)
                     (players s)\<rparr>"
    by (auto simp: useBombeeTransferLastToSecond_def ok_use_state fail_use_state
          split: list.splits if_splits)
  have "lastP \<in> set (sort_key totalAssets (players s))" unfolding srt by simp
  then have "lastP \<in> set (players s)" by simp
  with j srt(2) have jf: "j = id_player lastP" by (auto simp: onlyDebuffed_def)
  have d': "distinctIds t"
    using d unfolding eq
    by (simp add: distinctIds_def o_def if_distrib [of id_player] cong: if_cong)
  have "onlyDebuffed (id_player secondP) t"
    using j unfolding eq jf by (auto simp: onlyDebuffed_def)
  with d' show ?thesis by (blast intro: goodI)
qed

lemma maybeMove_ids:
  "distinctIds s \<Longrightarrow> distinctIds (maybeMoveToLastPlace s cur r)"
  by (auto simp: maybeMoveToLastPlace_def distinctIds_def Let_def o_def
        if_distrib [of id_player] cong: if_cong split: option.splits)

lemma maybeMove_only:
  "onlyDebuffed cur s \<Longrightarrow>
     onlyDebuffed cur (maybeMoveToLastPlace s cur r)
     \<or> (\<exists>lp. getLastPlacePlayer
                (filter (\<lambda>p. id_player p \<noteq> cur \<and> \<not> immune p) (players s)) = Some lp
             \<and> onlyDebuffed (id_player lp) (maybeMoveToLastPlace s cur r))"
  by (auto simp: maybeMoveToLastPlace_def onlyDebuffed_def Let_def split: option.splits)

lemma maybeMove_good:
  assumes d: "distinctIds s" and j: "onlyDebuffed cur s"
  shows "distinctIds (maybeMoveToLastPlace s cur r) \<and> atMostOneDebuff (maybeMoveToLastPlace s cur r)"
  using maybeMove_ids [OF d, of cur r] maybeMove_only [OF j, of r]
  by (blast intro: goodI)

lemma action_good:
  assumes d: "distinctIds s" and a: "atMostOneDebuff s"
  shows "distinctIds (processBombeeAction s r1 r2 r3 rm)
         \<and> atMostOneDebuff (processBombeeAction s r1 r2 r3 rm)"
proof (cases "find (\<lambda>p. bombeeType p \<noteq> none) (players s)")
  case None
  then have "processBombeeAction s r1 r2 r3 rm = s" by (simp add: processBombeeAction_def)
  with d a show ?thesis by simp
next
  case (Some bp)
  from goodD [OF a] obtain j where j: "onlyDebuffed j s" ..
  from Some have "bp \<in> set (players s)" "bombeeType bp \<noteq> none"
    by (auto simp: find_Some_iff in_set_conv_nth)
  with j have jb: "j = id_player bp" by (auto simp: onlyDebuffed_def)
  define s1 where "s1 = s\<lparr>players :=
        map (\<lambda>p. if id_player p = id_player bp
                   then p\<lparr>bombeeType := checkEvolution (bombeeType bp) (Suc (bombeeElapsedTurns bp)),
                          bombeeElapsedTurns := Suc (bombeeElapsedTurns bp)\<rparr>
                   else p)
            (players s)\<rparr>"
  define s2 where "s2 = executeBombeeEffect s1 (id_player bp)
                          (checkEvolution (bombeeType bp) (Suc (bombeeElapsedTurns bp))) r1 r2 r3"
  have eq: "processBombeeAction s r1 r2 r3 rm = maybeMoveToLastPlace s2 (id_player bp) rm"
    by (simp add: processBombeeAction_def Some Let_def s1_def s2_def)
  have d1: "distinctIds s1"
    using d unfolding s1_def
    by (simp add: distinctIds_def o_def if_distrib [of id_player] cong: if_cong)
  have o1: "onlyDebuffed (id_player bp) s1"
    using j unfolding s1_def jb by (auto simp: onlyDebuffed_def)
  have "sameKeys s1 s2" unfolding s2_def by (rule sameKeys_executeBombeeEffect)
  then have "map debuffKey (players s2) = map debuffKey (players s1)"
    by (rule sameKeys_debuffKey)
  from only_keys [OF this] d1 o1 have "distinctIds s2" "onlyDebuffed (id_player bp) s2"
    by simp_all
  then show ?thesis unfolding eq by (rule maybeMove_good)
qed


lemma debuffKey_good:
  "map debuffKey (players t) = map debuffKey (players s) \<Longrightarrow>
     distinctIds s \<and> atMostOneDebuff s \<Longrightarrow> distinctIds t \<and> atMostOneDebuff t"
  using only_keys [of t s] by simp

lemma sameKeys_good:
  "sameKeys s t \<Longrightarrow> distinctIds s \<and> atMostOneDebuff s \<Longrightarrow> distinctIds t \<and> atMostOneDebuff t"
proof -
  assume k: "sameKeys s t" and g: "distinctIds s \<and> atMostOneDebuff s"
  from sameKeys_debuffKey [OF k] g show ?thesis by (rule debuffKey_good)
qed

lemma useCard_found:
  assumes "find (\<lambda>p. id_player p = playerId) (players s) = Some player"
      and "getCardById allCards cardId = Some crd"
      and "cardId \<in> set (hand player)"
  shows "useCard allCards s playerId cardId options r =
     (let removed = removeFromHand playerId cardId s in
            (case type_card crd of
               move_to_destination \<Rightarrow> Inr (useMoveToDest removed playerId crd)
             | get_money \<Rightarrow> Inr (useGetMoney removed playerId crd)
             | pay_money \<Rightarrow> usePayMoney removed playerId crd
             | bombee_transfer \<Rightarrow>
                 if targetType (effect crd) = Some ''last_to_second''
                 then Inr (useBombeeTransferLastToSecond removed)
                 else if \<not> truthy (targetPlayerId options) then Inr (fail_use no_target)
                 else Inr (useBombeeTransfer removed playerId (string_of (targetPlayerId options)))
             | card_steal \<Rightarrow>
                 if \<not> truthy (targetPlayerId options) then Inr (fail_use no_target)
                 else Inr (useCardSteal removed playerId (string_of (targetPlayerId options))
                             (targetCardId options) r)
             | move_to_city \<Rightarrow> Inr (useMoveToCity removed playerId crd)
             | bombee_away \<Rightarrow> Inr (useBombeeAway removed playerId crd)
             | sell_property \<Rightarrow>
                 Inr (useSellProperty removed playerId crd (targetPropertyId options)
                        (targetPlayerId options) (targetCityId options))
             | steal_property \<Rightarrow> Inr (useStealProperty removed playerId crd (targetCityId options))
             | monopoly_break \<Rightarrow> Inr (useMonopolyBreak removed playerId crd)
             | buy_property \<Rightarrow> Inr (useBuyProperty removed playerId crd (targetCityId options))
             | double_income \<Rightarrow> Inr (useDoubleIncome removed playerId crd)
             | move_steps \<Rightarrow> Inr (ok_use removed)
             | plus_dice \<Rightarrow> Inr (ok_use removed)))"
  using assms by (simp add: useCard_def)

lemma useCard_state_found:
  assumes "useCard allCards s playerId cardId options r = Inr res"
      and "newState_use res = Some t"
  shows "\<exists>player crd. find (\<lambda>p. id_player p = playerId) (players s) = Some player
           \<and> getCardById allCards cardId = Some crd \<and> cardId \<in> set (hand player)"
proof (cases "find (\<lambda>p. id_player p = playerId) (players s)")
  case None
  with assms show ?thesis by (auto simp: useCard_def fail_use_state)
next
  case (Some player)
  note pl = this
  show ?thesis
  proof (cases "getCardById allCards cardId")
    case None
    with assms pl show ?thesis by (auto simp: useCard_def fail_use_state)
  next
    case (Some crd)
    show ?thesis
    proof (cases "cardId \<in> set (hand player)")
      case True
      with pl Some show ?thesis by simp
    next
      case False
      with assms pl Some show ?thesis by (auto simp: useCard_def fail_use_state)
    qed
  qed
qed

lemma card_good:
  assumes g: "distinctIds s \<and> atMostOneDebuff s"
      and u: "useCard allCards s playerId cardId options r = Inr res"
      and n: "newState_use res = Some t"
  shows "distinctIds t \<and> atMostOneDebuff t"
proof -
  from useCard_state_found [OF u n] obtain player crd where
    f: "find (\<lambda>p. id_player p = playerId) (players s) = Some player"
       "getCardById allCards cardId = Some crd" "cardId \<in> set (hand player)"
    by blast
  define removed where "removed = removeFromHand playerId cardId s"
  have gr: "distinctIds removed \<and> atMostOneDebuff removed"
    unfolding removed_def using debuffKey_removeFromHand g by (rule debuffKey_good)
  note eq = useCard_found [OF f, of options r, unfolded Let_def, folded removed_def]
  show ?thesis
  proof (cases "type_card crd")
    case move_to_destination
    with u eq n have "sameKeys removed t" by (auto dest: sameKeys_useMoveToDest)
    then show ?thesis using gr by (rule sameKeys_good)
  next
    case move_steps
    with u eq n have "t = removed" by (auto simp: ok_use_state)
    with gr show ?thesis by simp
  next
    case move_to_city
    with u eq n have "sameKeys removed t" by (auto dest: sameKeys_useMoveToCity)
    then show ?thesis using gr by (rule sameKeys_good)
  next
    case buy_property
    with u eq n have "sameKeys removed t" by (auto dest: sameKeys_useBuyProperty)
    then show ?thesis using gr by (rule sameKeys_good)
  next
    case steal_property
    with u eq n have "sameKeys removed t" by (auto dest: sameKeys_useStealProperty)
    then show ?thesis using gr by (rule sameKeys_good)
  next
    case sell_property
    with u eq n have "sameKeys removed t" by (auto dest: sameKeys_useSellProperty)
    then show ?thesis using gr by (rule sameKeys_good)
  next
    case get_money
    with u eq n have "sameKeys removed t" by (auto dest: sameKeys_useGetMoney)
    then show ?thesis using gr by (rule sameKeys_good)
  next
    case pay_money
    with u eq n have "sameKeys removed t" by (auto dest: sameKeys_usePayMoney)
    then show ?thesis using gr by (rule sameKeys_good)
  next
    case bombee_away
    with u eq n have "newState_use (useBombeeAway removed playerId crd) = Some t" by auto
    with gr show ?thesis by (blast intro: away_good [THEN conjunct1] away_good [THEN conjunct2])
  next
    case bombee_transfer
    with u eq n have
      "newState_use (useBombeeTransferLastToSecond removed) = Some t
       \<or> newState_use (useBombeeTransfer removed playerId (string_of (targetPlayerId options)))
            = Some t"
      by (auto simp: fail_use_state split: if_splits)
    with gr show ?thesis
      using lastToSecond_good [of removed t]
            transfer_good [of removed playerId "string_of (targetPlayerId options)" t]
      by blast
  next
    case monopoly_break
    with u eq n have "sameKeys removed t" by (auto dest: sameKeys_useMonopolyBreak)
    then show ?thesis using gr by (rule sameKeys_good)
  next
    case card_steal
    with u eq n have "map debuffKey (players t) = map debuffKey (players removed)"
      by (auto simp: fail_use_state split: if_splits dest: debuffKey_useCardSteal)
    then show ?thesis using gr by (rule debuffKey_good)
  next
    case plus_dice
    with u eq n have "t = removed" by (auto simp: ok_use_state)
    with gr show ?thesis by simp
  next
    case double_income
    with u eq n have "sameKeys removed t" by (auto dest: sameKeys_useDoubleIncome)
    then show ?thesis using gr by (rule sameKeys_good)
  qed
qed

lemma debuffOp_good:
  "debuffOp allCards s t \<Longrightarrow> distinctIds s \<and> atMostOneDebuff s
     \<Longrightarrow> distinctIds t \<and> atMostOneDebuff t"
proof (induction rule: debuffOp.induct)
  case (attach s)
  then show ?case using attach_good by blast
next
  case (action s r1 r2 r3 rMove)
  then show ?case using action_good by blast
next
  case (remove s targetId)
  then show ?case using remove_good by blast
next
  case (card s playerId cardId options r res s')
  then show ?case using card_good by blast
qed

text \<open>
  Claim C8. From a state with distinct player ids in which at most one player has a debuff
  kind other than \<open>none\<close>, every sequence of debuff operations (attachment, action of a
  turn with migration, removal, use of a card) leads to a state in which at most one player
  has a debuff kind other than \<open>none\<close>.
\<close>

theorem debuff_invariant:
  assumes "distinctIds s" and "atMostOneDebuff s" and "(debuffOp allCards)\<^sup>*\<^sup>* s t"
  shows "atMostOneDebuff t"
proof -
  from assms(3) assms(1,2) have "distinctIds t \<and> atMostOneDebuff t"
    by (induction rule: rtranclp_induct) (auto dest: debuffOp_good)
  then show ?thesis ..
qed

theorem debuff_invariant_witness:
  "distinctIds rich_poor_state \<and> atMostOneDebuff rich_poor_state
   \<and> (debuffOp [])\<^sup>*\<^sup>* rich_poor_state
        (processBombeeAction (attachBombeeToLastPlace rich_poor_state)
           random_zero random_zero random_zero random_zero)
   \<and> atMostOneDebuff
        (processBombeeAction (attachBombeeToLastPlace rich_poor_state)
           random_zero random_zero random_zero random_zero)
   \<and> map bombeeType (players (attachBombeeToLastPlace rich_poor_state)) = [none, mini]"
proof -
  have d: "distinctIds rich_poor_state"
    by (simp add: distinctIds_def rich_poor_state_def makeState_def makePlayer_def)
  have a: "atMostOneDebuff rich_poor_state"
    by (simp add: atMostOneDebuff_def rich_poor_state_def makeState_def makePlayer_def)
  have r: "(debuffOp [])\<^sup>*\<^sup>* rich_poor_state
        (processBombeeAction (attachBombeeToLastPlace rich_poor_state)
           random_zero random_zero random_zero random_zero)"
    by (meson debuffOp.attach debuffOp.action rtranclp.rtrancl_into_rtrancl rtranclp.rtrancl_refl)
  have m: "map bombeeType (players (attachBombeeToLastPlace rich_poor_state)) = [none, mini]"
    by (simp add: rich_poor_state_def makeState_def makePlayer_def attachBombeeToLastPlace_def
          getLastPlacePlayer_def immune_def)
  from debuff_invariant [OF d a r] d a r m show ?thesis by simp
qed

section \<open>Forced sales and the upgrade level\<close>

lemma draw_bounds: "0 \<le> draw r" "draw r < 1"
  using draw [of r] by simp_all

lemma randomInt_range:
  assumes "0 < n"
  shows "0 \<le> randomInt 0 (n - 1) r \<and> randomInt 0 (n - 1) r < n"
proof -
  have a: "0 \<le> draw r * of_int n" using draw_bounds(1) assms by simp
  have "draw r * of_int n < 1 * of_int n"
    using draw_bounds(2) assms by (intro mult_strict_right_mono) simp_all
  then have b: "draw r * of_int n < of_int n" by simp
  from a b show ?thesis by (simp add: randomInt_def floor_less_iff)
qed

lemma randomPick_in_set: "arr \<noteq> [] \<Longrightarrow> randomPick arr r \<in> set arr"
proof -
  assume "arr \<noteq> []"
  then have "0 < int (length arr)" by simp
  from randomInt_range [OF this, of r]
  have "nat (randomInt 0 (int (length arr) - 1) r) < length arr" by linarith
  then show ?thesis unfolding randomPick_def by (rule nth_mem)
qed

lemma unown_levels: "map upgradeLevel (unown prop props) = map upgradeLevel props"
  by (simp add: unown_def o_def if_distrib [of upgradeLevel] cong: if_cong)

lemma unown_owner:
  "p' \<in> set (unown prop props) \<Longrightarrow> id_prop p' = id_prop prop \<Longrightarrow> ownerId p' = None"
  by (auto simp: unown_def split: if_splits)

lemma unown_ids: "map id_prop (unown prop props) = map id_prop props"
  by (simp add: unown_def o_def if_distrib [of id_prop] cong: if_cong)

lemma unown_stays:
  "p' \<in> set (unown prop props) \<Longrightarrow> ownerId p' = None \<or> p' \<in> set props"
  by (auto simp: unown_def split: if_splits)

lemma normalAction_sale:
  assumes "filter (\<lambda>p. ownerId p = Some (id_player target)) (properties s) \<noteq> []"
      and "draw rSell < 1 / 2"
  shows "properties (normalAction s target rSell rPick rRate)
           = unown (randomPick (filter (\<lambda>p. ownerId p = Some (id_player target)) (properties s))
                      rPick)
                   (properties s)"
  using assms by (simp add: normalAction_def Let_def unown_def)

lemma sellAllLoop_props:
  "snd (sellAllLoop xs (l, ps)) = foldl (\<lambda>acc prop. unown prop acc) ps xs"
  by (induction xs arbitrary: l ps) (simp_all add: unown_def)

lemma foldl_unown_levels:
  "map upgradeLevel (foldl (\<lambda>acc prop. unown prop acc) ps xs) = map upgradeLevel ps"
  by (induction xs arbitrary: ps) (simp_all add: unown_levels)

lemma foldl_unown_ids:
  "map id_prop (foldl (\<lambda>acc prop. unown prop acc) ps xs) = map id_prop ps"
  by (induction xs arbitrary: ps) (simp_all add: unown_ids)

lemma foldl_unown_keeps_None:
  "\<forall>p'\<in>set ps. id_prop p' = i \<longrightarrow> ownerId p' = None \<Longrightarrow>
   \<forall>p'\<in>set (foldl (\<lambda>acc prop. unown prop acc) ps xs). id_prop p' = i \<longrightarrow> ownerId p' = None"
proof (induction xs arbitrary: ps)
  case Nil
  then show ?case by simp
next
  case (Cons x xs)
  have "\<forall>p'\<in>set (unown x ps). id_prop p' = i \<longrightarrow> ownerId p' = None"
    using Cons.prems by (auto simp: unown_def split: if_splits)
  from Cons.IH [OF this] show ?case by simp
qed

lemma foldl_unown_owner:
  "prop \<in> set xs \<Longrightarrow>
   \<forall>p'\<in>set (foldl (\<lambda>acc prop. unown prop acc) ps xs).
      id_prop p' = id_prop prop \<longrightarrow> ownerId p' = None"
proof (induction xs arbitrary: ps)
  case Nil
  then show ?case by simp
next
  case (Cons x xs)
  show ?case
  proof (cases "prop = x")
    case True
    have "\<forall>p'\<in>set (unown x ps). id_prop p' = id_prop prop \<longrightarrow> ownerId p' = None"
      using True by (auto dest: unown_owner)
    from foldl_unown_keeps_None [OF this] show ?thesis by simp
  next
    case False
    with Cons.prems have "prop \<in> set xs" by simp
    from Cons.IH [OF this] show ?thesis by simp
  qed
qed

lemma kingAction_sale:
  assumes a: "randomPick [sell_all, steal_big, affect_all] rAction = sell_all"
      and b: "filter (\<lambda>p. ownerId p = Some (id_player target)) (properties s) \<noteq> []"
  shows "properties (kingAction s target rAction rRate)
           = foldl (\<lambda>acc prop. unown prop acc) (properties s)
               (take 3 (filter (\<lambda>p. ownerId p = Some (id_player target)) (properties s)))"
proof -
  let ?owned = "take 3 (filter (\<lambda>p. ownerId p = Some (id_player target)) (properties s))"
  obtain l ps' where e: "sellAllLoop ?owned (0, properties s) = (l, ps')"
    by (cases "sellAllLoop ?owned (0, properties s)")
  have ne: "?owned \<noteq> []" using b by (cases "filter (\<lambda>p. ownerId p = Some (id_player target)) (properties s)") simp_all
  have p: "ps' = foldl (\<lambda>acc prop. unown prop acc) (properties s) ?owned"
    using sellAllLoop_props [of ?owned 0 "properties s"] e by simp
  have "properties (kingAction s target rAction rRate) = ps'"
    using a ne by (simp add: kingAction_def Let_def e)
  with p show ?thesis by simp
qed

lemma sellPropertyForcibly_reset:
  assumes "find (\<lambda>p. id_player p = playerId) (players s) = Some player"
      and "find (\<lambda>p. id_prop p = propertyId) (properties s) = Some property"
      and "ownerId property = Some playerId"
  shows "properties (sellPropertyForcibly s playerId propertyId)
           = toMarket propertyId (properties s)"
  using assms by (simp add: sellPropertyForcibly_def Let_def properties_recalc toMarket_def)

lemma toMarket_reset:
  assumes a: "p' \<in> set (toMarket i props)" and b: "id_prop p' = i"
  shows "ownerId p' = None \<and> upgradeLevel p' = 0"
proof -
  from a have "p' \<in> (\<lambda>x. if id_prop x = i then x\<lparr>ownerId := None, upgradeLevel := 0\<rparr> else x)
                  ` set props"
    by (simp add: toMarket_def)
  then obtain x where
    x: "p' = (if id_prop x = i then x\<lparr>ownerId := None, upgradeLevel := 0\<rparr> else x)"
    by (rule imageE)
  show ?thesis
  proof (cases "id_prop x = i")
    case True
    with x show ?thesis by simp
  next
    case False
    with x b show ?thesis by simp
  qed
qed

lemma sellCityLoop_props:
  "snd (sellCityLoop rate xs (t, ps)) = foldl (\<lambda>acc p. toMarket (id_prop p) acc) ps xs"
  by (induction xs arbitrary: t ps) simp_all

lemma cheapestFrom_in: "cheapestFrom first rest \<in> set (first # rest)"
proof -
  have "foldl (\<lambda>m p. if price p < price m then p else m) a xs \<in> set (a # xs)" for a xs
  proof (induction xs arbitrary: a)
    case Nil
    show ?case by simp
  next
    case (Cons x xs)
    from Cons.IH [of "if price x < price a then x else a"] show ?case
      by (auto split: if_splits)
  qed
  then show ?thesis by (simp add: cheapestFrom_def)
qed

lemma toMarket_keeps_reset:
  assumes "\<forall>p'\<in>set ps. id_prop p' = i \<longrightarrow> ownerId p' = None \<and> upgradeLevel p' = 0"
  shows "\<forall>p'\<in>set (toMarket j ps). id_prop p' = i \<longrightarrow> ownerId p' = None \<and> upgradeLevel p' = 0"
proof (intro ballI impI)
  fix p' assume a: "p' \<in> set (toMarket j ps)" and b: "id_prop p' = i"
  from a have "p' \<in> (\<lambda>x. if id_prop x = j then x\<lparr>ownerId := None, upgradeLevel := 0\<rparr> else x)
                  ` set ps"
    by (simp add: toMarket_def)
  then obtain x where
    x: "x \<in> set ps" "p' = (if id_prop x = j then x\<lparr>ownerId := None, upgradeLevel := 0\<rparr> else x)"
    by (rule imageE)
  show "ownerId p' = None \<and> upgradeLevel p' = 0"
  proof (cases "id_prop x = j")
    case True
    with x show ?thesis by simp
  next
    case False
    with x have px: "p' = x" by simp
    from assms x(1) have "id_prop x = i \<longrightarrow> ownerId x = None \<and> upgradeLevel x = 0"
      by (rule bspec)
    with b px show ?thesis by simp
  qed
qed

lemma foldl_toMarket_keeps:
  assumes "\<forall>p'\<in>set ps. id_prop p' = i \<longrightarrow> ownerId p' = None \<and> upgradeLevel p' = 0"
  shows "\<forall>p'\<in>set (foldl (\<lambda>acc p. toMarket (id_prop p) acc) ps xs).
           id_prop p' = i \<longrightarrow> ownerId p' = None \<and> upgradeLevel p' = 0"
  using assms
proof (induction xs arbitrary: ps)
  case Nil
  then show ?case by simp
next
  case (Cons x xs)
  from toMarket_keeps_reset [OF Cons.prems, of "id_prop x"]
  have "\<forall>p'\<in>set (toMarket (id_prop x) ps).
          id_prop p' = i \<longrightarrow> ownerId p' = None \<and> upgradeLevel p' = 0" .
  from Cons.IH [OF this] show ?case by simp
qed

lemma foldl_toMarket_reset:
  assumes "p \<in> set xs"
  shows "\<forall>p'\<in>set (foldl (\<lambda>acc p. toMarket (id_prop p) acc) ps xs).
           id_prop p' = id_prop p \<longrightarrow> ownerId p' = None \<and> upgradeLevel p' = 0"
  using assms
proof (induction xs arbitrary: ps)
  case Nil
  then show ?case by simp
next
  case (Cons x xs)
  show ?case
  proof (cases "p = x")
    case True
    have "\<forall>p'\<in>set (toMarket (id_prop x) ps).
            id_prop p' = id_prop p \<longrightarrow> ownerId p' = None \<and> upgradeLevel p' = 0"
      unfolding True by (intro ballI impI) (rule toMarket_reset)
    from foldl_toMarket_keeps [OF this] show ?thesis by simp
  next
    case False
    with Cons.prems have "p \<in> set xs" by simp
    from Cons.IH [OF this] show ?thesis by simp
  qed
qed

lemma marketReset_refl: "marketReset ps ps"
  by (simp add: marketReset_def)

lemma marketReset_toMarket: "marketReset ps ps' \<Longrightarrow> marketReset ps (toMarket i ps')"
  by (auto simp: marketReset_def toMarket_def)

lemma properties_recalcLocal: "properties (recalcTotalAssetsLocal s) = properties s"
  by (simp add: recalcTotalAssetsLocal_def)

lemma sellCityLoop_reset:
  "marketReset ps0 ps \<Longrightarrow> marketReset ps0 (snd (sellCityLoop rate xs (t, ps)))"
  by (induction xs arbitrary: t ps) (simp_all add: marketReset_toMarket)

lemma sellCityLoop_reset0:
  "sellCityLoop rate xs (t, ps) = (t', ps') \<Longrightarrow> marketReset ps ps'"
  using sellCityLoop_reset [where ?ps0.0 = ps and ps = ps and rate = rate and xs = xs and t = t,
          OF marketReset_refl]
  by simp

lemma useSellProperty_reset:
  "newState_use (useSellProperty s i c a b d) = Some t \<Longrightarrow>
     marketReset (properties s) (properties t)"
  by (auto dest: sellCityLoop_reset0
      simp: useSellProperty_def Let_def ok_use_state fail_use_state properties_recalcLocal
        marketReset_toMarket marketReset_refl
      split: if_splits prod.splits list.splits)

lemma useMonopolyBreak_reset:
  "newState_use (useMonopolyBreak s i c) = Some t \<Longrightarrow>
     marketReset (properties s) (properties t)"
  by (auto simp: useMonopolyBreak_def Let_def ok_use_state fail_use_state properties_recalcLocal
        marketReset_toMarket marketReset_refl
      split: if_splits prod.splits list.splits option.splits)

lemma useSellProperty_sold:
  assumes n: "newState_use (useSellProperty s i c a b d) = Some t"
  shows "\<exists>sold. sold \<noteq> [] \<and> set sold \<subseteq> set (properties s)
            \<and> (\<forall>p\<in>set sold.
                   ownerId p
                     = Some (if targetType (effect c) = Some ''current_city_all'' \<and> truthy d
                             then i
                             else if targetType (effect c) = Some ''opponent_forced'' \<and> truthy b
                                  then string_of b else i))
            \<and> properties t = foldl (\<lambda>acc p. toMarket (id_prop p) acc) (properties s) sold"
proof -
  let ?city = "targetType (effect c) = Some ''current_city_all'' \<and> truthy d"
  let ?opp = "targetType (effect c) = Some ''opponent_forced'' \<and> truthy b"
  let ?rate = "of_int (case value_effect (effect c) of None \<Rightarrow> 100 | Some v \<Rightarrow> v) / 100 :: rat"
  let ?who = "if ?city then i else if ?opp then string_of b else i"
  show ?thesis
  proof (cases ?city)
    case True
    let ?owned = "filter (\<lambda>p. cityId p = string_of d \<and> ownerId p = Some i) (properties s)"
    have ne: "?owned \<noteq> []"
    proof
      assume "?owned = []"
      then have "useSellProperty s i c a b d = fail_use no_target"
        unfolding useSellProperty_def Let_def if_P [OF True] by simp
      with n show False by (simp add: fail_use_state)
    qed
    obtain tr np where l: "sellCityLoop ?rate ?owned (0, properties s) = (tr, np)"
      by (cases "sellCityLoop ?rate ?owned (0, properties s)")
    have
      "useSellProperty s i c a b d
         = ok_use (recalcTotalAssetsLocal
                     (s\<lparr>players := map (\<lambda>p. if id_player p = i
                                               then p\<lparr>money := money p + tr\<rparr> else p)
                                        (players s),
                        properties := np\<rparr>))"
      unfolding useSellProperty_def Let_def if_P [OF True] using ne l by simp
    with n have "properties t = np"
      by (auto simp: ok_use_state properties_recalcLocal)
    also have "np = foldl (\<lambda>acc p. toMarket (id_prop p) acc) (properties s) ?owned"
      using sellCityLoop_props [of ?rate ?owned 0 "properties s"] l by simp
    finally have "properties t = foldl (\<lambda>acc p. toMarket (id_prop p) acc) (properties s) ?owned" .
    moreover have "set ?owned \<subseteq> set (properties s)" by auto
    moreover have "\<forall>p\<in>set ?owned. ownerId p = Some ?who"
      unfolding if_P [OF True] by simp
    ultimately show ?thesis using ne by blast
  next
    case False
    note nc = this
    show ?thesis
    proof (cases ?opp)
      case True
      let ?props = "filter (\<lambda>p. ownerId p = Some (string_of b)) (properties s)"
      have "?props \<noteq> []"
      proof
        assume "?props = []"
        then have "useSellProperty s i c a b d = fail_use no_target"
          unfolding useSellProperty_def Let_def if_not_P [OF nc] if_P [OF True] by simp
        with n show False by (simp add: fail_use_state)
      qed
      then obtain first rest where fr: "?props = first # rest"
        by (cases ?props) auto
      let ?ch = "cheapestFrom first rest"
      have
        "useSellProperty s i c a b d
           = ok_use (recalcTotalAssetsLocal
                       (s\<lparr>players := map (\<lambda>p. if id_player p = string_of b
                                                 then p\<lparr>money := money p
                                                          + floor_times (price ?ch) ?rate\<rparr>
                                                 else p)
                                          (players s),
                          properties := toMarket (id_prop ?ch) (properties s)\<rparr>))"
        unfolding useSellProperty_def Let_def if_not_P [OF nc] if_P [OF True] fr by simp
      with n have pt: "properties t = foldl (\<lambda>acc p. toMarket (id_prop p) acc) (properties s) [?ch]"
        by (auto simp: ok_use_state properties_recalcLocal)
      have "?ch \<in> set ?props" unfolding fr by (rule cheapestFrom_in)
      then have "?ch \<in> set (properties s)" "ownerId ?ch = Some (string_of b)" by simp_all
      then have "[?ch] \<noteq> []" "set [?ch] \<subseteq> set (properties s)"
                "\<forall>p\<in>set [?ch]. ownerId p = Some ?who"
        unfolding if_not_P [OF nc] if_P [OF True] by simp_all
      with pt show ?thesis by blast
    next
      case False
      let ?props = "filter (\<lambda>p. ownerId p = Some i) (properties s)"
      have "?props \<noteq> []"
      proof
        assume "?props = []"
        then have "useSellProperty s i c a b d = fail_use no_target"
          unfolding useSellProperty_def Let_def if_not_P [OF nc] if_not_P [OF False] by simp
        with n show False by (simp add: fail_use_state)
      qed
      then obtain first rest where fr: "?props = first # rest"
        by (cases ?props) auto
      let ?chosen = "if truthy a then find (\<lambda>p. id_prop p = string_of a) (first # rest) else None"
      let ?tg = "case ?chosen of None \<Rightarrow> first | Some x \<Rightarrow> x"
      have
        "useSellProperty s i c a b d
           = ok_use (recalcTotalAssetsLocal
                       (s\<lparr>players := map (\<lambda>p. if id_player p = i
                                                 then p\<lparr>money := money p
                                                          + floor_times (price ?tg) ?rate\<rparr>
                                                 else p)
                                          (players s),
                          properties := toMarket (id_prop ?tg) (properties s)\<rparr>))"
        unfolding useSellProperty_def Let_def if_not_P [OF nc] if_not_P [OF False] fr by simp
      with n have pt: "properties t = foldl (\<lambda>acc p. toMarket (id_prop p) acc) (properties s) [?tg]"
        by (auto simp: ok_use_state properties_recalcLocal)
      have "?tg \<in> set (first # rest)"
        by (auto split: option.splits simp: find_Some_iff in_set_conv_nth)
      then have "?tg \<in> set ?props" unfolding fr .
      then have "?tg \<in> set (properties s)" "ownerId ?tg = Some i" by simp_all
      then have "[?tg] \<noteq> []" "set [?tg] \<subseteq> set (properties s)"
                "\<forall>p\<in>set [?tg]. ownerId p = Some ?who"
        unfolding if_not_P [OF nc] if_not_P [OF False] by simp_all
      with pt show ?thesis by blast
    qed
  qed
qed

lemma monopolyOpp_Some:
  "monopolyOpp cp opps = Some w \<Longrightarrow> w \<in> set opps \<and> (\<forall>p\<in>set cp. ownerId p = Some w)"
  by (induction opps) (auto simp: list_all_iff split: if_splits)

lemma monopolyCity_Some:
  "monopolyCity props opps cs = Some (cp, w) \<Longrightarrow>
     cp \<noteq> [] \<and> set cp \<subseteq> set props \<and> w \<in> set opps \<and> (\<forall>p\<in>set cp. ownerId p = Some w)"
proof (induction cs)
  case Nil
  then show ?case by simp
next
  case (Cons c rest)
  let ?cp = "filter (\<lambda>p. cityId p = c) props"
  show ?case
  proof (cases "?cp = []")
    case True
    with Cons.prems have "monopolyCity props opps rest = Some (cp, w)" by simp
    then show ?thesis by (rule Cons.IH)
  next
    case False
    show ?thesis
    proof (cases "monopolyOpp ?cp opps")
      case None
      with False Cons.prems have "monopolyCity props opps rest = Some (cp, w)" by simp
      then show ?thesis by (rule Cons.IH)
    next
      case (Some w')
      with False Cons.prems have e: "cp = ?cp" "w = w'" by simp_all
      from monopolyOpp_Some [OF Some]
      have "w' \<in> set opps" "\<forall>p\<in>set ?cp. ownerId p = Some w'" by simp_all
      with e False show ?thesis by auto
    qed
  qed
qed

lemma bestInCity_owner:
  assumes "set cp \<subseteq> set props"
      and "\<forall>b. bt = Some b \<longrightarrow> prop_best b \<in> set props
                 \<and> ownerId (prop_best b) = Some (oppId_best b) \<and> oppId_best b \<in> Q"
      and "set opps \<subseteq> Q"
      and "bestInCity cp opps bt = Some b'"
  shows "prop_best b' \<in> set props \<and> ownerId (prop_best b') = Some (oppId_best b')
         \<and> oppId_best b' \<in> Q"
  using assms
proof (induction opps arbitrary: bt)
  case Nil
  then show ?case by simp
next
  case (Cons oppId rest)
  let ?ratio = "of_nat (length (filter (\<lambda>p. ownerId p = Some oppId) cp)) / of_nat (length cp) :: rat"
  let ?cond = "?ratio > 0 \<and> ?ratio < 1
               \<and> (case bt of None \<Rightarrow> True | Some b \<Rightarrow> ?ratio > ratio_best b)"
  from Cons.prems(3) have sub: "set rest \<subseteq> Q" and w: "oppId \<in> Q" by simp_all
  show ?case
  proof (cases ?cond)
    case False
    then have "bestInCity cp (oppId # rest) bt = bestInCity cp rest bt"
      unfolding bestInCity.simps Let_def by (rule if_not_P)
    with Cons.prems(4) have "bestInCity cp rest bt = Some b'" by simp
    from Cons.IH [OF Cons.prems(1) Cons.prems(2) sub this] show ?thesis .
  next
    case True
    show ?thesis
    proof (cases "find (\<lambda>p. ownerId p = Some oppId) cp")
      case None
      have "bestInCity cp (oppId # rest) bt = bestInCity cp rest bt"
        unfolding bestInCity.simps Let_def if_P [OF True] None by simp
      with Cons.prems(4) have "bestInCity cp rest bt = Some b'" by simp
      from Cons.IH [OF Cons.prems(1) Cons.prems(2) sub this] show ?thesis .
    next
      case (Some q)
      let ?b = "\<lparr>oppId_best = oppId, prop_best = q, ratio_best = ?ratio\<rparr>"
      have "bestInCity cp (oppId # rest) bt = bestInCity cp rest (Some ?b)"
        unfolding bestInCity.simps Let_def if_P [OF True] Some by simp
      with Cons.prems(4) have r: "bestInCity cp rest (Some ?b) = Some b'" by simp
      from Some have "q \<in> set cp" "ownerId q = Some oppId"
        by (auto simp: find_Some_iff)
      with Cons.prems(1) w
      have "\<forall>b. Some ?b = Some b \<longrightarrow> prop_best b \<in> set props
                 \<and> ownerId (prop_best b) = Some (oppId_best b) \<and> oppId_best b \<in> Q"
        by auto
      from Cons.IH [OF Cons.prems(1) this sub r] show ?thesis .
    qed
  qed
qed

lemma bestOverCities_owner:
  assumes "\<forall>b. bt = Some b \<longrightarrow> prop_best b \<in> set props
                 \<and> ownerId (prop_best b) = Some (oppId_best b) \<and> oppId_best b \<in> set opps"
      and "bestOverCities props opps cs bt = Some b'"
  shows "prop_best b' \<in> set props \<and> ownerId (prop_best b') = Some (oppId_best b')
         \<and> oppId_best b' \<in> set opps"
  using assms
proof (induction cs arbitrary: bt)
  case Nil
  then show ?case by simp
next
  case (Cons c rest)
  let ?cp = "filter (\<lambda>p. cityId p = c) props"
  show ?case
  proof (cases "length ?cp \<le> 1")
    case True
    with Cons.prems(2) have "bestOverCities props opps rest bt = Some b'" by simp
    from Cons.IH [OF Cons.prems(1) this] show ?thesis .
  next
    case False
    with Cons.prems(2)
    have r: "bestOverCities props opps rest (bestInCity ?cp opps bt) = Some b'" by simp
    have "\<forall>b. bestInCity ?cp opps bt = Some b \<longrightarrow> prop_best b \<in> set props
                 \<and> ownerId (prop_best b) = Some (oppId_best b) \<and> oppId_best b \<in> set opps"
    proof (intro allI impI)
      fix b assume "bestInCity ?cp opps bt = Some b"
      with bestInCity_owner [of ?cp props bt "set opps" opps b] Cons.prems(1)
      show "prop_best b \<in> set props
                 \<and> ownerId (prop_best b) = Some (oppId_best b) \<and> oppId_best b \<in> set opps"
        by simp
    qed
    from Cons.IH [OF this r] show ?thesis .
  qed
qed

lemma useMonopolyBreak_sold:
  assumes n: "newState_use (useMonopolyBreak s i c) = Some t"
  shows "\<exists>p\<in>set (properties s). \<exists>w. ownerId p = Some w \<and> w \<noteq> i
            \<and> properties t = toMarket (id_prop p) (properties s)"
proof -
  let ?opps = "map id_player (filter (\<lambda>p. id_player p \<noteq> i) (players s))"
  let ?cs = "setOf (map cityId (properties s))"
  have opp: "w \<noteq> i" if "w \<in> set ?opps" for w using that by auto
  show ?thesis
  proof (cases "monopolyCity (properties s) ?opps ?cs")
    case (Some r)
    obtain cp w where r: "r = (cp, w)" by (cases r)
    from monopolyCity_Some [OF Some [unfolded r]]
    have m: "cp \<noteq> []" "set cp \<subseteq> set (properties s)" "w \<in> set ?opps"
            "\<forall>p\<in>set cp. ownerId p = Some w"
      by simp_all
    from m(1) obtain first rest where fr: "cp = first # rest" by (cases cp) auto
    let ?ch = "cheapestFrom first rest"
    have "useMonopolyBreak s i c
            = ok_use (recalcTotalAssetsLocal
                        (s\<lparr>players := map (\<lambda>p. if id_player p = w
                                                  then p\<lparr>money := money p
                                                           + floor_times (price ?ch) (8 / 10)\<rparr>
                                                  else p)
                                           (players s),
                           properties := toMarket (id_prop ?ch) (properties s)\<rparr>))"
      unfolding useMonopolyBreak_def Let_def Some r fr by simp
    with n have pt: "properties t = toMarket (id_prop ?ch) (properties s)"
      by (auto simp: ok_use_state properties_recalcLocal)
    have "?ch \<in> set cp" unfolding fr by (rule cheapestFrom_in)
    with m have "?ch \<in> set (properties s)" "ownerId ?ch = Some w" by auto
    with pt opp [OF m(3)] show ?thesis by blast
  next
    case None
    show ?thesis
    proof (cases "bestOverCities (properties s) ?opps ?cs None")
      case None': None
      have "useMonopolyBreak s i c = fail_use no_target"
        unfolding useMonopolyBreak_def Let_def None None' by simp
      with n show ?thesis by (simp add: fail_use_state)
    next
      case (Some bt)
      have "\<forall>b. (None :: BestTarget option) = Some b \<longrightarrow> prop_best b \<in> set (properties s)
                 \<and> ownerId (prop_best b) = Some (oppId_best b) \<and> oppId_best b \<in> set ?opps"
        by simp
      from bestOverCities_owner [OF this Some]
      have b: "prop_best bt \<in> set (properties s)" "ownerId (prop_best bt) = Some (oppId_best bt)"
              "oppId_best bt \<in> set ?opps"
        by simp_all
      have "useMonopolyBreak s i c
              = ok_use (recalcTotalAssetsLocal
                          (s\<lparr>players := map (\<lambda>p. if id_player p = oppId_best bt
                                                    then p\<lparr>money := money p
                                                             + floor_times (price (prop_best bt)) (8 / 10)\<rparr>
                                                    else p)
                                             (players s),
                             properties := toMarket (id_prop (prop_best bt)) (properties s)\<rparr>))"
        unfolding useMonopolyBreak_def Let_def None Some by simp
      with n have pt: "properties t = toMarket (id_prop (prop_best bt)) (properties s)"
        by (auto simp: ok_use_state properties_recalcLocal)
      with b opp [OF b(3)] show ?thesis by blast
    qed
  qed
qed

lemma draw_random_zero: "draw random_zero = 0"
  by (rule random_zero.rep_eq)

lemma randomPick_zero: "randomPick (x # xs) random_zero = x"
  by (simp add: randomPick_def randomInt_def draw_random_zero)

lemma sale_example_normal: "properties (normalAction upgraded_state upgraded_p1 random_zero random_zero random_zero)
            = [(makeProperty ''prop1'' ''tokyo'' 1000 200)\<lparr>upgradeLevel := 1, ownerId := None\<rparr>,
               makeProperty ''prop2'' ''tokyo'' 2000 400]"
    by (simp add: normalAction_def upgraded_state_def upgraded_p1_def makeState_def
          makePlayer_def makeProperty_def randomPick_zero draw_random_zero Let_def)

lemma sale_example_king: "properties (kingAction upgraded_state upgraded_p1 random_zero random_zero)
            = [(makeProperty ''prop1'' ''tokyo'' 1000 200)\<lparr>upgradeLevel := 1, ownerId := None\<rparr>,
               makeProperty ''prop2'' ''tokyo'' 2000 400]"
    by (simp add: kingAction_def upgraded_state_def upgraded_p1_def makeState_def
          makePlayer_def makeProperty_def randomPick_zero Let_def)

lemma sale_example_forcibly: "properties (sellPropertyForcibly upgraded_state ''p1'' ''prop1'')
            = [(makeProperty ''prop1'' ''tokyo'' 1000 200)\<lparr>upgradeLevel := 0, ownerId := None\<rparr>,
               makeProperty ''prop2'' ''tokyo'' 2000 400]"
    by (simp add: sellPropertyForcibly_def upgraded_state_def upgraded_p1_def makeState_def
          makePlayer_def makeProperty_def recalcTotalAssets_def Let_def)

lemma upgraded_reachable: "\<exists>s1 s2. newState (buyProperty test_state ''p1'' ''prop1'') = Some s1
          \<and> newState (upgradeProperty s1 ''p1'' ''prop1'') = Some s2
          \<and> properties s2 = properties upgraded_state
          \<and> map money (players s2) = map money (players upgraded_state)"
    by (simp add: buyProperty_def upgradeProperty_def test_state_def upgraded_state_def
          upgraded_p1_def makeState_def makePlayer_def makeProperty_def recalcTotalAssets_def
          getCurrentPrice_def Let_def)

lemma sale_example_card:
  "\<exists>t. newState_use (useSellProperty upgraded_state ''p1'' card_sell None None None) = Some t
      \<and> map (\<lambda>p. (ownerId p, upgradeLevel p)) (properties t) = [(None, 0), (None, 0)]
      \<and> map money (players t) = [8000, 10000]"
  by (simp add: useSellProperty_def card_sell_def upgraded_state_def upgraded_p1_def makeState_def
        makePlayer_def makeProperty_def truthy_def toMarket_def floor_times_def ok_use_def
        recalcTotalAssetsLocal_def Let_def)

lemma sale_example_break:
  "\<exists>t. newState_use (useMonopolyBreak upgraded_state ''p2'' card_break) = Some t
      \<and> map (\<lambda>p. (ownerId p, upgradeLevel p)) (properties t) = [(None, 0), (None, 0)]
      \<and> map money (players t) = [7800, 10000]"
  by (simp add: useMonopolyBreak_def card_break_def upgraded_state_def upgraded_p1_def makeState_def
        makePlayer_def makeProperty_def setOf_def toMarket_def floor_times_def ok_use_def
        recalcTotalAssetsLocal_def Let_def)


text \<open>
  Claim C10. When the \<open>normal\<close> action sells a property (the target owns one and the sale
  is drawn) the property is one of the target's, it becomes unowned, and the upgrade level of
  every property is what it was; the same holds when the \<open>king\<close> action sells up to three
  properties. \<open>sellPropertyForcibly\<close> leaves the sold property unowned at level 0. A sale
  card that succeeds sells a non-empty list of properties of the seller (the acting player,
  or the chosen opponent of \<open>opponent_forced\<close>), and the monopoly-break card one property
  of an opponent: the new properties are the old ones with each sold property returned to the
  market, every property with a sold id is unowned at level 0, and every other property is
  what it was. The witness sells the upgraded property of a state reached by a purchase and
  an upgrade: the debuff sale leaves it unowned at level 1; \<open>sellPropertyForcibly\<close>, the
  sale card and the monopoly-break card leave it unowned at level 0.
\<close>

theorem forced_sale_upgradeLevel:
  "(filter (\<lambda>p. ownerId p = Some (id_player target)) (properties s) \<noteq> [] \<and> draw rSell < 1 / 2 \<longrightarrow>
      (\<exists>prop\<in>set (properties s).
          ownerId prop = Some (id_player target)
        \<and> properties (normalAction s target rSell rPick rRate)
            = map (\<lambda>p. if id_prop p = id_prop prop then p\<lparr>ownerId := None\<rparr> else p)
                  (properties s)
        \<and> map upgradeLevel (properties (normalAction s target rSell rPick rRate))
            = map upgradeLevel (properties s)
        \<and> (\<forall>p'\<in>set (properties (normalAction s target rSell rPick rRate)).
              id_prop p' = id_prop prop \<longrightarrow> ownerId p' = None)))
   \<and> (randomPick [sell_all, steal_big, affect_all] rAction = sell_all
        \<and> filter (\<lambda>p. ownerId p = Some (id_player target)) (properties s) \<noteq> [] \<longrightarrow>
          map upgradeLevel (properties (kingAction s target rAction rRate))
            = map upgradeLevel (properties s)
        \<and> (\<forall>prop\<in>set (take 3 (filter (\<lambda>p. ownerId p = Some (id_player target))
                                        (properties s))).
            \<forall>p'\<in>set (properties (kingAction s target rAction rRate)).
              id_prop p' = id_prop prop \<longrightarrow> ownerId p' = None))
   \<and> (\<forall>player property.
          find (\<lambda>p. id_player p = playerId) (players s) = Some player
        \<and> find (\<lambda>p. id_prop p = propertyId) (properties s) = Some property
        \<and> ownerId property = Some playerId \<longrightarrow>
          (\<forall>p'\<in>set (properties (sellPropertyForcibly s playerId propertyId)).
             id_prop p' = propertyId \<longrightarrow> ownerId p' = None \<and> upgradeLevel p' = 0))
   \<and> (newState_use (useSellProperty s i c a b d) = Some t \<longrightarrow>
          (\<exists>sold. sold \<noteq> [] \<and> set sold \<subseteq> set (properties s)
             \<and> (\<forall>p\<in>set sold.
                    ownerId p
                      = Some (if targetType (effect c) = Some ''current_city_all'' \<and> truthy d
                              then i
                              else if targetType (effect c) = Some ''opponent_forced'' \<and> truthy b
                                   then string_of b else i))
             \<and> properties t = foldl (\<lambda>acc p. toMarket (id_prop p) acc) (properties s) sold
             \<and> (\<forall>p\<in>set sold. \<forall>p'\<in>set (properties t).
                    id_prop p' = id_prop p \<longrightarrow> ownerId p' = None \<and> upgradeLevel p' = 0))
        \<and> marketReset (properties s) (properties t))
   \<and> (newState_use (useMonopolyBreak s i c) = Some u \<longrightarrow>
          (\<exists>p\<in>set (properties s). \<exists>w. ownerId p = Some w \<and> w \<noteq> i
             \<and> properties u = toMarket (id_prop p) (properties s)
             \<and> (\<forall>p'\<in>set (properties u).
                    id_prop p' = id_prop p \<longrightarrow> ownerId p' = None \<and> upgradeLevel p' = 0))
        \<and> marketReset (properties s) (properties u))"
proof (intro conjI impI allI)
  let ?owned = "filter (\<lambda>p. ownerId p = Some (id_player target)) (properties s)"
  assume a: "?owned \<noteq> [] \<and> draw rSell < 1 / 2"
  let ?sold = "randomPick ?owned rPick"
  from a have ne: "?owned \<noteq> []" by simp
  have "?sold \<in> set ?owned" using ne by (rule randomPick_in_set)
  then have m: "?sold \<in> set (properties s)" "ownerId ?sold = Some (id_player target)"
    by simp_all
  have eq: "properties (normalAction s target rSell rPick rRate) = unown ?sold (properties s)"
    using a by (simp add: normalAction_sale)
  have c1: "properties (normalAction s target rSell rPick rRate)
            = map (\<lambda>p. if id_prop p = id_prop ?sold then p\<lparr>ownerId := None\<rparr> else p)
                  (properties s)"
    unfolding eq by (simp add: unown_def)
  have c2: "map upgradeLevel (properties (normalAction s target rSell rPick rRate))
            = map upgradeLevel (properties s)"
    unfolding eq by (rule unown_levels)
  have c3: "\<forall>p'\<in>set (properties (normalAction s target rSell rPick rRate)).
              id_prop p' = id_prop ?sold \<longrightarrow> ownerId p' = None"
    unfolding eq using unown_owner by blast
  from m(2) c1 c2 c3
  have "ownerId ?sold = Some (id_player target)
        \<and> properties (normalAction s target rSell rPick rRate)
            = map (\<lambda>p. if id_prop p = id_prop ?sold then p\<lparr>ownerId := None\<rparr> else p)
                  (properties s)
        \<and> map upgradeLevel (properties (normalAction s target rSell rPick rRate))
            = map upgradeLevel (properties s)
        \<and> (\<forall>p'\<in>set (properties (normalAction s target rSell rPick rRate)).
              id_prop p' = id_prop ?sold \<longrightarrow> ownerId p' = None)"
    by (intro conjI)
  with m(1) show "\<exists>prop\<in>set (properties s).
          ownerId prop = Some (id_player target)
        \<and> properties (normalAction s target rSell rPick rRate)
            = map (\<lambda>p. if id_prop p = id_prop prop then p\<lparr>ownerId := None\<rparr> else p)
                  (properties s)
        \<and> map upgradeLevel (properties (normalAction s target rSell rPick rRate))
            = map upgradeLevel (properties s)
        \<and> (\<forall>p'\<in>set (properties (normalAction s target rSell rPick rRate)).
              id_prop p' = id_prop prop \<longrightarrow> ownerId p' = None)"
    by (rule bexI [rotated])
next
  assume a: "randomPick [sell_all, steal_big, affect_all] rAction = sell_all
        \<and> filter (\<lambda>p. ownerId p = Some (id_player target)) (properties s) \<noteq> []"
  then show "map upgradeLevel (properties (kingAction s target rAction rRate))
            = map upgradeLevel (properties s)"
    by (simp add: kingAction_sale foldl_unown_levels)
next
  assume a: "randomPick [sell_all, steal_big, affect_all] rAction = sell_all
        \<and> filter (\<lambda>p. ownerId p = Some (id_player target)) (properties s) \<noteq> []"
  then show "\<forall>prop\<in>set (take 3 (filter (\<lambda>p. ownerId p = Some (id_player target))
                                        (properties s))).
            \<forall>p'\<in>set (properties (kingAction s target rAction rRate)).
              id_prop p' = id_prop prop \<longrightarrow> ownerId p' = None"
    unfolding kingAction_sale [OF conjunct1 [OF a] conjunct2 [OF a]]
    using foldl_unown_owner by blast
next
  fix player property
  assume "find (\<lambda>p. id_player p = playerId) (players s) = Some player
        \<and> find (\<lambda>p. id_prop p = propertyId) (properties s) = Some property
        \<and> ownerId property = Some playerId"
  then have "properties (sellPropertyForcibly s playerId propertyId)
               = toMarket propertyId (properties s)"
    using sellPropertyForcibly_reset by blast
  then show "\<forall>p'\<in>set (properties (sellPropertyForcibly s playerId propertyId)).
             id_prop p' = propertyId \<longrightarrow> ownerId p' = None \<and> upgradeLevel p' = 0"
    using toMarket_reset by metis
next
  assume n: "newState_use (useSellProperty s i c a b d) = Some t"
  from useSellProperty_sold [OF n] obtain sold where
    s1: "sold \<noteq> []" and s2: "set sold \<subseteq> set (properties s)"
    and s3: "\<forall>p\<in>set sold.
               ownerId p
                 = Some (if targetType (effect c) = Some ''current_city_all'' \<and> truthy d
                         then i
                         else if targetType (effect c) = Some ''opponent_forced'' \<and> truthy b
                              then string_of b else i)"
    and s4: "properties t = foldl (\<lambda>acc p. toMarket (id_prop p) acc) (properties s) sold"
    by blast
  have s5: "\<forall>p\<in>set sold. \<forall>p'\<in>set (properties t).
              id_prop p' = id_prop p \<longrightarrow> ownerId p' = None \<and> upgradeLevel p' = 0"
  proof (rule ballI)
    fix p assume "p \<in> set sold"
    then show "\<forall>p'\<in>set (properties t).
                 id_prop p' = id_prop p \<longrightarrow> ownerId p' = None \<and> upgradeLevel p' = 0"
      unfolding s4 by (rule foldl_toMarket_reset)
  qed
  from s1 s2 s3 s4 s5
  show "\<exists>sold. sold \<noteq> [] \<and> set sold \<subseteq> set (properties s)
             \<and> (\<forall>p\<in>set sold.
                    ownerId p
                      = Some (if targetType (effect c) = Some ''current_city_all'' \<and> truthy d
                              then i
                              else if targetType (effect c) = Some ''opponent_forced'' \<and> truthy b
                                   then string_of b else i))
             \<and> properties t = foldl (\<lambda>acc p. toMarket (id_prop p) acc) (properties s) sold
             \<and> (\<forall>p\<in>set sold. \<forall>p'\<in>set (properties t).
                    id_prop p' = id_prop p \<longrightarrow> ownerId p' = None \<and> upgradeLevel p' = 0)"
    by (intro exI [of _ sold] conjI)
next
  assume "newState_use (useSellProperty s i c a b d) = Some t"
  then show "marketReset (properties s) (properties t)" by (rule useSellProperty_reset)
next
  assume n: "newState_use (useMonopolyBreak s i c) = Some u"
  from useMonopolyBreak_sold [OF n] obtain p w where
    m1: "p \<in> set (properties s)" and m2: "ownerId p = Some w" and m3: "w \<noteq> i"
    and m4: "properties u = toMarket (id_prop p) (properties s)"
    by blast
  have m5: "\<forall>p'\<in>set (properties u).
              id_prop p' = id_prop p \<longrightarrow> ownerId p' = None \<and> upgradeLevel p' = 0"
    unfolding m4 by (intro ballI impI) (rule toMarket_reset)
  from m2 m3 m4 m5
  have "\<exists>w. ownerId p = Some w \<and> w \<noteq> i
             \<and> properties u = toMarket (id_prop p) (properties s)
             \<and> (\<forall>p'\<in>set (properties u).
                    id_prop p' = id_prop p \<longrightarrow> ownerId p' = None \<and> upgradeLevel p' = 0)"
    by (intro exI [of _ w] conjI)
  with m1
  show "\<exists>p\<in>set (properties s). \<exists>w. ownerId p = Some w \<and> w \<noteq> i
             \<and> properties u = toMarket (id_prop p) (properties s)
             \<and> (\<forall>p'\<in>set (properties u).
                    id_prop p' = id_prop p \<longrightarrow> ownerId p' = None \<and> upgradeLevel p' = 0)"
    by (rule bexI [rotated])
next
  assume "newState_use (useMonopolyBreak s i c) = Some u"
  then show "marketReset (properties s) (properties u)" by (rule useMonopolyBreak_reset)
qed

theorem forced_sale_upgradeLevel_witness:
  "filter (\<lambda>p. ownerId p = Some (id_player upgraded_p1)) (properties upgraded_state) \<noteq> []
   \<and> draw random_zero < 1 / 2
   \<and> map upgradeLevel
         (properties (normalAction upgraded_state upgraded_p1 random_zero random_zero random_zero))
       = map upgradeLevel (properties upgraded_state)
   \<and> map (\<lambda>p. (ownerId p, upgradeLevel p))
         (properties (normalAction upgraded_state upgraded_p1 random_zero random_zero random_zero))
       = [(None, 1), (None, 0)]
   \<and> map (\<lambda>p. (ownerId p, upgradeLevel p))
         (properties (kingAction upgraded_state upgraded_p1 random_zero random_zero))
       = [(None, 1), (None, 0)]
   \<and> map (\<lambda>p. (ownerId p, upgradeLevel p))
         (properties (sellPropertyForcibly upgraded_state ''p1'' ''prop1''))
       = [(None, 0), (None, 0)]
   \<and> (\<exists>t. newState_use (useSellProperty upgraded_state ''p1'' card_sell None None None) = Some t
          \<and> map (\<lambda>p. (ownerId p, upgradeLevel p)) (properties t) = [(None, 0), (None, 0)]
          \<and> map money (players t) = [8000, 10000]
          \<and> marketReset (properties upgraded_state) (properties t))
   \<and> (\<exists>t. newState_use (useMonopolyBreak upgraded_state ''p2'' card_break) = Some t
          \<and> map (\<lambda>p. (ownerId p, upgradeLevel p)) (properties t) = [(None, 0), (None, 0)]
          \<and> map money (players t) = [7800, 10000]
          \<and> marketReset (properties upgraded_state) (properties t))
   \<and> (\<exists>s1 s2. newState (buyProperty test_state ''p1'' ''prop1'') = Some s1
          \<and> newState (upgradeProperty s1 ''p1'' ''prop1'') = Some s2
          \<and> properties s2 = properties upgraded_state
          \<and> map money (players s2) = map money (players upgraded_state))"
proof -
  have h: "filter (\<lambda>p. ownerId p = Some (id_player upgraded_p1)) (properties upgraded_state) \<noteq> []
           \<and> draw random_zero < 1 / 2"
    by (simp add: upgraded_state_def upgraded_p1_def makeState_def makePlayer_def
          makeProperty_def draw_random_zero)
  note T = forced_sale_upgradeLevel [where target = upgraded_p1 and s = upgraded_state
         and rSell = random_zero and rPick = random_zero and rRate = random_zero]
  from T [THEN conjunct1, THEN mp, OF h]
  have lv: "map upgradeLevel
         (properties (normalAction upgraded_state upgraded_p1 random_zero random_zero random_zero))
       = map upgradeLevel (properties upgraded_state)"
    by blast
  have e': "map (\<lambda>p. (ownerId p, upgradeLevel p))
         (properties (normalAction upgraded_state upgraded_p1 random_zero random_zero random_zero))
       = [(None, 1), (None, 0)]"
    by (simp add: sale_example_normal makeProperty_def)
  have k': "map (\<lambda>p. (ownerId p, upgradeLevel p))
         (properties (kingAction upgraded_state upgraded_p1 random_zero random_zero))
       = [(None, 1), (None, 0)]"
    by (simp add: sale_example_king makeProperty_def)
  have f': "map (\<lambda>p. (ownerId p, upgradeLevel p))
         (properties (sellPropertyForcibly upgraded_state ''p1'' ''prop1''))
       = [(None, 0), (None, 0)]"
    by (simp add: sale_example_forcibly makeProperty_def)
  from sale_example_card obtain tc where
    c0: "newState_use (useSellProperty upgraded_state ''p1'' card_sell None None None) = Some tc
         \<and> map (\<lambda>p. (ownerId p, upgradeLevel p)) (properties tc) = [(None, 0), (None, 0)]
         \<and> map money (players tc) = [8000, 10000]"
    ..
  note cs = c0 [THEN conjunct1] and cp = c0 [THEN conjunct2, THEN conjunct1]
    and cm = c0 [THEN conjunct2, THEN conjunct2]
  from T [THEN conjunct2, THEN conjunct2, THEN conjunct2, THEN conjunct1, THEN mp, OF cs]
  have cr: "marketReset (properties upgraded_state) (properties tc)"
    by (rule conjunct2)
  from cs cp cm cr
  have c': "\<exists>t. newState_use (useSellProperty upgraded_state ''p1'' card_sell None None None) = Some t
          \<and> map (\<lambda>p. (ownerId p, upgradeLevel p)) (properties t) = [(None, 0), (None, 0)]
          \<and> map money (players t) = [8000, 10000]
          \<and> marketReset (properties upgraded_state) (properties t)"
    by (intro exI [of _ tc] conjI)
  from sale_example_break obtain tb where
    b0: "newState_use (useMonopolyBreak upgraded_state ''p2'' card_break) = Some tb
         \<and> map (\<lambda>p. (ownerId p, upgradeLevel p)) (properties tb) = [(None, 0), (None, 0)]
         \<and> map money (players tb) = [7800, 10000]"
    ..
  note bs = b0 [THEN conjunct1] and bp = b0 [THEN conjunct2, THEN conjunct1]
    and bm = b0 [THEN conjunct2, THEN conjunct2]
  from T [THEN conjunct2, THEN conjunct2, THEN conjunct2, THEN conjunct2, THEN mp, OF bs]
  have br: "marketReset (properties upgraded_state) (properties tb)"
    by (rule conjunct2)
  from bs bp bm br
  have b': "\<exists>t. newState_use (useMonopolyBreak upgraded_state ''p2'' card_break) = Some t
          \<and> map (\<lambda>p. (ownerId p, upgradeLevel p)) (properties t) = [(None, 0), (None, 0)]
          \<and> map money (players t) = [7800, 10000]
          \<and> marketReset (properties upgraded_state) (properties t)"
    by (intro exI [of _ tb] conjI)
  from h have h1: "filter (\<lambda>p. ownerId p = Some (id_player upgraded_p1)) (properties upgraded_state) \<noteq> []"
    and h2: "draw random_zero < 1 / 2"
    by simp_all
  from h1 h2 lv e' k' f' c' b' upgraded_reachable show ?thesis by (intro conjI)
qed

section \<open>Pay cards\<close>

lemma find_map_same:
  "(\<And>x. P (f x) = P x) \<Longrightarrow> (\<And>x. P x \<Longrightarrow> f x = x) \<Longrightarrow> find P (map f xs) = find P xs"
  by (induction xs) auto

lemma payLoop_find:
  "payLoop v opps (t, r, ps) = (t', r', ps') \<Longrightarrow> \<forall>opp\<in>set opps. id_player opp \<noteq> i \<Longrightarrow>
     find (\<lambda>p. id_player p = i) ps' = find (\<lambda>p. id_player p = i) ps"
proof (induction opps arbitrary: t r ps)
  case Nil
  then show ?case by simp
next
  case (Cons opp opps)
  show ?case
  proof (cases "r \<le> 0")
    case True
    with Cons.prems show ?thesis by simp
  next
    case False
    let ?ps = "map (\<lambda>p. if id_player p = id_player opp
                         then p\<lparr>money := money p + min v r, totalAssets := totalAssets p + min v r\<rparr>
                         else p) ps"
    from Cons.prems(1) False have "payLoop v opps (t + min v r, r - min v r, ?ps) = (t', r', ps')"
      by (simp add: Let_def)
    from Cons.IH [OF this] Cons.prems(2)
    have "find (\<lambda>p. id_player p = i) ps' = find (\<lambda>p. id_player p = i) ?ps" by simp
    also have "\<dots> = find (\<lambda>p. id_player p = i) ps"
      using Cons.prems(2) by (intro find_map_same) auto
    finally show ?thesis .
  qed
qed

lemma pay_step:
  fixes v r w :: int
  assumes "0 \<le> w" "0 < r" "0 \<le> v"
  shows "min v r + min w (r - min v r) = min (w + v) r"
  using assms by (auto simp: min_def)

lemma payLoop_total_nonneg:
  "payLoop v opps (t, r, ps) = (t', r', ps') \<Longrightarrow> 0 \<le> v \<Longrightarrow> 0 \<le> r \<Longrightarrow>
     t' = t + min (v * int (length opps)) r"
proof (induction opps arbitrary: t r ps)
  case Nil
  then show ?case by simp
next
  case (Cons opp opps)
  show ?case
  proof (cases "r \<le> 0")
    case True
    with Cons.prems have "r = 0" "t' = t" by simp_all
    moreover have "0 \<le> v * int (length (opp # opps))" using Cons.prems(2) by simp
    ultimately show ?thesis by (simp add: min_def)
  next
    case False
    let ?ps = "map (\<lambda>p. if id_player p = id_player opp
                         then p\<lparr>money := money p + min v r, totalAssets := totalAssets p + min v r\<rparr>
                         else p) ps"
    from Cons.prems(1) False have "payLoop v opps (t + min v r, r - min v r, ?ps) = (t', r', ps')"
      by (simp add: Let_def)
    from Cons.IH [OF this] Cons.prems(2) False
    have "t' = t + min v r + min (v * int (length opps)) (r - min v r)" by simp
    moreover have "0 \<le> v * int (length opps)" using Cons.prems(2) by simp
    ultimately have "t' = t + min (v * int (length opps) + v) r"
      using pay_step [of "v * int (length opps)" r v] False Cons.prems(2) by simp
    then show ?thesis by (simp add: algebra_simps)
  qed
qed

lemma payLoop_total_neg:
  "payLoop v opps (t, r, ps) = (t', r', ps') \<Longrightarrow> v < 0 \<Longrightarrow> 0 < r \<Longrightarrow>
     t' = t + v * int (length opps)"
proof (induction opps arbitrary: t r ps)
  case Nil
  then show ?case by simp
next
  case (Cons opp opps)
  let ?ps = "map (\<lambda>p. if id_player p = id_player opp
                       then p\<lparr>money := money p + v, totalAssets := totalAssets p + v\<rparr>
                       else p) ps"
  from Cons.prems have "payLoop v opps (t + v, r - v, ?ps) = (t', r', ps')"
    by (simp add: Let_def)
  from Cons.IH [OF this] Cons.prems(2,3)
  have "t' = t + v + v * int (length opps)" by simp
  then show ?case by (simp add: algebra_simps)
qed

lemma payLoop_bound:
  "payLoop v opps (t, r, ps) = (t', r', ps') \<Longrightarrow> 0 \<le> r \<Longrightarrow> t' - t \<le> r"
proof (induction opps arbitrary: t r ps)
  case Nil
  then show ?case by simp
next
  case (Cons opp opps)
  show ?case
  proof (cases "r \<le> 0")
    case True
    with Cons.prems show ?thesis by simp
  next
    case False
    let ?ps = "map (\<lambda>p. if id_player p = id_player opp
                         then p\<lparr>money := money p + min v r, totalAssets := totalAssets p + min v r\<rparr>
                         else p) ps"
    from Cons.prems(1) False have "payLoop v opps (t + min v r, r - min v r, ?ps) = (t', r', ps')"
      by (simp add: Let_def)
    from Cons.IH [OF this] have "t' - (t + min v r) \<le> r - min v r" by simp
    then show ?thesis by simp
  qed
qed

lemma payLoop_total:
  assumes "payLoop v opps (t, r, ps) = (t', r', ps')" and "0 \<le> r" and "0 \<le> v \<or> 0 < r"
  shows "t' = t + min (v * int (length opps)) r"
proof (cases "0 \<le> v")
  case True
  with assms show ?thesis by (simp add: payLoop_total_nonneg)
next
  case False
  with assms have v: "v < 0" and r: "0 < r" by simp_all
  from payLoop_total_neg [OF assms(1) v r] have t: "t' = t + v * int (length opps)" .
  have "v * int (length opps) \<le> 0" using v by (simp add: mult_le_0_iff)
  with r t show ?thesis by (simp add: min_def)
qed

lemma find_deduct:
  assumes "find (\<lambda>p. id_player p = playerId) ps = Some player"
  shows "find (\<lambda>p. id_player p = playerId) (map (deduct playerId a) ps)
           = Some (player\<lparr>money := money player - a, totalAssets := totalAssets player - a\<rparr>)"
proof -
  have "find (\<lambda>p. id_player p = playerId) (map (deduct playerId a) ps)
          = map_option (deduct playerId a) (find (\<lambda>p. id_player p = playerId) ps)"
    by (rule find_map_pres) (simp add: deduct_def)
  with assms find_Some_holds [OF assms] show ?thesis by (simp add: deduct_def)
qed

lemma usePayMoney_single:
  assumes pl: "find (\<lambda>p. id_player p = playerId) (players state) = Some player"
      and tt: "targetType (effect crd) \<noteq> Some ''all_players_each''"
  shows "usePayMoney state playerId crd
           = Inr (ok_use (state\<lparr>players :=
               map (deduct playerId (min (requestedPayment state playerId player crd) (money player)))
                   (players state)\<rparr>))"
  using tt
  by (simp add: usePayMoney_def pl Let_def requestedPayment_def cardValue_def [symmetric]
        reduce_sum_eq deduct_def [abs_def])

lemma usePayMoney_each:
  assumes pl: "find (\<lambda>p. id_player p = playerId) (players state) = Some player"
      and tt: "targetType (effect crd) = Some ''all_players_each''"
      and lp: "payLoop (cardValue crd) (filter (\<lambda>p. id_player p \<noteq> playerId) (players state))
                 (0, money player, players state) = (totalPaid, remaining, newPlayers)"
  shows "usePayMoney state playerId crd
           = Inr (ok_use (state\<lparr>players := map (deduct playerId totalPaid) newPlayers\<rparr>))"
  using tt lp
  by (simp add: usePayMoney_def pl Let_def cardValue_def [symmetric] deduct_def [abs_def])

text \<open>
  The general fact: the money is never negative afterwards, and the deduction is the minimum
  of the requested amount and the money except, possibly, for a per-opponent card with a
  negative amount used with no money.
\<close>

lemma usePayMoney_deducts:
  assumes pl: "find (\<lambda>p. id_player p = playerId) (players state) = Some player"
      and m: "0 \<le> money player"
  shows "\<exists>s' player'.
           usePayMoney state playerId crd = Inr (ok_use s')
         \<and> find (\<lambda>p. id_player p = playerId) (players s') = Some player'
         \<and> 0 \<le> money player'
         \<and> (targetType (effect crd) \<noteq> Some ''all_players_each''
              \<or> 0 \<le> cardValue crd \<or> 0 < money player \<longrightarrow>
              money player'
                = money player - min (requestedPayment state playerId player crd) (money player))"
proof (cases "targetType (effect crd) = Some ''all_players_each''")
  case False
  let ?a = "min (requestedPayment state playerId player crd) (money player)"
  let ?s = "state\<lparr>players := map (deduct playerId ?a) (players state)\<rparr>"
  let ?p = "player\<lparr>money := money player - ?a, totalAssets := totalAssets player - ?a\<rparr>"
  have 1: "usePayMoney state playerId crd = Inr (ok_use ?s)"
    using pl False by (rule usePayMoney_single)
  have 2: "find (\<lambda>p. id_player p = playerId) (players ?s) = Some ?p"
    using find_deduct [OF pl] by simp
  have 3: "0 \<le> money ?p" by simp
  have 4: "money ?p = money player - ?a" by simp
  from 1 2 3 4 show ?thesis by blast
next
  case True
  let ?opps = "filter (\<lambda>p. id_player p \<noteq> playerId) (players state)"
  obtain totalPaid remaining newPlayers where
    lp: "payLoop (cardValue crd) ?opps (0, money player, players state)
           = (totalPaid, remaining, newPlayers)"
    by (cases "payLoop (cardValue crd) ?opps (0, money player, players state)")
  let ?s = "state\<lparr>players := map (deduct playerId totalPaid) newPlayers\<rparr>"
  let ?p = "player\<lparr>money := money player - totalPaid,
                    totalAssets := totalAssets player - totalPaid\<rparr>"
  have 1: "usePayMoney state playerId crd = Inr (ok_use ?s)"
    using pl True lp by (rule usePayMoney_each)
  have "find (\<lambda>p. id_player p = playerId) newPlayers
          = find (\<lambda>p. id_player p = playerId) (players state)"
    using lp by (rule payLoop_find) simp
  with pl have "find (\<lambda>p. id_player p = playerId) newPlayers = Some player" by simp
  from find_deduct [OF this]
  have 2: "find (\<lambda>p. id_player p = playerId) (players ?s) = Some ?p" by simp
  have "totalPaid - 0 \<le> money player" using lp m by (rule payLoop_bound)
  then have 3: "0 \<le> money ?p" by simp
  have 4: "0 \<le> cardValue crd \<or> 0 < money player \<longrightarrow>
             money ?p = money player - min (requestedPayment state playerId player crd) (money player)"
  proof
    assume "0 \<le> cardValue crd \<or> 0 < money player"
    from payLoop_total [OF lp m this]
    have "totalPaid = min (cardValue crd * int (length ?opps)) (money player)" by simp
    then show "money ?p = money player - min (requestedPayment state playerId player crd) (money player)"
      using True by (simp add: requestedPayment_def)
  qed
  from 1 2 3 4 True show ?thesis by blast
qed

text \<open>
  Claim C6. For a pay card of any variant (flat, percentage of the value of the owned
  properties, percentage of the total assets, per opponent) with a non-negative amount, used
  by a known player whose money is not negative, \<open>usePayMoney\<close> succeeds, the amount
  deducted from the player's money is the minimum of the requested amount and the player's
  money, and the player's money is not negative afterwards.
\<close>

theorem usePayMoney_deducts_min:
  assumes pl: "find (\<lambda>p. id_player p = playerId) (players state) = Some player"
      and m: "0 \<le> money player"
      and v: "0 \<le> cardValue crd"
  shows "\<exists>s' player'.
           usePayMoney state playerId crd = Inr (ok_use s')
         \<and> find (\<lambda>p. id_player p = playerId) (players s') = Some player'
         \<and> money player'
             = money player - min (requestedPayment state playerId player crd) (money player)
         \<and> 0 \<le> money player'"
  using usePayMoney_deducts [OF pl m, of crd] v by blast

lemma pay_example_flat:
  "usePayMoney poor_state ''poor'' card_pay
     = Inr (ok_use (makeState [(makePlayer ''poor'' 0), makePlayer ''p2'' 10000] []))"
  by (simp add: usePayMoney_def poor_state_def card_pay_def makeState_def makePlayer_def Let_def)

lemma pay_example_each:
  "usePayMoney three_state ''p1'' card_pay_each
     = Inr (ok_use (makeState [makePlayer ''p1'' 0, makePlayer ''p2'' 10200,
                               makePlayer ''p3'' 10100] []))"
  by (simp add: usePayMoney_def three_state_def card_pay_each_def makeState_def makePlayer_def
        Let_def)

theorem usePayMoney_deducts_min_witness:
  "find (\<lambda>p. id_player p = ''poor'') (players poor_state) = Some (makePlayer ''poor'' 200)
   \<and> 0 \<le> money (makePlayer ''poor'' 200)
   \<and> 0 \<le> cardValue card_pay
   \<and> (\<exists>s' player'.
         usePayMoney poor_state ''poor'' card_pay = Inr (ok_use s')
         \<and> find (\<lambda>p. id_player p = ''poor'') (players s') = Some player'
         \<and> money player' = 0)
   \<and> (\<exists>s' player'.
         usePayMoney three_state ''p1'' card_pay_each = Inr (ok_use s')
         \<and> find (\<lambda>p. id_player p = ''p1'') (players s') = Some player'
         \<and> money player' = 0)
   \<and> usePayMoney three_state ''p1'' card_pay_each
       = Inr (ok_use (makeState [makePlayer ''p1'' 0, makePlayer ''p2'' 10200,
                                 makePlayer ''p3'' 10100] []))"
proof -
  have h1: "find (\<lambda>p. id_player p = ''poor'') (players poor_state) = Some (makePlayer ''poor'' 200)"
    by (simp add: poor_state_def makeState_def makePlayer_def)
  have h2: "0 \<le> money (makePlayer ''poor'' 200)"
    by (simp add: makePlayer_def)
  have r1: "min (requestedPayment poor_state ''poor'' (makePlayer ''poor'' 200) card_pay)
                (money (makePlayer ''poor'' 200)) = 200"
    by (simp add: requestedPayment_def cardValue_def card_pay_def makePlayer_def)
  have t1: "0 \<le> cardValue card_pay"
    by (simp add: cardValue_def card_pay_def)
  from usePayMoney_deducts_min [OF h1 h2 t1] r1
  have c1: "\<exists>s' player'.
         usePayMoney poor_state ''poor'' card_pay = Inr (ok_use s')
         \<and> find (\<lambda>p. id_player p = ''poor'') (players s') = Some player'
         \<and> money player' = 0"
    by (auto simp: makePlayer_def)
  have h3: "find (\<lambda>p. id_player p = ''p1'') (players three_state) = Some (makePlayer ''p1'' 300)"
    by (simp add: three_state_def makeState_def makePlayer_def)
  have h4: "0 \<le> money (makePlayer ''p1'' 300)"
    by (simp add: makePlayer_def)
  have r2: "min (requestedPayment three_state ''p1'' (makePlayer ''p1'' 300) card_pay_each)
                (money (makePlayer ''p1'' 300)) = 300"
    by (simp add: requestedPayment_def cardValue_def card_pay_each_def makePlayer_def
          three_state_def makeState_def)
  have t2: "0 \<le> cardValue card_pay_each"
    by (simp add: cardValue_def card_pay_each_def)
  from usePayMoney_deducts_min [OF h3 h4 t2] r2
  have c2: "\<exists>s' player'.
         usePayMoney three_state ''p1'' card_pay_each = Inr (ok_use s')
         \<and> find (\<lambda>p. id_player p = ''p1'') (players s') = Some player'
         \<and> money player' = 0"
    by (auto simp: makePlayer_def)
  from h1 h2 t1 c1 c2 pay_example_each show ?thesis by (intro conjI)
qed
section \<open>Using a card: errors and the hand\<close>

lemma find_same_hand:
  "map handKey xs = map handKey ys \<Longrightarrow> find (\<lambda>p. id_player p = i) ys = Some p \<Longrightarrow>
     \<exists>p'. find (\<lambda>p. id_player p = i) xs = Some p' \<and> hand p' = hand p"
proof (induction xs arbitrary: ys)
  case Nil
  then show ?case by simp
next
  case (Cons x xs)
  then obtain y ys' where ys: "ys = y # ys'" by (cases ys) auto
  with Cons.prems have k: "handKey x = handKey y" "map handKey xs = map handKey ys'" by simp_all
  show ?case
  proof (cases "id_player y = i")
    case True
    with Cons.prems(2) ys k(1) show ?thesis by (simp add: handKey_def)
  next
    case False
    with Cons.prems(2) ys have "find (\<lambda>p. id_player p = i) ys' = Some p" by simp
    from Cons.IH [OF k(2) this] False k(1) show ?thesis by (simp add: handKey_def)
  qed
qed

lemma find_removeFromHand:
  assumes "find (\<lambda>p. id_player p = playerId) (players s) = Some player"
  shows "find (\<lambda>p. id_player p = playerId) (players (removeFromHand playerId cardId s))
           = Some (player\<lparr>hand := filter (\<lambda>i. i \<noteq> cardId) (hand player)\<rparr>)"
proof -
  let ?f = "\<lambda>p. if id_player p = playerId
                 then p\<lparr>hand := filter (\<lambda>i. i \<noteq> cardId) (hand p)\<rparr> else p"
  have "find (\<lambda>p. id_player p = playerId) (map ?f (players s))
          = map_option ?f (find (\<lambda>p. id_player p = playerId) (players s))"
    by (rule find_map_pres) simp
  with assms find_Some_holds [OF assms] show ?thesis by (simp add: removeFromHand_def)
qed

lemma usePayMoney_no_error:
  "find (\<lambda>p. id_player p = playerId) (players s) = Some player \<Longrightarrow>
     usePayMoney s playerId crd \<noteq> Inl e"
  by (simp add: usePayMoney_def Let_def split: prod.splits)

lemma useCard_no_error: "useCard allCards s playerId cardId options r \<noteq> Inl e"
proof (cases "find (\<lambda>p. id_player p = playerId) (players s)")
  case None
  then show ?thesis by (simp add: useCard_def)
next
  case (Some player)
  note pl = this
  show ?thesis
  proof (cases "getCardById allCards cardId")
    case None
    with pl show ?thesis by (simp add: useCard_def)
  next
    case (Some crd)
    show ?thesis
    proof (cases "cardId \<in> set (hand player)")
      case False
      with pl Some show ?thesis by (simp add: useCard_def)
    next
      case True
      from find_removeFromHand [OF pl]
      have "usePayMoney (removeFromHand playerId cardId s) playerId crd \<noteq> Inl e"
        by (rule usePayMoney_no_error)
      then show ?thesis
        unfolding useCard_found [OF pl Some True]
        by (simp add: Let_def split: CardType.splits)
    qed
  qed
qed

lemma useCardSteal_hand:
  assumes f: "find (\<lambda>p. id_player p = stealerId) (players s) = Some stealer"
      and n: "newState_use (useCardSteal s stealerId targetId c r) = Some t"
  shows "\<exists>stolen p'. find (\<lambda>p. id_player p = stealerId) (players t) = Some p'
            \<and> hand p' = hand stealer @ [stolen]"
proof -
  from n obtain stolen where
    t: "t = s\<lparr>players :=
              map (\<lambda>p. if id_player p = stealerId then p\<lparr>hand := hand p @ [stolen]\<rparr>
                         else if id_player p = targetId
                         then p\<lparr>hand := filter (\<lambda>i. i \<noteq> stolen) (hand p)\<rparr>
                         else p)
                  (players s)\<rparr>"
    by (auto simp: useCardSteal_def Let_def ok_use_state fail_use_state
          split: option.splits if_splits)
  let ?f = "\<lambda>p. if id_player p = stealerId then p\<lparr>hand := hand p @ [stolen]\<rparr>
                         else if id_player p = targetId
                         then p\<lparr>hand := filter (\<lambda>i. i \<noteq> stolen) (hand p)\<rparr>
                         else p"
  have "find (\<lambda>p. id_player p = stealerId) (map ?f (players s))
          = map_option ?f (find (\<lambda>p. id_player p = stealerId) (players s))"
    by (rule find_map_pres) simp
  with f find_Some_holds [OF f]
  have "find (\<lambda>p. id_player p = stealerId) (players t) = Some (stealer\<lparr>hand := hand stealer @ [stolen]\<rparr>)"
    unfolding t by simp
  then show ?thesis by auto
qed

lemma useCard_handKeys:
  assumes f: "find (\<lambda>p. id_player p = playerId) (players s) = Some player"
             "getCardById allCards cardId = Some crd" "cardId \<in> set (hand player)"
      and u: "useCard allCards s playerId cardId options r = Inr res"
      and n: "newState_use res = Some t"
      and ns: "type_card crd \<noteq> card_steal"
  shows "map handKey (players t) = map handKey (players (removeFromHand playerId cardId s))"
proof -
  define removed where "removed = removeFromHand playerId cardId s"
  note eq = useCard_found [OF f, of options r, unfolded Let_def, folded removed_def]
  have "map handKey (players t) = map handKey (players removed)"
  proof (cases "type_card crd")
    case move_to_destination
    with u eq n have "sameKeys removed t" by (auto dest: sameKeys_useMoveToDest)
    then show ?thesis by (rule sameKeys_handKey)
  next
    case move_steps
    with u eq n have "t = removed" by (auto simp: ok_use_state)
    then show ?thesis by simp
  next
    case move_to_city
    with u eq n have "sameKeys removed t" by (auto dest: sameKeys_useMoveToCity)
    then show ?thesis by (rule sameKeys_handKey)
  next
    case buy_property
    with u eq n have "sameKeys removed t" by (auto dest: sameKeys_useBuyProperty)
    then show ?thesis by (rule sameKeys_handKey)
  next
    case steal_property
    with u eq n have "sameKeys removed t" by (auto dest: sameKeys_useStealProperty)
    then show ?thesis by (rule sameKeys_handKey)
  next
    case sell_property
    with u eq n have "sameKeys removed t" by (auto dest: sameKeys_useSellProperty)
    then show ?thesis by (rule sameKeys_handKey)
  next
    case get_money
    with u eq n have "sameKeys removed t" by (auto dest: sameKeys_useGetMoney)
    then show ?thesis by (rule sameKeys_handKey)
  next
    case pay_money
    with u eq n have "sameKeys removed t" by (auto dest: sameKeys_usePayMoney)
    then show ?thesis by (rule sameKeys_handKey)
  next
    case bombee_away
    with u eq n have "newState_use (useBombeeAway removed playerId crd) = Some t" by auto
    then show ?thesis by (rule handKey_useBombeeAway)
  next
    case bombee_transfer
    with u eq n have
      "newState_use (useBombeeTransferLastToSecond removed) = Some t
       \<or> newState_use (useBombeeTransfer removed playerId (string_of (targetPlayerId options)))
            = Some t"
      by (auto simp: fail_use_state split: if_splits)
    then show ?thesis
      using handKey_useBombeeTransferLastToSecond handKey_useBombeeTransfer by blast
  next
    case monopoly_break
    with u eq n have "sameKeys removed t" by (auto dest: sameKeys_useMonopolyBreak)
    then show ?thesis by (rule sameKeys_handKey)
  next
    case card_steal
    with ns show ?thesis by simp
  next
    case plus_dice
    with u eq n have "t = removed" by (auto simp: ok_use_state)
    then show ?thesis by simp
  next
    case double_income
    with u eq n have "sameKeys removed t" by (auto dest: sameKeys_useDoubleIncome)
    then show ?thesis by (rule sameKeys_handKey)
  qed
  then show ?thesis by (simp add: removed_def)
qed

lemma useCard_success_hand:
  assumes u: "useCard allCards s playerId cardId options r = Inr res"
      and n: "newState_use res = Some t"
  shows "\<exists>player crd player'.
           find (\<lambda>p. id_player p = playerId) (players s) = Some player
         \<and> getCardById allCards cardId = Some crd
         \<and> cardId \<in> set (hand player)
         \<and> find (\<lambda>p. id_player p = playerId) (players t) = Some player'
         \<and> (type_card crd \<noteq> card_steal \<longrightarrow>
               hand player' = filter (\<lambda>i. i \<noteq> cardId) (hand player)
               \<and> cardId \<notin> set (hand player'))
         \<and> (type_card crd = card_steal \<longrightarrow>
               (\<exists>stolen. hand player' = filter (\<lambda>i. i \<noteq> cardId) (hand player) @ [stolen]))"
proof -
  from useCard_state_found [OF u n] obtain player crd where
    f: "find (\<lambda>p. id_player p = playerId) (players s) = Some player"
       "getCardById allCards cardId = Some crd" "cardId \<in> set (hand player)"
    by blast
  define removed where "removed = removeFromHand playerId cardId s"
  let ?h = "filter (\<lambda>i. i \<noteq> cardId) (hand player)"
  have fr: "find (\<lambda>p. id_player p = playerId) (players removed) = Some (player\<lparr>hand := ?h\<rparr>)"
    unfolding removed_def using f(1) by (rule find_removeFromHand)
  show ?thesis
  proof (cases "type_card crd = card_steal")
    case False
    from useCard_handKeys [OF f u n False]
    have "map handKey (players t) = map handKey (players removed)" by (simp add: removed_def)
    from find_same_hand [OF this fr] obtain player' where
      p: "find (\<lambda>p. id_player p = playerId) (players t) = Some player'" "hand player' = ?h"
      by auto
    then have "cardId \<notin> set (hand player')" by simp
    with f p False show ?thesis by blast
  next
    case True
    note eq = useCard_found [OF f, of options r, unfolded Let_def, folded removed_def]
    from u eq n True have
      "newState_use (useCardSteal removed playerId (string_of (targetPlayerId options))
                       (targetCardId options) r) = Some t"
      by (auto simp: fail_use_state split: if_splits)
    from useCardSteal_hand [OF fr this] obtain stolen player' where
      p: "find (\<lambda>p. id_player p = playerId) (players t) = Some player'"
         "hand player' = ?h @ [stolen]"
      by auto
    with f True show ?thesis by blast
  qed
qed


text \<open>
  Claim C4, amended. \<open>useCard\<close> with an unknown player or card id returns \<open>not_found\<close>,
  and with a card id that is not in the hand of the player returns \<open>not_owner\<close>; neither
  result carries a new state. When \<open>useCard\<close> succeeds, the player and the card are known,
  the card was in the hand, and the hand of the player in the new state is the old hand
  without any copy of the card id, followed, for a \<open>card_steal\<close> card, by the stolen
  card: for every other card type the new hand does not contain the card id.
\<close>

theorem useCard_errors_and_hand:
  "(find (\<lambda>p. id_player p = playerId) (players s) = None \<or> getCardById allCards cardId = None
      \<longrightarrow> useCard allCards s playerId cardId options r = Inr (fail_use not_found))
   \<and> (\<forall>player. find (\<lambda>p. id_player p = playerId) (players s) = Some player
          \<and> getCardById allCards cardId \<noteq> None \<and> cardId \<notin> set (hand player)
      \<longrightarrow> useCard allCards s playerId cardId options r = Inr (fail_use not_owner))
   \<and> newState_use (fail_use not_found) = None \<and> newState_use (fail_use not_owner) = None
   \<and> (\<forall>res t. useCard allCards s playerId cardId options r = Inr res
          \<and> newState_use res = Some t \<longrightarrow>
        (\<exists>player crd player'.
           find (\<lambda>p. id_player p = playerId) (players s) = Some player
         \<and> getCardById allCards cardId = Some crd
         \<and> cardId \<in> set (hand player)
         \<and> find (\<lambda>p. id_player p = playerId) (players t) = Some player'
         \<and> (type_card crd \<noteq> card_steal \<longrightarrow>
               hand player' = filter (\<lambda>i. i \<noteq> cardId) (hand player)
               \<and> cardId \<notin> set (hand player'))
         \<and> (type_card crd = card_steal \<longrightarrow>
               (\<exists>stolen. hand player' = filter (\<lambda>i. i \<noteq> cardId) (hand player) @ [stolen]))))"
proof (intro conjI allI impI)
  assume "find (\<lambda>p. id_player p = playerId) (players s) = None
          \<or> getCardById allCards cardId = None"
  then show "useCard allCards s playerId cardId options r = Inr (fail_use not_found)"
    by (auto simp: useCard_def split: option.splits)
next
  fix player
  assume "find (\<lambda>p. id_player p = playerId) (players s) = Some player
          \<and> getCardById allCards cardId \<noteq> None \<and> cardId \<notin> set (hand player)"
  then show "useCard allCards s playerId cardId options r = Inr (fail_use not_owner)"
    by (auto simp: useCard_def)
next
  show "newState_use (fail_use not_found) = None" by (simp add: fail_use_def)
next
  show "newState_use (fail_use not_owner) = None" by (simp add: fail_use_def)
next
  fix res t
  assume "useCard allCards s playerId cardId options r = Inr res \<and> newState_use res = Some t"
  then show "\<exists>player crd player'.
           find (\<lambda>p. id_player p = playerId) (players s) = Some player
         \<and> getCardById allCards cardId = Some crd
         \<and> cardId \<in> set (hand player)
         \<and> find (\<lambda>p. id_player p = playerId) (players t) = Some player'
         \<and> (type_card crd \<noteq> card_steal \<longrightarrow>
               hand player' = filter (\<lambda>i. i \<noteq> cardId) (hand player)
               \<and> cardId \<notin> set (hand player'))
         \<and> (type_card crd = card_steal \<longrightarrow>
               (\<exists>stolen. hand player' = filter (\<lambda>i. i \<noteq> cardId) (hand player) @ [stolen]))"
    using useCard_success_hand [of allCards s playerId cardId options r res t] by blast
qed

lemma card_example_money:
  "useCard sampleCards card_state ''p1'' ''card_money'' no_options random_zero
     = Inr (ok_use (makeState [makePlayer ''p1'' 6000, makePlayer ''p2'' 10000] []))"
  by (simp add: useCard_def getCardById_def sampleCards_def card_dest_def card_money_def
        card_pay_def card_state_def makeState_def makePlayer_def removeFromHand_def
        useGetMoney_def Let_def)

lemma card_example_theft:
  "useCard [card_theft] theft_state ''p1'' ''card_theft'' theft_options random_zero
     = Inr (ok_use (makeState [(makePlayer ''p1'' 10000)\<lparr>hand := [''card_theft'']\<rparr>,
                               makePlayer ''p2'' 10000] []))"
  by (simp add: useCard_def getCardById_def card_theft_def theft_state_def theft_options_def
        makeState_def makePlayer_def removeFromHand_def useCardSteal_def truthy_def
        string_of_def MAX_CARD_COUNT_def Let_def)


theorem useCard_errors_and_hand_witness:
  "getCardById sampleCards ''nonexistent_card'' = None
   \<and> useCard sampleCards test_state ''p1'' ''nonexistent_card'' no_options random_zero
       = Inr (fail_use not_found)
   \<and> useCard sampleCards test_state ''p1'' ''card_money'' no_options random_zero
       = Inr (fail_use not_owner)
   \<and> useCard sampleCards card_state ''p1'' ''card_money'' no_options random_zero
       = Inr (ok_use (makeState [makePlayer ''p1'' 6000, makePlayer ''p2'' 10000] []))
   \<and> (\<exists>player'. find (\<lambda>p. id_player p = ''p1'')
                     (players (makeState [makePlayer ''p1'' 6000, makePlayer ''p2'' 10000] []))
                   = Some player'
                 \<and> ''card_money'' \<notin> set (hand player'))"
proof -
  have nf: "getCardById sampleCards ''nonexistent_card'' = None"
    by (simp add: getCardById_def sampleCards_def card_dest_def card_money_def card_pay_def)
  have w1: "useCard sampleCards test_state ''p1'' ''nonexistent_card'' no_options random_zero
              = Inr (fail_use not_found)"
    using useCard_errors_and_hand [where s = test_state and playerId = "''p1''"
            and allCards = sampleCards and cardId = "''nonexistent_card''"
            and options = no_options and r = random_zero, THEN conjunct1] nf
    by blast
  have g: "getCardById sampleCards ''card_money'' = Some card_money"
    by (simp add: getCardById_def sampleCards_def card_dest_def card_money_def card_pay_def)
  have no: "find (\<lambda>p. id_player p = ''p1'') (players test_state) = Some (makePlayer ''p1'' 10000)
            \<and> getCardById sampleCards ''card_money'' \<noteq> None
            \<and> ''card_money'' \<notin> set (hand (makePlayer ''p1'' 10000))"
    by (simp add: g test_state_def makeState_def makePlayer_def)
  have w2: "useCard sampleCards test_state ''p1'' ''card_money'' no_options random_zero
              = Inr (fail_use not_owner)"
    using useCard_errors_and_hand [where s = test_state and playerId = "''p1''"
            and allCards = sampleCards and cardId = "''card_money''"
            and options = no_options and r = random_zero,
            THEN conjunct2, THEN conjunct1] no
    by blast
  let ?t = "makeState [makePlayer ''p1'' 6000, makePlayer ''p2'' 10000] []"
  have ok: "useCard sampleCards card_state ''p1'' ''card_money'' no_options random_zero
              = Inr (ok_use ?t) \<and> newState_use (ok_use ?t) = Some ?t"
    by (simp add: card_example_money ok_use_def)
  have ty: "type_card card_money \<noteq> card_steal"
    by (simp add: card_money_def)
  from useCard_errors_and_hand [where s = card_state and playerId = "''p1''"
            and allCards = sampleCards and cardId = "''card_money''"
            and options = no_options and r = random_zero,
            THEN conjunct2, THEN conjunct2, THEN conjunct2, THEN conjunct2,
            THEN spec, THEN spec, THEN mp, OF ok]
  have w3: "\<exists>player'. find (\<lambda>p. id_player p = ''p1'') (players ?t) = Some player'
                 \<and> ''card_money'' \<notin> set (hand player')"
    using g ty by auto
  from nf w1 w2 ok w3 show ?thesis by blast
qed

text \<open>
  Claim C4 as stated fails when a \<open>card_steal\<close> card takes a card of its own id from the
  target: the used card is removed first, the stolen copy is appended, and the resulting
  hand contains the card id.
\<close>

theorem useCard_theft_counterexample:
  "useCard [card_theft] theft_state ''p1'' ''card_theft'' theft_options random_zero
     = Inr (ok_use (makeState [(makePlayer ''p1'' 10000)\<lparr>hand := [''card_theft'']\<rparr>,
                               makePlayer ''p2'' 10000] []))
   \<and> hand ((makePlayer ''p1'' 10000)\<lparr>hand := [''card_theft'']\<rparr>) = [''card_theft'']"
  by (simp add: card_example_theft)

section \<open>Unknown ids\<close>

text \<open>
  Claim C3, amended. An operation given an unknown id returns a typed outcome: \<open>useCard\<close>
  and \<open>buyCard\<close> return \<open>not_found\<close> for an unknown player or card; \<open>buyProperty\<close>
  returns \<open>not_enough_money\<close> for an unknown player or property, \<open>upgradeProperty\<close> a
  failure without a reason, \<open>payLandFee\<close> and \<open>sellPropertyForcibly\<close> the state
  unchanged; a transfer or a theft aimed at an unknown player returns \<open>no_target\<close>; and
  \<open>useCard\<close> never raises.
\<close>

theorem unknown_id_outcomes:
  "(find (\<lambda>p. id_player p = playerId) (players s) = None \<or> getCardById allCards cardId = None
      \<longrightarrow> useCard allCards s playerId cardId options r = Inr (fail_use not_found)
        \<and> buyCard allCards s playerId cardId
            = \<lparr>newState_buy = s, success_buy = False, reason_buy = Some ''not_found''\<rparr>)
   \<and> (find (\<lambda>p. id_player p = playerId) (players s) = None
        \<or> find (\<lambda>p. id_prop p = propertyId) (properties s) = None
      \<longrightarrow> buyProperty s playerId propertyId
            = \<lparr>success = False, reason = Some not_enough_money, newState = None\<rparr>
        \<and> upgradeProperty s playerId propertyId
            = \<lparr>success = False, reason = None, newState = None\<rparr>
        \<and> payLandFee s playerId propertyId = s
        \<and> sellPropertyForcibly s playerId propertyId = s)
   \<and> (find (\<lambda>p. id_player p = toId) (players s) = None
      \<longrightarrow> useBombeeTransfer s playerId toId = fail_use no_target
        \<and> useCardSteal s playerId toId targetCard r = fail_use no_target)
   \<and> useCard allCards s playerId cardId options r \<noteq> Inl TypeError"
proof (intro conjI impI)
  assume a: "find (\<lambda>p. id_player p = playerId) (players s) = None
             \<or> getCardById allCards cardId = None"
  then show "useCard allCards s playerId cardId options r = Inr (fail_use not_found)"
    by (auto simp: useCard_def split: option.splits)
  from a show "buyCard allCards s playerId cardId
            = \<lparr>newState_buy = s, success_buy = False, reason_buy = Some ''not_found''\<rparr>"
    by (auto simp: buyCard_def split: option.splits)
next
  assume a: "find (\<lambda>p. id_player p = playerId) (players s) = None
        \<or> find (\<lambda>p. id_prop p = propertyId) (properties s) = None"
  then show "buyProperty s playerId propertyId
            = \<lparr>success = False, reason = Some not_enough_money, newState = None\<rparr>"
    by (auto simp: buyProperty_def split: option.splits)
  from a show "upgradeProperty s playerId propertyId
            = \<lparr>success = False, reason = None, newState = None\<rparr>"
    by (auto simp: upgradeProperty_def split: option.splits)
  from a show "payLandFee s playerId propertyId = s"
    by (auto simp: payLandFee_def split: option.splits)
  from a show "sellPropertyForcibly s playerId propertyId = s"
    by (auto simp: sellPropertyForcibly_def split: option.splits)
next
  assume a: "find (\<lambda>p. id_player p = toId) (players s) = None"
  then show "useBombeeTransfer s playerId toId = fail_use no_target"
    by (simp add: useBombeeTransfer_def split: option.splits)
  from a show "useCardSteal s playerId toId targetCard r = fail_use no_target"
    by (simp add: useCardSteal_def)
next
  show "useCard allCards s playerId cardId options r \<noteq> Inl TypeError"
    by (rule useCard_no_error)
qed

theorem unknown_id_outcomes_witness:
  "find (\<lambda>p. id_player p = ''ghost'') (players test_state) = None
   \<and> useCard sampleCards test_state ''ghost'' ''card_money'' no_options random_zero
       = Inr (fail_use not_found)
   \<and> buyProperty test_state ''ghost'' ''prop1''
       = \<lparr>success = False, reason = Some not_enough_money, newState = None\<rparr>
   \<and> payLandFee test_state ''ghost'' ''prop1'' = test_state
   \<and> useBombeeTransfer test_state ''p1'' ''ghost'' = fail_use no_target"
proof -
  have h: "find (\<lambda>p. id_player p = ''ghost'') (players test_state) = None"
    by (simp add: test_state_def makeState_def makePlayer_def)
  note T = unknown_id_outcomes [where s = test_state and playerId = "''ghost''"
             and allCards = sampleCards and cardId = "''card_money''" and options = no_options
             and r = random_zero and propertyId = "''prop1''"]
  from T [THEN conjunct1] h
  have w1: "useCard sampleCards test_state ''ghost'' ''card_money'' no_options random_zero
              = Inr (fail_use not_found)"
    by blast
  from T [THEN conjunct2, THEN conjunct1] h
  have w2: "buyProperty test_state ''ghost'' ''prop1''
              = \<lparr>success = False, reason = Some not_enough_money, newState = None\<rparr>"
           "payLandFee test_state ''ghost'' ''prop1'' = test_state"
    by blast+
  from unknown_id_outcomes [where s = test_state and playerId = "''p1''" and toId = "''ghost''",
         THEN conjunct2, THEN conjunct2, THEN conjunct1] h
  have w3: "useBombeeTransfer test_state ''p1'' ''ghost'' = fail_use no_target"
    by blast
  from h w1 w2 w3 show ?thesis by blast
qed

text \<open>
  Claim C3 as stated fails for \<open>buyProperty\<close>: with an unknown player the reason is
  \<open>not_enough_money\<close>, and \<open>not_found\<close> is not among the reasons of a purchase.
\<close>

theorem buyProperty_unknown_counterexample:
  "buyProperty test_state ''ghost'' ''prop1''
     = \<lparr>success = False, reason = Some not_enough_money, newState = None\<rparr>
   \<and> map_option purchaseReasonName (reason (buyProperty test_state ''ghost'' ''prop1''))
       = Some ''not_enough_money''
   \<and> map_option purchaseReasonName (reason (buyProperty test_state ''ghost'' ''prop1''))
       \<noteq> Some (useCardReasonName not_found)"
  by (simp add: buyProperty_def test_state_def makeState_def makePlayer_def makeProperty_def
        purchaseReasonName_def useCardReasonName_def)

text \<open>
  The turn of a player with the \<open>king\<close> debuff whose action is the forced sale
  (\<open>Math.random()\<close> returning 0 selects \<open>sell_all\<close>).
\<close>

lemma king_example:
  "processBombeeAction king_state random_zero random_zero random_zero random_zero
     = king_state_after"
  by (simp add: processBombeeAction_def king_state_def king_state_after_def makeState_def
        makePlayer_def makeProperty_def checkEvolution_def MINI_TO_NORMAL_TURNS_def
        NORMAL_TO_KING_TURNS_def executeBombeeEffect_def kingAction_def randomPick_zero
        floor_times_def maybeMoveToLastPlace_def getLastPlacePlayer_def immune_def
        draw_random_zero Let_def)

lemma normal_example:
  "assetsInvariant
     (normalAction king_state (hd (players king_state)) random_zero random_zero random_zero)"
  by (simp add: normalAction_def assetsInvariant_def king_state_def makeState_def makePlayer_def
        makeProperty_def randomPick_zero draw_random_zero floor_times_def Let_def)

text \<open>
  Claim C1. The total assets of every player are the player's money plus the prices of the
  properties the player owns, after every operation. The forced sale of the \<open>king\<close> action
  breaks it: in a state where it holds, with \<open>p1\<close> holding 7000 and a property of price
  1000, the sale takes the property, leaves \<open>p1\<close> 6700 in money and sets the total assets
  to 7400. \<open>recalcTotalAssets\<close> establishes the equation in every state, and the sale of
  the \<open>normal\<close> action keeps it in the same state.
\<close>

theorem kingAction_breaks_totalAssets:
  "assetsInvariant king_state
   \<and> processBombeeAction king_state random_zero random_zero random_zero random_zero
       = king_state_after
   \<and> \<not> assetsInvariant
         (processBombeeAction king_state random_zero random_zero random_zero random_zero)
   \<and> assetsInvariant
         (normalAction king_state (hd (players king_state)) random_zero random_zero random_zero)
   \<and> assetsInvariant (recalcTotalAssets king_state_after)"
proof -
  have a: "assetsInvariant king_state"
    by (simp add: assetsInvariant_def king_state_def makeState_def makePlayer_def
          makeProperty_def)
  have b: "\<not> assetsInvariant king_state_after"
    by (simp add: assetsInvariant_def king_state_after_def makeState_def makePlayer_def
          makeProperty_def)
  have c: "assetsInvariant (recalcTotalAssets king_state_after)"
    by (simp add: assetsInvariant_def recalcTotalAssets_def reduce_sum_def king_state_after_def
          makeState_def makePlayer_def makeProperty_def)
  from a b c normal_example show ?thesis
    unfolding king_example by (intro conjI refl)
qed


end
